(* ===== verification/Prelude.thy ===== *)
theory Prelude
  imports Main "HOL-Library.Word" "HOL-Library.AList" "HOL-Library.Multiset"
begin

text \<open>
  Shared vocabulary of the development: the machine types of the C++ sources
  (\<open>uint8_t\<close>, \<open>uint32_t\<close>, \<open>int64_t\<close>/\<open>uint64_t\<close> as words), byte buffers,
  the big-endian 32-bit header that \<open>RoutableRepository\<close> writes in front of
  every encoded routable, and generic lemmas on lists, association lists and
  sum types that the component theories share.
\<close>

unbundle bit_operations_syntax

type_synonym u8 = "8 word"
type_synonym u32 = "32 word"
type_synonym w64 = "64 word"
type_synonym bytes = "u8 list"

named_theorems wire_simps "evaluation rules of the wire format"

section \<open>Big-endian 32-bit integers (network byte order)\<close>

text \<open>
  \<open>GrowableByteBuffer::putInt\<close> and \<open>ByteBuffer::getIntNetwork\<close> write and
  read a 32-bit integer most significant byte first.
\<close>

definition u32_be :: "u32 \<Rightarrow> bytes" where
  "u32_be w = [ucast (drop_bit 24 w), ucast (drop_bit 16 w), ucast (drop_bit 8 w), ucast w]"

fun be_u32 :: "bytes \<Rightarrow> u32" where
  "be_u32 [a, b, c, d] =
     push_bit 24 (ucast a) OR push_bit 16 (ucast b) OR push_bit 8 (ucast c) OR ucast d"
| "be_u32 _ = 0"

text \<open>\<open>Inl\<close> is the error (an exception, a failed assertion), \<open>Inr\<close> the result.\<close>

definition sum_bind :: "'e + 'a \<Rightarrow> ('a \<Rightarrow> 'e + 'b) \<Rightarrow> 'e + 'b" where
  "sum_bind x f = (case x of Inl e \<Rightarrow> Inl e | Inr a \<Rightarrow> f a)"

section \<open>Wire format lemmas\<close>

lemma length_u32_be [simp, wire_simps]: "length (u32_be w) = 4"
  by (simp add: u32_be_def)

lemma be_u32_u32_be [simp, wire_simps]: "be_u32 (u32_be w) = w"
proof (rule bit_word_eqI)
  fix n assume "n < LENGTH(32)"
  then consider "n < 8" | "8 \<le> n \<and> n < 16" | "16 \<le> n \<and> n < 24" | "24 \<le> n \<and> n < 32"
    by fastforce
  then show "bit (be_u32 (u32_be w)) n = bit w n"
    by cases (auto simp: u32_be_def bit_simps)
qed

lemma unat_eq_of_nat: "unat (i :: 'a::len word) = n \<Longrightarrow> i = of_nat n"
  by (metis of_nat_unat ucast_id)

lemma unat_of_nat_small: "n < 2 ^ 32 \<Longrightarrow> unat (of_nat n :: u32) = n"
  by (simp add: unat_of_nat)

text \<open>A counter below some bound can be incremented without wrapping.\<close>

lemma unat_succ_below: "(doc :: 'a::len word) < n \<Longrightarrow> unat (doc + 1) = Suc (unat doc)"
proof -
  assume "doc < n"
  then have "unat doc < unat n" by (simp add: word_less_nat_alt)
  moreover have "unat n < 2 ^ LENGTH('a)" by (rule unsigned_less)
  ultimately have "Suc (unat doc) < 2 ^ LENGTH('a)" by linarith
  then have "unat doc + unat (1 :: 'a word) < 2 ^ LENGTH('a)" by simp
  then have "unat (doc + 1) = unat doc + unat (1 :: 'a word)" by (simp only: unat_add_lem)
  then show ?thesis by simp
qed

lemma u32_be_not_Nil [simp, wire_simps]: "u32_be w \<noteq> []"
  by (simp add: u32_be_def)

lemma u32_be_inj: "u32_be v = u32_be w \<Longrightarrow> v = w"
  by (metis be_u32_u32_be)

lemma take_u32_be_append [simp, wire_simps]: "take 4 (u32_be w @ bs) = u32_be w"
  by simp

lemma drop_u32_be_append [simp, wire_simps]: "drop 4 (u32_be w @ bs) = bs"
  by simp

section \<open>Sum types as error results\<close>

lemma sum_bind_simps [simp]:
  "sum_bind (Inl e) f = Inl e"
  "sum_bind (Inr a) f = f a"
  by (simp_all add: sum_bind_def)

lemma sum_bind_eq_Inr [simp]:
  "sum_bind x f = Inr b \<longleftrightarrow> (\<exists>a. x = Inr a \<and> f a = Inr b)"
  by (cases x) simp_all

section \<open>Lists\<close>

text \<open>
  Two lists sorted by a relation that is antisymmetric on their elements and
  holding the same elements with the same multiplicities are equal: the
  result of a sort does not depend on the input order.
\<close>

lemma sorted_wrt_mset_unique:
  assumes "sorted_wrt R xs" "sorted_wrt R ys" "mset xs = mset ys"
    and "\<And>x y. x \<in> set xs \<Longrightarrow> y \<in> set xs \<Longrightarrow> R x y \<Longrightarrow> R y x \<Longrightarrow> x = y"
  shows "xs = ys"
  using assms
proof (induction xs arbitrary: ys)
  case Nil
  then show ?case by simp
next
  case (Cons x xs)
  from Cons.prems(3) obtain y ys' where ys: "ys = y # ys'"
    by (cases ys) auto
  have "x \<in> set ys" using Cons.prems(3) by (metis list.set_intros(1) set_mset_mset)
  have "y \<in> set (x # xs)" using Cons.prems(3) ys by (metis list.set_intros(1) set_mset_mset)
  have xy: "x = y"
  proof (cases "x = y")
    case False
    with \<open>x \<in> set ys\<close> ys have "x \<in> set ys'" by simp
    with Cons.prems(2) ys have "R y x" by simp
    from False \<open>y \<in> set (x # xs)\<close> have "y \<in> set xs" by simp
    with Cons.prems(1) have "R x y" by simp
    from Cons.prems(4) \<open>R x y\<close> \<open>R y x\<close> \<open>y \<in> set (x # xs)\<close> show ?thesis by simp
  qed simp
  have "xs = ys'"
  proof (rule Cons.IH)
    show "sorted_wrt R xs" using Cons.prems(1) by simp
    show "sorted_wrt R ys'" using Cons.prems(2) ys by simp
    show "mset xs = mset ys'" using Cons.prems(3) ys xy by simp
    show "\<And>a b. a \<in> set xs \<Longrightarrow> b \<in> set xs \<Longrightarrow> R a b \<Longrightarrow> R b a \<Longrightarrow> a = b"
      using Cons.prems(4) by simp
  qed
  with xy ys show ?case by simp
qed

lemma find_SomeD: "find P xs = Some x \<Longrightarrow> x \<in> set xs \<and> P x"
  by (induction xs) (auto split: if_splits)

lemma find_append_list:
  "find P (xs @ ys) = (case find P xs of None \<Rightarrow> find P ys | Some x \<Rightarrow> Some x)"
  by (induction xs) auto

lemma distinct_set_singleton: "distinct xs \<Longrightarrow> set xs = {a} \<Longrightarrow> xs = [a]"
  by (cases xs) (auto simp: subset_singleton_iff)

lemma distinct_set_eq_mset_eq:
  "distinct xs \<Longrightarrow> distinct ys \<Longrightarrow> set xs = set ys \<Longrightarrow> mset xs = mset ys"
  by (simp add: set_eq_iff_mset_eq_distinct)

section \<open>Association lists\<close>

lemma map_of_update_same [simp]: "map_of (AList.update k v al) k = Some v"
  by (simp add: update_conv')

lemma map_of_update_other [simp]: "k' \<noteq> k \<Longrightarrow> map_of (AList.update k v al) k' = map_of al k'"
  by (simp add: update_conv')

lemma map_of_rev_distinct:
  assumes "distinct (map fst xs)"
  shows "map_of (rev xs) = map_of xs"
proof -
  have "distinct (map fst (rev xs))" using assms by (simp add: rev_map [symmetric])
  with assms show ?thesis by (simp add: map_of_inject_set)
qed

lemma fold_fun_upd_map_add: "fold (\<lambda>(k, v) m. m(k \<mapsto> v)) xs m = m ++ map_of (rev xs)"
  by (induction xs arbitrary: m) (auto simp: map_of_append)

lemma map_of_notin_None: "k \<notin> fst ` set xs \<Longrightarrow> map_of xs k = None"
  by (simp add: map_of_eq_None_iff)

lemma set_update_keys: "fst ` set (AList.update k v al) = insert k (fst ` set al)"
  by (simp add: dom_update)

end
