(* ===== verification/Protocol_Constants.thy ===== *)
theory Protocol_Constants
  imports Prelude
begin

text \<open>
  The constants and factory kinds that \<open>DocumentProtocol\<close>'s constructor
  registers (\<open>documentprotocol.cpp\<close>, lines 33-86). The numeric values of the
  routable type identifiers and error codes live in \<open>documentprotocol.h\<close>,
  which is not part of this repository; they are written here as that header
  defines them (\<open>DOCUMENT_MESSAGE = 100000\<close>, \<open>DOCUMENT_REPLY = 200000\<close>,
  \<open>mbus::ErrorCode::APP_TRANSIENT_ERROR = 150000\<close>,
  \<open>mbus::ErrorCode::APP_FATAL_ERROR = 250000\<close>). Only their distinctness is
  used by the proofs, and it is checked by evaluation.
\<close>

section \<open>Routable type identifiers\<close>

abbreviation MESSAGE_GETDOCUMENT :: u32 where "MESSAGE_GETDOCUMENT \<equiv> 100003"
abbreviation MESSAGE_PUTDOCUMENT :: u32 where "MESSAGE_PUTDOCUMENT \<equiv> 100004"
abbreviation MESSAGE_REMOVEDOCUMENT :: u32 where "MESSAGE_REMOVEDOCUMENT \<equiv> 100005"
abbreviation MESSAGE_UPDATEDOCUMENT :: u32 where "MESSAGE_UPDATEDOCUMENT \<equiv> 100006"
abbreviation MESSAGE_CREATEVISITOR :: u32 where "MESSAGE_CREATEVISITOR \<equiv> 100007"
abbreviation MESSAGE_DESTROYVISITOR :: u32 where "MESSAGE_DESTROYVISITOR \<equiv> 100008"
abbreviation MESSAGE_VISITORINFO :: u32 where "MESSAGE_VISITORINFO \<equiv> 100009"
abbreviation MESSAGE_SEARCHRESULT :: u32 where "MESSAGE_SEARCHRESULT \<equiv> 100011"
abbreviation MESSAGE_DOCUMENTSUMMARY :: u32 where "MESSAGE_DOCUMENTSUMMARY \<equiv> 100014"
abbreviation MESSAGE_MAPVISITOR :: u32 where "MESSAGE_MAPVISITOR \<equiv> 100015"
abbreviation MESSAGE_GETBUCKETSTATE :: u32 where "MESSAGE_GETBUCKETSTATE \<equiv> 100018"
abbreviation MESSAGE_STATBUCKET :: u32 where "MESSAGE_STATBUCKET \<equiv> 100019"
abbreviation MESSAGE_GETBUCKETLIST :: u32 where "MESSAGE_GETBUCKETLIST \<equiv> 100020"
abbreviation MESSAGE_DOCUMENTLIST :: u32 where "MESSAGE_DOCUMENTLIST \<equiv> 100021"
abbreviation MESSAGE_EMPTYBUCKETS :: u32 where "MESSAGE_EMPTYBUCKETS \<equiv> 100023"
abbreviation MESSAGE_REMOVELOCATION :: u32 where "MESSAGE_REMOVELOCATION \<equiv> 100024"
abbreviation MESSAGE_QUERYRESULT :: u32 where "MESSAGE_QUERYRESULT \<equiv> 100025"

abbreviation REPLY_GETDOCUMENT :: u32 where "REPLY_GETDOCUMENT \<equiv> 200003"
abbreviation REPLY_PUTDOCUMENT :: u32 where "REPLY_PUTDOCUMENT \<equiv> 200004"
abbreviation REPLY_REMOVEDOCUMENT :: u32 where "REPLY_REMOVEDOCUMENT \<equiv> 200005"
abbreviation REPLY_UPDATEDOCUMENT :: u32 where "REPLY_UPDATEDOCUMENT \<equiv> 200006"
abbreviation REPLY_CREATEVISITOR :: u32 where "REPLY_CREATEVISITOR \<equiv> 200007"
abbreviation REPLY_DESTROYVISITOR :: u32 where "REPLY_DESTROYVISITOR \<equiv> 200008"
abbreviation REPLY_VISITORINFO :: u32 where "REPLY_VISITORINFO \<equiv> 200009"
abbreviation REPLY_SEARCHRESULT :: u32 where "REPLY_SEARCHRESULT \<equiv> 200011"
abbreviation REPLY_DOCUMENTSUMMARY :: u32 where "REPLY_DOCUMENTSUMMARY \<equiv> 200014"
abbreviation REPLY_MAPVISITOR :: u32 where "REPLY_MAPVISITOR \<equiv> 200015"
abbreviation REPLY_GETBUCKETSTATE :: u32 where "REPLY_GETBUCKETSTATE \<equiv> 200018"
abbreviation REPLY_STATBUCKET :: u32 where "REPLY_STATBUCKET \<equiv> 200019"
abbreviation REPLY_GETBUCKETLIST :: u32 where "REPLY_GETBUCKETLIST \<equiv> 200020"
abbreviation REPLY_DOCUMENTLIST :: u32 where "REPLY_DOCUMENTLIST \<equiv> 200021"
abbreviation REPLY_EMPTYBUCKETS :: u32 where "REPLY_EMPTYBUCKETS \<equiv> 200023"
abbreviation REPLY_REMOVELOCATION :: u32 where "REPLY_REMOVELOCATION \<equiv> 200024"
abbreviation REPLY_QUERYRESULT :: u32 where "REPLY_QUERYRESULT \<equiv> 200025"
abbreviation REPLY_WRONGDISTRIBUTION :: u32 where "REPLY_WRONGDISTRIBUTION \<equiv> 201000"
abbreviation REPLY_DOCUMENTIGNORED :: u32 where "REPLY_DOCUMENTIGNORED \<equiv> 201001"

section \<open>Error codes\<close>

abbreviation ERROR_MESSAGE_IGNORED :: u32 where "ERROR_MESSAGE_IGNORED \<equiv> 250001"
abbreviation ERROR_POLICY_FAILURE :: u32 where "ERROR_POLICY_FAILURE \<equiv> 250002"
abbreviation ERROR_DOCUMENT_NOT_FOUND :: u32 where "ERROR_DOCUMENT_NOT_FOUND \<equiv> 251001"
abbreviation ERROR_EXISTS :: u32 where "ERROR_EXISTS \<equiv> 251002"
abbreviation ERROR_NOT_IMPLEMENTED :: u32 where "ERROR_NOT_IMPLEMENTED \<equiv> 251004"
abbreviation ERROR_ILLEGAL_PARAMETERS :: u32 where "ERROR_ILLEGAL_PARAMETERS \<equiv> 251005"
abbreviation ERROR_IGNORED :: u32 where "ERROR_IGNORED \<equiv> 251006"
abbreviation ERROR_UNKNOWN_COMMAND :: u32 where "ERROR_UNKNOWN_COMMAND \<equiv> 251007"
abbreviation ERROR_UNPARSEABLE :: u32 where "ERROR_UNPARSEABLE \<equiv> 251008"
abbreviation ERROR_NO_SPACE :: u32 where "ERROR_NO_SPACE \<equiv> 251009"
abbreviation ERROR_INTERNAL_FAILURE :: u32 where "ERROR_INTERNAL_FAILURE \<equiv> 251010"
abbreviation ERROR_PROCESSING_FAILURE :: u32 where "ERROR_PROCESSING_FAILURE \<equiv> 251011"
abbreviation ERROR_TIMESTAMP_EXIST :: u32 where "ERROR_TIMESTAMP_EXIST \<equiv> 251012"
abbreviation ERROR_STALE_TIMESTAMP :: u32 where "ERROR_STALE_TIMESTAMP \<equiv> 251013"
abbreviation ERROR_TEST_AND_SET_CONDITION_FAILED :: u32 where
  "ERROR_TEST_AND_SET_CONDITION_FAILED \<equiv> 251014"
abbreviation ERROR_NODE_NOT_READY :: u32 where "ERROR_NODE_NOT_READY \<equiv> 151001"
abbreviation ERROR_WRONG_DISTRIBUTION :: u32 where "ERROR_WRONG_DISTRIBUTION \<equiv> 151002"
abbreviation ERROR_REJECTED :: u32 where "ERROR_REJECTED \<equiv> 151003"
abbreviation ERROR_ABORTED :: u32 where "ERROR_ABORTED \<equiv> 151004"
abbreviation ERROR_BUSY :: u32 where "ERROR_BUSY \<equiv> 151005"
abbreviation ERROR_NOT_CONNECTED :: u32 where "ERROR_NOT_CONNECTED \<equiv> 151006"
abbreviation ERROR_DISK_FAILURE :: u32 where "ERROR_DISK_FAILURE \<equiv> 151007"
abbreviation ERROR_IO_FAILURE :: u32 where "ERROR_IO_FAILURE \<equiv> 151008"
abbreviation ERROR_BUCKET_NOT_FOUND :: u32 where "ERROR_BUCKET_NOT_FOUND \<equiv> 151009"
abbreviation ERROR_BUCKET_DELETED :: u32 where "ERROR_BUCKET_DELETED \<equiv> 151012"
abbreviation ERROR_SUSPENDED :: u32 where "ERROR_SUSPENDED \<equiv> 151013"

section \<open>Factory kinds\<close>

text \<open>
  The routing policy factories of \<open>RoutingPolicyFactories\<close>; the
  DocumentRouteSelector factory is built with the configuration id.
\<close>

datatype routing_policy_factory =
    AndPolicyFactory
  | ContentPolicyFactory
  | MessageTypePolicyFactory
  | DocumentRouteSelectorPolicyFactory string
  | ExternPolicyFactory
  | LocalServicePolicyFactory
  | RoundRobinPolicyFactory
  | StoragePolicyFactory
  | SubsetServicePolicyFactory
  | LoadBalancerPolicyFactory

text \<open>The 6.x routable factories of \<open>RoutableFactories60\<close>.\<close>

datatype routable_factory60 =
    CreateVisitorMessageFactory
  | DestroyVisitorMessageFactory
  | DocumentListMessageFactory
  | DocumentSummaryMessageFactory
  | EmptyBucketsMessageFactory
  | GetBucketListMessageFactory
  | GetBucketStateMessageFactory
  | GetDocumentMessageFactory
  | MapVisitorMessageFactory
  | PutDocumentMessageFactory
  | QueryResultMessageFactory
  | RemoveDocumentMessageFactory
  | RemoveLocationMessageFactory
  | SearchResultMessageFactory
  | StatBucketMessageFactory
  | UpdateDocumentMessageFactory
  | VisitorInfoMessageFactory
  | CreateVisitorReplyFactory
  | DestroyVisitorReplyFactory
  | DocumentIgnoredReplyFactory
  | DocumentListReplyFactory
  | DocumentSummaryReplyFactory
  | EmptyBucketsReplyFactory
  | GetBucketListReplyFactory
  | GetBucketStateReplyFactory
  | GetDocumentReplyFactory
  | MapVisitorReplyFactory
  | PutDocumentReplyFactory
  | QueryResultReplyFactory
  | RemoveDocumentReplyFactory
  | RemoveLocationReplyFactory
  | SearchResultReplyFactory
  | StatBucketReplyFactory
  | UpdateDocumentReplyFactory
  | VisitorInfoReplyFactory
  | WrongDistributionReplyFactory

text \<open>
  The type of the routables each 6.x factory builds, as its class name says
  (\<open>PutDocumentMessageFactory\<close> builds \<open>PutDocumentMessage\<close>s, of type
  \<open>MESSAGE_PUTDOCUMENT\<close>). The factories are not part of the repository.
\<close>

fun routable_factory_type :: "routable_factory60 \<Rightarrow> u32" where
  "routable_factory_type CreateVisitorMessageFactory = MESSAGE_CREATEVISITOR"
| "routable_factory_type DestroyVisitorMessageFactory = MESSAGE_DESTROYVISITOR"
| "routable_factory_type DocumentListMessageFactory = MESSAGE_DOCUMENTLIST"
| "routable_factory_type DocumentSummaryMessageFactory = MESSAGE_DOCUMENTSUMMARY"
| "routable_factory_type EmptyBucketsMessageFactory = MESSAGE_EMPTYBUCKETS"
| "routable_factory_type GetBucketListMessageFactory = MESSAGE_GETBUCKETLIST"
| "routable_factory_type GetBucketStateMessageFactory = MESSAGE_GETBUCKETSTATE"
| "routable_factory_type GetDocumentMessageFactory = MESSAGE_GETDOCUMENT"
| "routable_factory_type MapVisitorMessageFactory = MESSAGE_MAPVISITOR"
| "routable_factory_type PutDocumentMessageFactory = MESSAGE_PUTDOCUMENT"
| "routable_factory_type QueryResultMessageFactory = MESSAGE_QUERYRESULT"
| "routable_factory_type RemoveDocumentMessageFactory = MESSAGE_REMOVEDOCUMENT"
| "routable_factory_type RemoveLocationMessageFactory = MESSAGE_REMOVELOCATION"
| "routable_factory_type SearchResultMessageFactory = MESSAGE_SEARCHRESULT"
| "routable_factory_type StatBucketMessageFactory = MESSAGE_STATBUCKET"
| "routable_factory_type UpdateDocumentMessageFactory = MESSAGE_UPDATEDOCUMENT"
| "routable_factory_type VisitorInfoMessageFactory = MESSAGE_VISITORINFO"
| "routable_factory_type CreateVisitorReplyFactory = REPLY_CREATEVISITOR"
| "routable_factory_type DestroyVisitorReplyFactory = REPLY_DESTROYVISITOR"
| "routable_factory_type DocumentIgnoredReplyFactory = REPLY_DOCUMENTIGNORED"
| "routable_factory_type DocumentListReplyFactory = REPLY_DOCUMENTLIST"
| "routable_factory_type DocumentSummaryReplyFactory = REPLY_DOCUMENTSUMMARY"
| "routable_factory_type EmptyBucketsReplyFactory = REPLY_EMPTYBUCKETS"
| "routable_factory_type GetBucketListReplyFactory = REPLY_GETBUCKETLIST"
| "routable_factory_type GetBucketStateReplyFactory = REPLY_GETBUCKETSTATE"
| "routable_factory_type GetDocumentReplyFactory = REPLY_GETDOCUMENT"
| "routable_factory_type MapVisitorReplyFactory = REPLY_MAPVISITOR"
| "routable_factory_type PutDocumentReplyFactory = REPLY_PUTDOCUMENT"
| "routable_factory_type QueryResultReplyFactory = REPLY_QUERYRESULT"
| "routable_factory_type RemoveDocumentReplyFactory = REPLY_REMOVEDOCUMENT"
| "routable_factory_type RemoveLocationReplyFactory = REPLY_REMOVELOCATION"
| "routable_factory_type SearchResultReplyFactory = REPLY_SEARCHRESULT"
| "routable_factory_type StatBucketReplyFactory = REPLY_STATBUCKET"
| "routable_factory_type UpdateDocumentReplyFactory = REPLY_UPDATEDOCUMENT"
| "routable_factory_type VisitorInfoReplyFactory = REPLY_VISITORINFO"
| "routable_factory_type WrongDistributionReplyFactory = REPLY_WRONGDISTRIBUTION"

end
