(* ===== verification/Routing_Policy_Repository.thy ===== *)
theory Routing_Policy_Repository
  imports Prelude
begin

text \<open>
  The routing policy registry (\<open>RoutingPolicyRepository\<close>, not part of this
  repository; modelled from section 4.2 of the spec). It maps a policy name to
  a factory; creating a policy looks the factory up and invokes it with the
  parameter string. The factories' behaviour is a parameter \<open>create\<close> of the
  operations: the registry's lemmas hold for any factory type \<open>'f\<close> and policy
  type \<open>'p\<close>.
\<close>

type_synonym 'f routing_policy_repository = "string \<rightharpoonup> 'f"

datatype policy_error =
    UnknownPolicyName string
  | PolicyConstructionError string string string

definition rpr_empty :: "'f routing_policy_repository" where
  "rpr_empty = Map.empty"

text \<open>\<open>putFactory(name, factory)\<close>: the last registration of a name wins.\<close>

definition rpr_putFactory ::
  "string \<Rightarrow> 'f \<Rightarrow> 'f routing_policy_repository \<Rightarrow> 'f routing_policy_repository" where
  "rpr_putFactory name f repo = repo(name \<mapsto> f)"

text \<open>
  \<open>createPolicy(name, param)\<close>: an unknown name is \<open>UnknownPolicyName\<close>; a
  factory that rejects its parameter (\<open>Inl msg\<close>) is reported as
  \<open>PolicyConstructionError\<close> carrying the name, the parameter and the message.
\<close>

definition rpr_createPolicy ::
  "('f \<Rightarrow> string \<Rightarrow> string + 'p) \<Rightarrow> 'f routing_policy_repository \<Rightarrow> string \<Rightarrow> string \<Rightarrow>
   policy_error + 'p" where
  "rpr_createPolicy create repo name param =
     (case repo name of
        None \<Rightarrow> Inl (UnknownPolicyName name)
      | Some f \<Rightarrow> (case create f param of
                    Inl msg \<Rightarrow> Inl (PolicyConstructionError name param msg)
                  | Inr p \<Rightarrow> Inr p))"

text \<open>Registering a list of factories in order.\<close>

definition rpr_putFactories ::
  "(string \<times> 'f) list \<Rightarrow> 'f routing_policy_repository \<Rightarrow> 'f routing_policy_repository" where
  "rpr_putFactories fs repo = fold (\<lambda>(n, f). rpr_putFactory n f) fs repo"

section \<open>Properties of the registry\<close>

lemma rpr_createPolicy_unknown:
  "repo name = None \<Longrightarrow> rpr_createPolicy create repo name param = Inl (UnknownPolicyName name)"
  by (simp add: rpr_createPolicy_def)

lemma rpr_createPolicy_known:
  "repo name = Some f \<Longrightarrow>
   rpr_createPolicy create repo name param =
     map_sum (PolicyConstructionError name param) id (create f param)"
  by (simp add: rpr_createPolicy_def split: sum.split)

lemma rpr_putFactory_lookup:
  "rpr_putFactory name f repo n = (if n = name then Some f else repo n)"
  by (simp add: rpr_putFactory_def)

lemma rpr_createPolicy_after_put:
  "rpr_createPolicy create (rpr_putFactory name f repo) name param =
     map_sum (PolicyConstructionError name param) id (create f param)"
  by (simp add: rpr_createPolicy_known rpr_putFactory_lookup)

lemma rpr_createPolicy_put_other:
  "n \<noteq> name \<Longrightarrow>
   rpr_createPolicy create (rpr_putFactory name f repo) n param = rpr_createPolicy create repo n param"
  by (simp add: rpr_createPolicy_def rpr_putFactory_lookup)

lemma rpr_putFactories_eq: "rpr_putFactories fs repo = repo ++ map_of (rev fs)"
  by (simp add: rpr_putFactories_def rpr_putFactory_def [abs_def] fold_fun_upd_map_add [symmetric]
                case_prod_beta')

lemma rpr_putFactories_distinct_lookup:
  "distinct (map fst fs) \<Longrightarrow>
   rpr_putFactories fs repo n = (case map_of fs n of None \<Rightarrow> repo n | Some f \<Rightarrow> Some f)"
  by (simp add: rpr_putFactories_eq map_of_rev_distinct map_add_def)

end
