(* ===== verification/Version_Spec.thy ===== *)
theory Version_Spec
  imports Prelude
begin

text \<open>
  Protocol versions and version specifications (vespalib \<open>Version\<close> and
  \<open>VersionSpecification\<close>, used by \<open>DocumentProtocol\<close> in
  \<open>src/documentapi/.../documentprotocol.cpp\<close> as
  \<open>vespalib::VersionSpecification version6(6, 221)\<close>). The classes themselves
  are not in this repository; they are modelled from the spec (section 3): a
  specification \<open>(major, minorFloor)\<close> covers every version with that major
  and a minor of at least the floor, and two specifications of one type
  overlap when some version is covered by both.
\<close>

record version =
  ver_major :: nat
  ver_minor :: nat

record version_spec =
  spec_major :: nat
  spec_minor :: nat

definition covers :: "version_spec \<Rightarrow> version \<Rightarrow> bool" where
  "covers s v \<longleftrightarrow> ver_major v = spec_major s \<and> spec_minor s \<le> ver_minor v"

text \<open>The executable overlap test used by the codec registry.\<close>

definition overlaps :: "version_spec \<Rightarrow> version_spec \<Rightarrow> bool" where
  "overlaps s t \<longleftrightarrow> spec_major s = spec_major t"

lemma overlaps_sym: "overlaps s t = overlaps t s"
  by (auto simp: overlaps_def)

lemma overlaps_refl [simp]: "overlaps s s"
  by (simp add: overlaps_def)

text \<open>A covering version of two overlapping specifications: the larger floor.\<close>

definition common_version :: "version_spec \<Rightarrow> version_spec \<Rightarrow> version" where
  "common_version s t = \<lparr>ver_major = spec_major s, ver_minor = max (spec_minor s) (spec_minor t)\<rparr>"

lemma covers_common_version:
  "overlaps s t \<Longrightarrow> covers s (common_version s t) \<and> covers t (common_version s t)"
  by (simp add: overlaps_def covers_def common_version_def)

lemma covers_both_overlaps: "covers s v \<Longrightarrow> covers t v \<Longrightarrow> overlaps s t"
  by (simp add: overlaps_def covers_def)

end
