(* ===== verification/Routable_Repository.thy ===== *)
theory Routable_Repository
  imports Version_Spec
begin

text \<open>
  The codec registry (\<open>RoutableRepository\<close>, not part of this repository;
  modelled from section 4.1 of the spec). For each routable type it keeps the
  codecs (routable factories) registered with their version specifications;
  \<open>putFactory\<close> refuses a specification that overlaps one already registered
  for the type. Encoding writes the type as a big-endian 32-bit header followed
  by the codec's body; decoding reads the header first, then the codec chosen
  by type and version decodes the rest.

  The codecs themselves (\<open>RoutableFactories60\<close>) are external: their encoder
  and decoder are the fields of a \<open>codec_iface\<close>, and the lemmas here hold for
  any codec type \<open>'c\<close> and routable type \<open>'r\<close>.
\<close>

record ('c, 'r) codec_iface =
  routable_type :: "'r \<Rightarrow> u32"
  factory_encode :: "'c \<Rightarrow> 'r \<Rightarrow> bytes"
  factory_decode :: "'c \<Rightarrow> bytes \<Rightarrow> 'r option"

type_synonym 'c routable_repository = "(u32 \<times> (version_spec \<times> 'c) list) list"

datatype codec_error =
    OverlappingVersionSpec u32 version_spec
  | UnsupportedTypeOrVersion u32 version
  | BufferOutOfBounds

definition rr_empty :: "'c routable_repository" where
  "rr_empty = []"

definition rr_entries :: "'c routable_repository \<Rightarrow> u32 \<Rightarrow> (version_spec \<times> 'c) list" where
  "rr_entries repo t = (case map_of repo t of None \<Rightarrow> [] | Some fs \<Rightarrow> fs)"

text \<open>\<open>putFactory(version, type, factory)\<close>\<close>

definition rr_putFactory ::
  "version_spec \<Rightarrow> u32 \<Rightarrow> 'c \<Rightarrow> 'c routable_repository \<Rightarrow> codec_error + 'c routable_repository" where
  "rr_putFactory s t c repo =
     (let fs = rr_entries repo t in
      if list_ex (\<lambda>e. overlaps (fst e) s) fs then Inl (OverlappingVersionSpec t s)
      else Inr (AList.update t (fs @ [(s, c)]) repo))"

text \<open>\<open>getFactory(version, type)\<close>: the codec whose specification covers the version.\<close>

definition rr_getFactory :: "'c routable_repository \<Rightarrow> version \<Rightarrow> u32 \<Rightarrow> 'c option" where
  "rr_getFactory repo v t = map_option snd (find (\<lambda>e. covers (fst e) v) (rr_entries repo t))"

definition rr_encode ::
  "('c, 'r) codec_iface \<Rightarrow> 'c routable_repository \<Rightarrow> version \<Rightarrow> 'r \<Rightarrow> codec_error + bytes" where
  "rr_encode I repo v r =
     (let t = routable_type I r in
      case rr_getFactory repo v t of
        None \<Rightarrow> Inl (UnsupportedTypeOrVersion t v)
      | Some c \<Rightarrow> Inr (u32_be t @ factory_encode I c r))"

text \<open>
  Decoding an empty buffer, an unknown type or a payload the codec rejects gives
  no routable; a buffer too short for the header raises (the read of the
  header throws), which the protocol facade catches.
\<close>

definition rr_decode ::
  "('c, 'r) codec_iface \<Rightarrow> 'c routable_repository \<Rightarrow> version \<Rightarrow> bytes \<Rightarrow> codec_error + 'r option" where
  "rr_decode I repo v bs =
     (if bs = [] then Inr None
      else if length bs < 4 then Inl BufferOutOfBounds
      else case rr_getFactory repo v (be_u32 (take 4 bs)) of
             None \<Rightarrow> Inr None
           | Some c \<Rightarrow> Inr (factory_decode I c (drop 4 bs)))"

text \<open>\<open>getRoutableTypes(version, out)\<close>: the types with a codec for the version.\<close>

definition rr_getRoutableTypes :: "'c routable_repository \<Rightarrow> version \<Rightarrow> u32 list" where
  "rr_getRoutableTypes repo v = filter (\<lambda>t. rr_getFactory repo v t \<noteq> None) (map fst repo)"

text \<open>
  The registry invariant: one entry per type, and the specifications of one
  type pairwise non-overlapping.
\<close>

definition nonoverlapping :: "(version_spec \<times> 'c) list \<Rightarrow> bool" where
  "nonoverlapping fs \<longleftrightarrow> sorted_wrt (\<lambda>a b. \<not> overlaps (fst a) (fst b)) fs"

definition rr_wf :: "'c routable_repository \<Rightarrow> bool" where
  "rr_wf repo \<longleftrightarrow> distinct (map fst repo) \<and> (\<forall>p \<in> set repo. nonoverlapping (snd p))"

section \<open>The invariant\<close>

lemma set_alist_update: "set (AList.update k v al) \<subseteq> insert (k, v) (set al)"
  by (induction al) auto

lemma nonoverlapping_unique:
  "nonoverlapping fs \<Longrightarrow> x \<in> set fs \<Longrightarrow> y \<in> set fs \<Longrightarrow> overlaps (fst x) (fst y) \<Longrightarrow> x = y"
  by (induction fs) (auto simp: nonoverlapping_def overlaps_sym)

lemma nonoverlapping_snoc:
  "nonoverlapping (fs @ [e]) \<longleftrightarrow> nonoverlapping fs \<and> (\<forall>x \<in> set fs. \<not> overlaps (fst x) (fst e))"
  by (auto simp: nonoverlapping_def sorted_wrt_append)

lemma rr_entries_nonoverlapping: "rr_wf repo \<Longrightarrow> nonoverlapping (rr_entries repo t)"
  by (auto simp: rr_wf_def rr_entries_def nonoverlapping_def dest: map_of_SomeD split: option.split)

lemma rr_wf_empty: "rr_wf rr_empty"
  by (simp add: rr_wf_def rr_empty_def)

lemma rr_putFactory_Inr:
  "rr_putFactory s t c repo = Inr repo' \<longleftrightarrow>
     (\<forall>e \<in> set (rr_entries repo t). \<not> overlaps (fst e) s) \<and>
     repo' = AList.update t (rr_entries repo t @ [(s, c)]) repo"
  by (auto simp: rr_putFactory_def Let_def list_ex_iff)

lemma rr_putFactory_Inl:
  "(\<exists>e. rr_putFactory s t c repo = Inl e) \<longleftrightarrow> (\<exists>e \<in> set (rr_entries repo t). overlaps (fst e) s)"
  by (auto simp: rr_putFactory_def Let_def list_ex_iff)

lemma rr_putFactory_wf:
  assumes "rr_wf repo" "rr_putFactory s t c repo = Inr repo'"
  shows "rr_wf repo'"
proof -
  let ?fs = "rr_entries repo t @ [(s, c)]"
  from assms(2) have new: "\<forall>e \<in> set (rr_entries repo t). \<not> overlaps (fst e) s"
    and repo': "repo' = AList.update t ?fs repo"
    by (simp_all add: rr_putFactory_Inr)
  have "nonoverlapping ?fs"
    using rr_entries_nonoverlapping [OF assms(1)] new by (simp add: nonoverlapping_snoc)
  moreover have "distinct (map fst repo')"
    using assms(1) repo' by (simp add: rr_wf_def distinct_update)
  moreover have "\<forall>p \<in> set repo'. p = (t, ?fs) \<or> p \<in> set repo"
    using set_alist_update [of t ?fs repo] repo' by auto
  ultimately show ?thesis using assms(1) by (auto simp: rr_wf_def)
qed

section \<open>Resolution\<close>

lemma rr_getFactory_Some:
  "rr_getFactory repo v t = Some c \<Longrightarrow> \<exists>s. (s, c) \<in> set (rr_entries repo t) \<and> covers s v"
  by (auto simp: rr_getFactory_def dest!: find_SomeD)

lemma rr_getFactory_None:
  "rr_getFactory repo v t = None \<longleftrightarrow> (\<forall>e \<in> set (rr_entries repo t). \<not> covers (fst e) v)"
  by (auto simp: rr_getFactory_def find_None_iff)

lemma rr_getFactory_unique:
  assumes "rr_wf repo" "(s, c) \<in> set (rr_entries repo t)" "covers s v"
  shows "rr_getFactory repo v t = Some c"
proof -
  obtain e where e: "find (\<lambda>e. covers (fst e) v) (rr_entries repo t) = Some e"
    using assms(2,3) by (metis (mono_tags, lifting) find_None_iff fst_conv not_Some_eq)
  then have "e \<in> set (rr_entries repo t)" "covers (fst e) v"
    using find_SomeD by fastforce+
  with assms have "e = (s, c)"
    using nonoverlapping_unique [OF rr_entries_nonoverlapping [OF assms(1)]]
    by (metis covers_both_overlaps fst_conv)
  with e show ?thesis by (simp add: rr_getFactory_def)
qed

lemma rr_entries_update_same [simp]: "rr_entries (AList.update t fs repo) t = fs"
  by (simp add: rr_entries_def)

lemma rr_entries_update_other [simp]: "t' \<noteq> t \<Longrightarrow> rr_entries (AList.update t fs repo) t' = rr_entries repo t'"
  by (simp add: rr_entries_def)

lemma rr_putFactory_get_new:
  assumes "rr_putFactory s t c repo = Inr repo'" "covers s v"
  shows "rr_getFactory repo' v t = Some c"
proof -
  from assms(1) have new: "\<forall>e \<in> set (rr_entries repo t). \<not> overlaps (fst e) s"
    and repo': "repo' = AList.update t (rr_entries repo t @ [(s, c)]) repo"
    by (simp_all add: rr_putFactory_Inr)
  have "\<forall>e \<in> set (rr_entries repo t). \<not> covers (fst e) v"
    using new assms(2) covers_both_overlaps by blast
  then have "find (\<lambda>e. covers (fst e) v) (rr_entries repo t) = None"
    by (auto simp: find_None_iff)
  with assms(2) repo' show ?thesis by (simp add: rr_getFactory_def find_append_list)
qed

lemma rr_putFactory_get_old:
  assumes "rr_putFactory s t c repo = Inr repo'" "t' \<noteq> t \<or> \<not> covers s v"
  shows "rr_getFactory repo' v t' = rr_getFactory repo v t'"
proof (cases "t' = t")
  case True
  with assms have "\<not> covers s v" by simp
  moreover have "repo' = AList.update t (rr_entries repo t @ [(s, c)]) repo"
    using assms(1) by (simp add: rr_putFactory_Inr)
  ultimately show ?thesis using True
    by (simp add: rr_getFactory_def find_append_list split: option.split)
next
  case False
  moreover have "repo' = AList.update t (rr_entries repo t @ [(s, c)]) repo"
    using assms(1) by (simp add: rr_putFactory_Inr)
  ultimately show ?thesis by (simp add: rr_getFactory_def)
qed

lemma rr_getRoutableTypes_iff:
  "t \<in> set (rr_getRoutableTypes repo v) \<longleftrightarrow> rr_getFactory repo v t \<noteq> None"
proof -
  have none: "t \<notin> fst ` set repo \<Longrightarrow> rr_getFactory repo v t = None"
  proof -
    assume "t \<notin> fst ` set repo"
    then have "map_of repo t = None" by (simp add: map_of_eq_None_iff)
    then show ?thesis by (simp add: rr_getFactory_def rr_entries_def)
  qed
  have "t \<in> set (rr_getRoutableTypes repo v) \<longleftrightarrow> t \<in> fst ` set repo \<and> rr_getFactory repo v t \<noteq> None"
    by (auto simp: rr_getRoutableTypes_def)
  with none show ?thesis by metis
qed

lemma rr_getRoutableTypes_distinct: "rr_wf repo \<Longrightarrow> distinct (rr_getRoutableTypes repo v)"
  by (simp add: rr_wf_def rr_getRoutableTypes_def)

section \<open>Encoding and decoding\<close>

lemma rr_encode_Inr:
  "rr_getFactory repo v (routable_type I r) = Some c \<Longrightarrow>
   rr_encode I repo v r = Inr (u32_be (routable_type I r) @ factory_encode I c r)"
  by (simp add: rr_encode_def)

lemma rr_encode_unsupported:
  "rr_getFactory repo v (routable_type I r) = None \<Longrightarrow>
   rr_encode I repo v r = Inl (UnsupportedTypeOrVersion (routable_type I r) v)"
  by (simp add: rr_encode_def)

lemma rr_decode_encoded:
  "rr_getFactory repo v t = Some c \<Longrightarrow>
   rr_decode I repo v (u32_be t @ body) = Inr (factory_decode I c body)"
  by (simp add: rr_decode_def)

lemma rr_decode_roundtrip:
  assumes "rr_getFactory repo v (routable_type I r) = Some c"
    and "factory_decode I c (factory_encode I c r) = Some r"
  shows "rr_decode I repo v (u32_be (routable_type I r) @ factory_encode I c r) = Inr (Some r)"
  using assms by (simp add: rr_decode_encoded)

lemma rr_decode_short:
  "bs \<noteq> [] \<Longrightarrow> length bs < 4 \<Longrightarrow> rr_decode I repo v bs = Inl BufferOutOfBounds"
  by (simp add: rr_decode_def)

lemma rr_decode_Inl: "rr_decode I repo v bs = Inl e \<Longrightarrow> e = BufferOutOfBounds"
  by (auto simp: rr_decode_def split: if_splits option.splits)

lemma rr_decode_unknown:
  "4 \<le> length bs \<Longrightarrow> rr_getFactory repo v (be_u32 (take 4 bs)) = None \<Longrightarrow>
   rr_decode I repo v bs = Inr None"
  by (simp add: rr_decode_def)

end
