(* ===== verification/Document_Protocol.thy ===== *)
theory Document_Protocol
  imports Protocol_Constants Routing_Policy_Repository Routable_Repository
begin

text \<open>
  The protocol facade \<open>DocumentProtocol\<close>
  (\<open>src/documentapi/src/vespa/documentapi/messagebus/documentprotocol.cpp\<close>):
  its state is the two registries; the constructor fills them from fixed
  tables; \<open>createPolicy\<close>, \<open>encode\<close>, \<open>decode\<close> and \<open>getRoutableTypes\<close>
  delegate to them; \<open>getErrorName\<close> is a static table. The reply merge is in
  \<open>Protocol_Merge\<close>. Logging is not modelled: it has no effect on results.
\<close>

record document_protocol =
  routing_policy_repository :: "routing_policy_factory routing_policy_repository"
  routable_repository :: "routable_factory60 routable_repository"

section \<open>Construction\<close>

text \<open>The protocol's name, \<open>DocumentProtocol::NAME\<close>.\<close>

definition dp_NAME :: string where
  "dp_NAME = ''document''"

text \<open>The policy factories of the constructor, in the source's order.\<close>

definition policy_factory_table :: "string \<Rightarrow> (string \<times> routing_policy_factory) list" where
  "policy_factory_table cfg =
     [(''AND'', AndPolicyFactory),
      (''Content'', ContentPolicyFactory),
      (''MessageType'', MessageTypePolicyFactory),
      (''DocumentRouteSelector'', DocumentRouteSelectorPolicyFactory cfg),
      (''Extern'', ExternPolicyFactory),
      (''LocalService'', LocalServicePolicyFactory),
      (''RoundRobin'', RoundRobinPolicyFactory),
      (''Storage'', StoragePolicyFactory),
      (''SubsetService'', SubsetServicePolicyFactory),
      (''LoadBalancer'', LoadBalancerPolicyFactory)]"

definition version6 :: version_spec where
  "version6 = \<lparr>spec_major = 6, spec_minor = 221\<rparr>"

definition from6 :: "version_spec list" where
  "from6 = [version6]"

text \<open>The 6.x routable factories of the constructor, in the source's order.\<close>

definition routable_factory_table :: "(u32 \<times> routable_factory60) list" where
  "routable_factory_table =
     [(MESSAGE_CREATEVISITOR, CreateVisitorMessageFactory),
      (MESSAGE_DESTROYVISITOR, DestroyVisitorMessageFactory),
      (MESSAGE_DOCUMENTLIST, DocumentListMessageFactory),
      (MESSAGE_DOCUMENTSUMMARY, DocumentSummaryMessageFactory),
      (MESSAGE_EMPTYBUCKETS, EmptyBucketsMessageFactory),
      (MESSAGE_GETBUCKETLIST, GetBucketListMessageFactory),
      (MESSAGE_GETBUCKETSTATE, GetBucketStateMessageFactory),
      (MESSAGE_GETDOCUMENT, GetDocumentMessageFactory),
      (MESSAGE_MAPVISITOR, MapVisitorMessageFactory),
      (MESSAGE_PUTDOCUMENT, PutDocumentMessageFactory),
      (MESSAGE_QUERYRESULT, QueryResultMessageFactory),
      (MESSAGE_REMOVEDOCUMENT, RemoveDocumentMessageFactory),
      (MESSAGE_REMOVELOCATION, RemoveLocationMessageFactory),
      (MESSAGE_SEARCHRESULT, SearchResultMessageFactory),
      (MESSAGE_STATBUCKET, StatBucketMessageFactory),
      (MESSAGE_UPDATEDOCUMENT, UpdateDocumentMessageFactory),
      (MESSAGE_VISITORINFO, VisitorInfoMessageFactory),
      (REPLY_CREATEVISITOR, CreateVisitorReplyFactory),
      (REPLY_DESTROYVISITOR, DestroyVisitorReplyFactory),
      (REPLY_DOCUMENTIGNORED, DocumentIgnoredReplyFactory),
      (REPLY_DOCUMENTLIST, DocumentListReplyFactory),
      (REPLY_DOCUMENTSUMMARY, DocumentSummaryReplyFactory),
      (REPLY_EMPTYBUCKETS, EmptyBucketsReplyFactory),
      (REPLY_GETBUCKETLIST, GetBucketListReplyFactory),
      (REPLY_GETBUCKETSTATE, GetBucketStateReplyFactory),
      (REPLY_GETDOCUMENT, GetDocumentReplyFactory),
      (REPLY_MAPVISITOR, MapVisitorReplyFactory),
      (REPLY_PUTDOCUMENT, PutDocumentReplyFactory),
      (REPLY_QUERYRESULT, QueryResultReplyFactory),
      (REPLY_REMOVEDOCUMENT, RemoveDocumentReplyFactory),
      (REPLY_REMOVELOCATION, RemoveLocationReplyFactory),
      (REPLY_SEARCHRESULT, SearchResultReplyFactory),
      (REPLY_STATBUCKET, StatBucketReplyFactory),
      (REPLY_UPDATEDOCUMENT, UpdateDocumentReplyFactory),
      (REPLY_VISITORINFO, VisitorInfoReplyFactory),
      (REPLY_WRONGDISTRIBUTION, WrongDistributionReplyFactory)]"

text \<open>\<open>putRoutingPolicyFactory(name, factory)\<close>\<close>

definition dp_putRoutingPolicyFactory ::
  "string \<Rightarrow> routing_policy_factory \<Rightarrow> document_protocol \<Rightarrow> document_protocol" where
  "dp_putRoutingPolicyFactory name f p =
     p\<lparr>routing_policy_repository := rpr_putFactory name f (routing_policy_repository p)\<rparr>"

text \<open>\<open>putRoutableFactory(type, factory, version)\<close>\<close>

definition dp_putRoutableFactory ::
  "u32 \<Rightarrow> routable_factory60 \<Rightarrow> version_spec \<Rightarrow> document_protocol \<Rightarrow> codec_error + document_protocol" where
  "dp_putRoutableFactory t f s p =
     sum_bind (rr_putFactory s t f (routable_repository p)) (\<lambda>r. Inr (p\<lparr>routable_repository := r\<rparr>))"

text \<open>\<open>putRoutableFactory(type, factory, versions)\<close>: one registration per version.\<close>

fun dp_putRoutableFactory_versions ::
  "u32 \<Rightarrow> routable_factory60 \<Rightarrow> version_spec list \<Rightarrow> document_protocol \<Rightarrow> codec_error + document_protocol" where
  "dp_putRoutableFactory_versions t f [] p = Inr p"
| "dp_putRoutableFactory_versions t f (s # ss) p =
     sum_bind (dp_putRoutableFactory t f s p) (dp_putRoutableFactory_versions t f ss)"

text \<open>The constructor's sequence of \<open>putRoutableFactory\<close> calls over a table.\<close>

fun dp_putRoutableFactories ::
  "(u32 \<times> routable_factory60) list \<Rightarrow> version_spec list \<Rightarrow> document_protocol \<Rightarrow> codec_error + document_protocol" where
  "dp_putRoutableFactories [] vs p = Inr p"
| "dp_putRoutableFactories ((t, f) # tfs) vs p =
     sum_bind (dp_putRoutableFactory_versions t f vs p) (dp_putRoutableFactories tfs vs)"

text \<open>
  \<open>DocumentProtocol(loadTypes, repo, configId)\<close>: the configuration string is
  \<open>client\<close> when the id is empty; the policy factories are registered first,
  then the 6.x routable factories from version 6.221 on. A failing
  registration (an overlapping version specification) propagates out of the
  constructor as a configuration error.
\<close>

definition dp_config_string :: "string \<Rightarrow> string" where
  "dp_config_string configId = (if configId = [] then ''client'' else configId)"

definition dp_init :: "string \<Rightarrow> codec_error + document_protocol" where
  "dp_init configId =
     (let cfg = dp_config_string configId;
          p0 = \<lparr>routing_policy_repository = rpr_empty, routable_repository = rr_empty\<rparr>;
          p1 = fold (\<lambda>(n, f). dp_putRoutingPolicyFactory n f) (policy_factory_table cfg) p0
      in dp_putRoutableFactories routable_factory_table from6 p1)"

section \<open>Operations\<close>

text \<open>\<open>createPolicy(name, param)\<close>, for a factory semantics \<open>create\<close>.\<close>

definition dp_createPolicy ::
  "(routing_policy_factory \<Rightarrow> string \<Rightarrow> string + 'p) \<Rightarrow> document_protocol \<Rightarrow> string \<Rightarrow> string \<Rightarrow>
   policy_error + 'p" where
  "dp_createPolicy create p name param =
     rpr_createPolicy create (routing_policy_repository p) name param"

text \<open>\<open>encode(version, routable)\<close>: the registry's encoding; the hex dump is logging.\<close>

definition dp_encode ::
  "(routable_factory60, 'r) codec_iface \<Rightarrow> document_protocol \<Rightarrow> version \<Rightarrow> 'r \<Rightarrow> codec_error + bytes" where
  "dp_encode I p v r = rr_encode I (routable_repository p) v r"

text \<open>
  \<open>decode(version, data)\<close>: an exception of the registry is caught, logged and
  turned into an empty result.
\<close>

definition dp_decode ::
  "(routable_factory60, 'r) codec_iface \<Rightarrow> document_protocol \<Rightarrow> version \<Rightarrow> bytes \<Rightarrow> 'r option" where
  "dp_decode I p v bs =
     (case rr_decode I (routable_repository p) v bs of
        Inl e \<Rightarrow> None
      | Inr r \<Rightarrow> r)"

definition dp_getRoutableTypes :: "document_protocol \<Rightarrow> version \<Rightarrow> u32 list" where
  "dp_getRoutableTypes p v = rr_getRoutableTypes (routable_repository p) v"

section \<open>Error names\<close>

text \<open>The cases of the switch of \<open>getErrorName\<close>, in the source's order.\<close>

definition document_error_names :: "(u32 \<times> string) list" where
  "document_error_names =
     [(ERROR_MESSAGE_IGNORED, ''MESSAGE_IGNORED''),
      (ERROR_POLICY_FAILURE, ''POLICY_FAILURE''),
      (ERROR_DOCUMENT_NOT_FOUND, ''DOCUMENT_NOT_FOUND''),
      (ERROR_EXISTS, ''EXISTS''),
      (ERROR_BUCKET_NOT_FOUND, ''BUCKET_NOT_FOUND''),
      (ERROR_BUCKET_DELETED, ''BUCKET_DELETED''),
      (ERROR_NOT_IMPLEMENTED, ''NOT_IMPLEMENTED''),
      (ERROR_ILLEGAL_PARAMETERS, ''ILLEGAL_PARAMETERS''),
      (ERROR_IGNORED, ''IGNORED''),
      (ERROR_UNKNOWN_COMMAND, ''UNKNOWN_COMMAND''),
      (ERROR_UNPARSEABLE, ''UNPARSEABLE''),
      (ERROR_NO_SPACE, ''NO_SPACE''),
      (ERROR_INTERNAL_FAILURE, ''INTERNAL_FAILURE''),
      (ERROR_PROCESSING_FAILURE, ''PROCESSING_FAILURE''),
      (ERROR_TIMESTAMP_EXIST, ''TIMESTAMP_EXIST''),
      (ERROR_STALE_TIMESTAMP, ''STALE_TIMESTAMP''),
      (ERROR_NODE_NOT_READY, ''NODE_NOT_READY''),
      (ERROR_WRONG_DISTRIBUTION, ''WRONG_DISTRIBUTION''),
      (ERROR_REJECTED, ''REJECTED''),
      (ERROR_ABORTED, ''ABORTED''),
      (ERROR_BUSY, ''BUSY''),
      (ERROR_NOT_CONNECTED, ''NOT_CONNECTED''),
      (ERROR_DISK_FAILURE, ''DISK_FAILURE''),
      (ERROR_IO_FAILURE, ''IO_FAILURE''),
      (ERROR_SUSPENDED, ''SUSPENDED''),
      (ERROR_TEST_AND_SET_CONDITION_FAILED, ''TEST_AND_SET_CONDITION_FAILED'')]"

text \<open>
  \<open>getErrorName(errorCode)\<close>: the switch over the protocol's own codes,
  and for every other code \<open>mbus::ErrorCode::getName\<close>, which names the
  message bus codes. Its code is not part of this repository, so it is the
  parameter \<open>mbus_getName\<close>.
\<close>

definition getErrorName :: "(u32 \<Rightarrow> string) \<Rightarrow> u32 \<Rightarrow> string" where
  "getErrorName mbus_getName c =
     (case map_of document_error_names c of Some n \<Rightarrow> n | None \<Rightarrow> mbus_getName c)"

section \<open>The tables\<close>

lemma routable_factory_table_distinct: "distinct (map fst routable_factory_table)"
  by (simp add: routable_factory_table_def)

lemma policy_factory_table_distinct: "distinct (map fst (policy_factory_table cfg))"
  by (simp add: policy_factory_table_def)

lemma document_error_names_distinct: "distinct (map fst document_error_names)"
  by (simp add: document_error_names_def)

lemma document_error_names_distinct_names: "distinct (map snd document_error_names)"
  by (simp add: document_error_names_def)

section \<open>Construction\<close>

lemma fold_putRoutingPolicyFactory:
  "fold (\<lambda>(n, f). dp_putRoutingPolicyFactory n f) tbl p =
     p\<lparr>routing_policy_repository := rpr_putFactories tbl (routing_policy_repository p)\<rparr>"
  by (induction tbl arbitrary: p)
     (auto simp: dp_putRoutingPolicyFactory_def rpr_putFactories_def)

lemma map_fst_alist_update_fresh:
  "k \<notin> set (map fst al) \<Longrightarrow> AList.update k v al = al @ [(k, v)]"
  by (induction al) auto

lemma dp_putRoutableFactories_fresh:
  assumes "distinct (map fst tbl)" "\<forall>t \<in> set (map fst tbl). t \<notin> set (map fst (routable_repository p))"
  shows "\<exists>p'. dp_putRoutableFactories tbl [s] p = Inr p' \<and>
           routing_policy_repository p' = routing_policy_repository p \<and>
           routable_repository p' = routable_repository p @ map (\<lambda>(t, f). (t, [(s, f)])) tbl"
  using assms
proof (induction tbl arbitrary: p)
  case Nil
  then show ?case by simp
next
  case (Cons tf tbl)
  obtain t f where tf: "tf = (t, f)" by (cases tf)
  let ?repo = "routable_repository p"
  have fresh: "t \<notin> set (map fst ?repo)" using Cons.prems(2) tf by simp
  then have "map_of ?repo t = None" by (simp add: map_of_eq_None_iff)
  then have entries: "rr_entries ?repo t = []"
    by (simp add: rr_entries_def)
  let ?p1 = "p\<lparr>routable_repository := ?repo @ [(t, [(s, f)])]\<rparr>"
  have step: "dp_putRoutableFactory_versions t f [s] p = Inr ?p1"
    using fresh entries
    by (simp add: dp_putRoutableFactory_def rr_putFactory_def map_fst_alist_update_fresh)
  have fresh_tbl: "\<forall>u \<in> set (map fst tbl). u \<notin> set (map fst (routable_repository ?p1))"
    using Cons.prems tf by auto
  have "\<exists>p'. dp_putRoutableFactories tbl [s] ?p1 = Inr p' \<and>
           routing_policy_repository p' = routing_policy_repository ?p1 \<and>
           routable_repository p' = routable_repository ?p1 @ map (\<lambda>(t, f). (t, [(s, f)])) tbl"
    by (rule Cons.IH) (use Cons.prems(1) fresh_tbl in simp_all)
  then obtain p' where p': "dp_putRoutableFactories tbl [s] ?p1 = Inr p'"
      "routing_policy_repository p' = routing_policy_repository ?p1"
      "routable_repository p' = routable_repository ?p1 @ map (\<lambda>(t, f). (t, [(s, f)])) tbl"
    by blast
  with step tf show ?case by simp
qed

lemma rr_wf_table:
  "distinct (map fst tbl) \<Longrightarrow> rr_wf (map (\<lambda>(t, f). (t, [(s, f)])) tbl)"
  by (auto simp: rr_wf_def nonoverlapping_def comp_def case_prod_beta)

lemma rr_entries_table:
  "distinct (map fst tbl) \<Longrightarrow>
   rr_entries (map (\<lambda>(t, f). (t, [(s, f)])) tbl) t =
     (case map_of tbl t of None \<Rightarrow> [] | Some f \<Rightarrow> [(s, f)])"
  by (induction tbl) (auto simp: rr_entries_def split: option.split)

lemma dp_init_Inr:
  "\<exists>p. dp_init cid = Inr p \<and>
       routing_policy_repository p = rpr_putFactories (policy_factory_table (dp_config_string cid)) rpr_empty \<and>
       routable_repository p = map (\<lambda>(t, f). (t, [(version6, f)])) routable_factory_table"
  using dp_putRoutableFactories_fresh [OF routable_factory_table_distinct,
      of "\<lparr>routing_policy_repository = rpr_putFactories (policy_factory_table (dp_config_string cid)) rpr_empty,
           routable_repository = rr_empty\<rparr>" version6]
  by (simp add: dp_init_def fold_putRoutingPolicyFactory from6_def rr_empty_def)

lemma rr_getFactory_table:
  "distinct (map fst tbl) \<Longrightarrow>
   rr_getFactory (map (\<lambda>(t, f). (t, [(s, f)])) tbl) v t = (if covers s v then map_of tbl t else None)"
  by (simp add: rr_getFactory_def rr_entries_table split: option.split)

lemma dp_init_getFactory:
  "dp_init cid = Inr p \<Longrightarrow>
   rr_getFactory (routable_repository p) v t = (if covers version6 v then map_of routable_factory_table t else None)"
  using dp_init_Inr [of cid] by (auto simp: rr_getFactory_table routable_factory_table_distinct)

lemma dp_init_createPolicy:
  "dp_init cid = Inr p \<Longrightarrow>
   dp_createPolicy create p name param =
     (case map_of (policy_factory_table (dp_config_string cid)) name of
        None \<Rightarrow> Inl (UnknownPolicyName name)
      | Some f \<Rightarrow> map_sum (PolicyConstructionError name param) id (create f param))"
  using dp_init_Inr [of cid]
  by (auto simp: dp_createPolicy_def rpr_putFactories_distinct_lookup policy_factory_table_distinct
                 rpr_empty_def rpr_createPolicy_unknown rpr_createPolicy_known split: option.split)

lemma routable_factory_table_typed_list:
  "map (\<lambda>(t, f). routable_factory_type f) routable_factory_table = map fst routable_factory_table"
  by (simp add: routable_factory_table_def)

section \<open>Properties of the facade\<close>

text \<open>C9: the constructor never throws (no two registrations of a type overlap) and leaves the routable registry well formed: distinct types, non-overlapping version specs per type.\<close>

theorem dp_init_succeeds:
  "\<exists>p. dp_init cid = Inr p \<and> rr_wf (routable_repository p)"
  using dp_init_Inr [of cid] rr_wf_table [OF routable_factory_table_distinct] by auto

text \<open>C10: after construction, the codec resolved for a version and a type is the type's entry of the constructor's table when the version is covered by 6.221, and none otherwise.\<close>

theorem dp_init_codec_resolution:
  "\<exists>p. dp_init cid = Inr p \<and>
       (\<forall>v t. rr_getFactory (routable_repository p) v t =
                (if covers version6 v then map_of routable_factory_table t else None))"
  using dp_init_Inr [of cid] dp_init_getFactory by blast

text \<open>C13: after construction, getRoutableTypes lists the constructor's 36 types in registration order for every version covered by 6.221 and nothing for the others.\<close>

theorem dp_init_routable_types:
  "\<exists>p. dp_init cid = Inr p \<and>
       (\<forall>v. dp_getRoutableTypes p v = (if covers version6 v then map fst routable_factory_table else []))"
proof -
  obtain p where p: "dp_init cid = Inr p"
    and repo: "routable_repository p = map (\<lambda>(t, f). (t, [(version6, f)])) routable_factory_table"
    using dp_init_Inr [of cid] by blast
  have "dp_getRoutableTypes p v = (if covers version6 v then map fst routable_factory_table else [])" for v
  proof -
    have "map fst (routable_repository p) = map fst routable_factory_table"
      using repo by (simp add: comp_def case_prod_beta)
    moreover have "\<forall>t \<in> set (map fst routable_factory_table).
                     (rr_getFactory (routable_repository p) v t \<noteq> None) = covers version6 v"
      using dp_init_getFactory [OF p] by (auto intro: weak_map_of_SomeI)
    ultimately show ?thesis
      by (cases "covers version6 v")
         (auto simp: dp_getRoutableTypes_def rr_getRoutableTypes_def filter_empty_conv
               intro!: filter_True)
  qed
  with p show ?thesis by blast
qed

text \<open>C14: after construction, createPolicy finds exactly the ten policy factories of the constructor (DocumentRouteSelector built with the config id, "client" when empty) and reports an unknown name as UnknownPolicyName.\<close>

theorem dp_init_policies:
  "\<exists>p. dp_init cid = Inr p \<and>
       (\<forall>name param. dp_createPolicy create p name param =
          (case map_of (policy_factory_table (dp_config_string cid)) name of
             None \<Rightarrow> Inl (UnknownPolicyName name)
           | Some f \<Rightarrow> map_sum (PolicyConstructionError name param) id (create f param)))"
  using dp_init_Inr [of cid] dp_init_createPolicy by blast

text \<open>C8: on the protocol built by the constructor, for a 6.x version and a routable whose type has a registered codec that decodes what it encodes, encode succeeds and decode of its bytes gives back the routable.\<close>

theorem dp_encode_decode_roundtrip:
  assumes "dp_init cid = Inr p" "covers version6 v"
    and "map_of routable_factory_table (routable_type I r) = Some c"
    and "factory_decode I c (factory_encode I c r) = Some r"
  shows "\<exists>bs. dp_encode I p v r = Inr bs \<and> dp_decode I p v bs = Some r"
proof -
  have get: "rr_getFactory (routable_repository p) v (routable_type I r) = Some c"
    using dp_init_getFactory [OF assms(1)] assms(2,3) by simp
  show ?thesis
    using rr_encode_Inr [OF get] rr_decode_roundtrip [OF get assms(4)]
    by (simp add: dp_encode_def dp_decode_def)
qed

text \<open>C11: encode for a version not covered by 6.221 fails with UnsupportedTypeOrVersion, naming the routable's type and the version.\<close>

theorem dp_encode_unsupported_version:
  assumes "dp_init cid = Inr p" "\<not> covers version6 v"
  shows "dp_encode I p v r = Inl (UnsupportedTypeOrVersion (routable_type I r) v)"
  using dp_init_getFactory [OF assms(1)] assms(2)
  by (simp add: dp_encode_def rr_encode_unsupported)

text \<open>C12: decode returns a routable only when the buffer has the 4-byte type header, the version is covered by 6.221, the header names a registered type, and that codec decodes the rest of the buffer to it.\<close>

theorem dp_decode_Some:
  assumes "dp_init cid = Inr p" "dp_decode I p v bs = Some r"
  shows "4 \<le> length bs \<and> covers version6 v \<and>
         (\<exists>c. map_of routable_factory_table (be_u32 (take 4 bs)) = Some c \<and>
              factory_decode I c (drop 4 bs) = Some r)"
  using assms(2) dp_init_getFactory [OF assms(1)]
  by (auto simp: dp_decode_def rr_decode_def split: sum.splits if_splits option.splits)

text \<open>C25: every codec the constructed protocol resolves for a type builds
  routables of that type: the constructor never registers a factory under
  another type's identifier.\<close>

theorem dp_init_codecs_typed:
  assumes "dp_init cid = Inr p" "rr_getFactory (routable_repository p) v t = Some f"
  shows "routable_factory_type f = t"
proof -
  have "map_of routable_factory_table t = Some f"
    using dp_init_getFactory [OF assms(1)] assms(2) by (simp split: if_splits)
  then have "(t, f) \<in> set routable_factory_table" by (rule map_of_SomeD)
  then show ?thesis using routable_factory_table_typed_list
    by (metis (mono_tags, lifting) case_prod_conv map_eq_conv fst_conv)
qed

section \<open>Witnesses\<close>

theorem dp_encode_decode_roundtrip_witness:
  "\<exists>p. dp_init [] = Inr p \<and> covers version6 \<lparr>ver_major = 6, ver_minor = 300\<rparr> \<and>
     map_of routable_factory_table (routable_type (\<lparr>routable_type = fst, factory_encode = \<lambda>c r. snd r,
        factory_decode = \<lambda>c bs. Some (MESSAGE_PUTDOCUMENT, bs)\<rparr> :: (routable_factory60, u32 \<times> bytes) codec_iface) (MESSAGE_PUTDOCUMENT, [7])) = Some PutDocumentMessageFactory \<and>
     factory_decode (\<lparr>routable_type = fst, factory_encode = \<lambda>c r. snd r,
        factory_decode = \<lambda>c bs. Some (MESSAGE_PUTDOCUMENT, bs)\<rparr> :: (routable_factory60, u32 \<times> bytes) codec_iface) PutDocumentMessageFactory (factory_encode (\<lparr>routable_type = fst, factory_encode = \<lambda>c r. snd r,
        factory_decode = \<lambda>c bs. Some (MESSAGE_PUTDOCUMENT, bs)\<rparr> :: (routable_factory60, u32 \<times> bytes) codec_iface) PutDocumentMessageFactory (MESSAGE_PUTDOCUMENT, [7])) = Some (MESSAGE_PUTDOCUMENT, [7]) \<and>
     (\<exists>bs. dp_encode (\<lparr>routable_type = fst, factory_encode = \<lambda>c r. snd r,
        factory_decode = \<lambda>c bs. Some (MESSAGE_PUTDOCUMENT, bs)\<rparr> :: (routable_factory60, u32 \<times> bytes) codec_iface) p \<lparr>ver_major = 6, ver_minor = 300\<rparr> (MESSAGE_PUTDOCUMENT, [7]) = Inr bs \<and>
           dp_decode (\<lparr>routable_type = fst, factory_encode = \<lambda>c r. snd r,
        factory_decode = \<lambda>c bs. Some (MESSAGE_PUTDOCUMENT, bs)\<rparr> :: (routable_factory60, u32 \<times> bytes) codec_iface) p \<lparr>ver_major = 6, ver_minor = 300\<rparr> bs = Some (MESSAGE_PUTDOCUMENT, [7]))"
proof -
  obtain p where p: "dp_init [] = Inr p" using dp_init_Inr by blast
  have h: "covers version6 \<lparr>ver_major = 6, ver_minor = 300\<rparr>"
    "map_of routable_factory_table (routable_type (\<lparr>routable_type = fst, factory_encode = \<lambda>c r. snd r,
        factory_decode = \<lambda>c bs. Some (MESSAGE_PUTDOCUMENT, bs)\<rparr> :: (routable_factory60, u32 \<times> bytes) codec_iface) (MESSAGE_PUTDOCUMENT, [7])) = Some PutDocumentMessageFactory"
    "factory_decode (\<lparr>routable_type = fst, factory_encode = \<lambda>c r. snd r,
        factory_decode = \<lambda>c bs. Some (MESSAGE_PUTDOCUMENT, bs)\<rparr> :: (routable_factory60, u32 \<times> bytes) codec_iface) PutDocumentMessageFactory (factory_encode (\<lparr>routable_type = fst, factory_encode = \<lambda>c r. snd r,
        factory_decode = \<lambda>c bs. Some (MESSAGE_PUTDOCUMENT, bs)\<rparr> :: (routable_factory60, u32 \<times> bytes) codec_iface) PutDocumentMessageFactory (MESSAGE_PUTDOCUMENT, [7])) = Some (MESSAGE_PUTDOCUMENT, [7])"
    by (simp_all add: covers_def version6_def routable_factory_table_def)
  show ?thesis using p h dp_encode_decode_roundtrip [OF p h] by blast
qed

theorem dp_encode_unsupported_version_witness:
  "\<exists>p. dp_init ''node'' = Inr p \<and> \<not> covers version6 \<lparr>ver_major = 6, ver_minor = 220\<rparr> \<and>
     dp_encode (\<lparr>routable_type = fst, factory_encode = \<lambda>c r. snd r,
        factory_decode = \<lambda>c bs. Some (MESSAGE_PUTDOCUMENT, bs)\<rparr> :: (routable_factory60, u32 \<times> bytes) codec_iface) p \<lparr>ver_major = 6, ver_minor = 220\<rparr> (MESSAGE_PUTDOCUMENT, [7]) =
       Inl (UnsupportedTypeOrVersion MESSAGE_PUTDOCUMENT \<lparr>ver_major = 6, ver_minor = 220\<rparr>)"
proof -
  obtain p where p: "dp_init ''node'' = Inr p" using dp_init_Inr by blast
  have h: "\<not> covers version6 \<lparr>ver_major = 6, ver_minor = 220\<rparr>"
    by (simp add: covers_def version6_def)
  show ?thesis using p h dp_encode_unsupported_version [OF p h, of "\<lparr>routable_type = fst, factory_encode = \<lambda>c r. snd r,
        factory_decode = \<lambda>c bs. Some (MESSAGE_PUTDOCUMENT, bs)\<rparr> :: (routable_factory60, u32 \<times> bytes) codec_iface" "(MESSAGE_PUTDOCUMENT, [7])"]
    by auto
qed

theorem dp_decode_Some_witness:
  "\<exists>p. dp_init [] = Inr p \<and>
     dp_decode (\<lparr>routable_type = fst, factory_encode = \<lambda>c r. snd r,
        factory_decode = \<lambda>c bs. Some (MESSAGE_PUTDOCUMENT, bs)\<rparr> :: (routable_factory60, u32 \<times> bytes) codec_iface) p \<lparr>ver_major = 6, ver_minor = 221\<rparr> (u32_be MESSAGE_PUTDOCUMENT @ [7]) = Some (MESSAGE_PUTDOCUMENT, [7]) \<and>
     4 \<le> length (u32_be MESSAGE_PUTDOCUMENT @ [7]) \<and> covers version6 \<lparr>ver_major = 6, ver_minor = 221\<rparr> \<and>
     (\<exists>c. map_of routable_factory_table (be_u32 (take 4 (u32_be MESSAGE_PUTDOCUMENT @ [7]))) = Some c \<and>
          factory_decode (\<lparr>routable_type = fst, factory_encode = \<lambda>c r. snd r,
        factory_decode = \<lambda>c bs. Some (MESSAGE_PUTDOCUMENT, bs)\<rparr> :: (routable_factory60, u32 \<times> bytes) codec_iface) c (drop 4 (u32_be MESSAGE_PUTDOCUMENT @ [7])) = Some (MESSAGE_PUTDOCUMENT, [7]))"
proof -
  obtain p where p: "dp_init [] = Inr p" using dp_init_Inr by blast
  have d: "dp_decode (\<lparr>routable_type = fst, factory_encode = \<lambda>c r. snd r,
        factory_decode = \<lambda>c bs. Some (MESSAGE_PUTDOCUMENT, bs)\<rparr> :: (routable_factory60, u32 \<times> bytes) codec_iface) p \<lparr>ver_major = 6, ver_minor = 221\<rparr> (u32_be MESSAGE_PUTDOCUMENT @ [7]) = Some (MESSAGE_PUTDOCUMENT, [7])"
    using dp_init_getFactory [OF p, of "\<lparr>ver_major = 6, ver_minor = 221\<rparr>" MESSAGE_PUTDOCUMENT]
    by (simp add: dp_decode_def rr_decode_def covers_def version6_def routable_factory_table_def)
  show ?thesis using p d dp_decode_Some [OF p d] by blast
qed

theorem dp_init_succeeds_witness:
  "\<exists>p. dp_init ''node'' = Inr p \<and> rr_wf (routable_repository p)"
  using dp_init_succeeds [of "''node''"] .

theorem dp_init_codecs_typed_witness:
  "\<exists>p. dp_init [] = Inr p \<and>
     rr_getFactory (routable_repository p) \<lparr>ver_major = 6, ver_minor = 221\<rparr> MESSAGE_PUTDOCUMENT =
       Some PutDocumentMessageFactory \<and>
     routable_factory_type PutDocumentMessageFactory = MESSAGE_PUTDOCUMENT"
proof -
  obtain p where p: "dp_init [] = Inr p" using dp_init_Inr by blast
  have get: "rr_getFactory (routable_repository p) \<lparr>ver_major = 6, ver_minor = 221\<rparr> MESSAGE_PUTDOCUMENT =
               Some PutDocumentMessageFactory"
    using dp_init_getFactory [OF p] by (simp add: covers_def version6_def routable_factory_table_def)
  show ?thesis using p get dp_init_codecs_typed [OF p get] by blast
qed

end
