(* ===== verification/Reply_Merger.thy ===== *)
theory Reply_Merger
  imports Prelude
begin

text \<open>
  The reply merger (\<open>ReplyMerger\<close>, declared in \<open>replymerger.h\<close>, which is not
  part of this repository; modelled from section 4.3 of the spec). A merger is
  created per routing context, accumulates one reply per non-masked child
  index, and is resolved into a verdict: forward the lowest-indexed successful
  reply, or synthesize a reply that aggregates the error codes of the failed
  children.
\<close>

section \<open>Replies and errors\<close>

text \<open>
  An error of a reply (\<open>mbus::Error\<close>) is identified by its 32-bit code. The
  merger's synthesized reply carries either a plain error or, when several
  codes were seen, one aggregated entry per code with the number of children
  that reported it.
\<close>

datatype error = Error u32 | Aggregated u32 nat

fun err_code :: "error \<Rightarrow> u32" where
  "err_code (Error c) = c"
| "err_code (Aggregated c n) = c"

record 'b reply =
  reply_type :: u32
  errors :: "error list"
  payload :: "'b option"

definition hasErrors :: "'b reply \<Rightarrow> bool" where
  "hasErrors r \<longleftrightarrow> errors r \<noteq> []"

text \<open>\<open>mbus::EmptyReply\<close>: routable type 0, no payload.\<close>

definition empty_reply :: "error list \<Rightarrow> 'b reply" where
  "empty_reply errs = \<lparr>reply_type = 0, errors = errs, payload = None\<rparr>"

text \<open>The distinct error codes one failed child reports.\<close>

definition reply_codes :: "'b reply \<Rightarrow> u32 list" where
  "reply_codes r = remdups (map err_code (errors r))"

section \<open>Counting and ordering error codes\<close>

text \<open>Per-code counters, kept as an association list in first-seen order.\<close>

fun bump_code :: "u32 \<Rightarrow> (u32 \<times> nat) list \<Rightarrow> (u32 \<times> nat) list" where
  "bump_code c [] = [(c, 1)]"
| "bump_code c ((d, n) # es) = (if c = d then (d, Suc n) # es else (d, n) # bump_code c es)"

definition count_codes :: "u32 list \<Rightarrow> (u32 \<times> nat) list" where
  "count_codes cs = fold bump_code cs []"

text \<open>Entries are ordered by descending count, then ascending code.\<close>

definition entry_before :: "u32 \<times> nat \<Rightarrow> u32 \<times> nat \<Rightarrow> bool" where
  "entry_before a b \<longleftrightarrow> snd b < snd a \<or> (snd a = snd b \<and> fst a \<le> fst b)"

fun insort_entry :: "u32 \<times> nat \<Rightarrow> (u32 \<times> nat) list \<Rightarrow> (u32 \<times> nat) list" where
  "insort_entry e [] = [e]"
| "insort_entry e (x # xs) = (if entry_before e x then e # x # xs else x # insort_entry e xs)"

definition sort_entries :: "(u32 \<times> nat) list \<Rightarrow> (u32 \<times> nat) list" where
  "sort_entries es = foldr insort_entry es []"

text \<open>
  The error list of the synthesized reply: the codes of all failed children are
  counted and sorted; a single code is carried unmodified.
\<close>

definition aggregate_errors :: "u32 list list \<Rightarrow> error list" where
  "aggregate_errors fcs =
     (case sort_entries (count_codes (concat fcs)) of
        [(c, n)] \<Rightarrow> [Error c]
      | es \<Rightarrow> map (\<lambda>(c, n). Aggregated c n) es)"

definition generated_reply :: "u32 list list \<Rightarrow> 'b reply" where
  "generated_reply fcs = empty_reply (aggregate_errors fcs)"

section \<open>The merger\<close>

datatype merger_phase = Accumulating | Resolved

record merger =
  phase :: merger_phase
  merged_indices :: "u32 list"
  success_index :: "u32 option"
  failure_codes :: "u32 list list"

text \<open>
  Contract violations of the merger, which the C++ code reports by failing an
  assertion: a merge after the verdict was taken, a child index merged twice,
  and a verdict requested before any child was merged.
\<close>

datatype merge_error =
    MergeAfterResolve
  | DuplicateIndex u32
  | NoReplyMerged

datatype 'b verdict = Forward u32 | Synthesized "'b reply"

definition rm_init :: merger where
  "rm_init = \<lparr>phase = Accumulating, merged_indices = [], success_index = None, failure_codes = []\<rparr>"

text \<open>\<open>ReplyMerger::merge(idx, reply)\<close>: one call per non-masked child.\<close>

definition rm_merge :: "merger \<Rightarrow> u32 \<Rightarrow> 'b reply \<Rightarrow> merge_error + merger" where
  "rm_merge m idx r =
     (if phase m = Resolved then Inl MergeAfterResolve
      else if idx \<in> set (merged_indices m) then Inl (DuplicateIndex idx)
      else
        let m' = m\<lparr>merged_indices := merged_indices m @ [idx]\<rparr> in
        if errors r = [] then
          Inr (m'\<lparr>success_index :=
                 Some (case success_index m of None \<Rightarrow> idx | Some j \<Rightarrow> min j idx)\<rparr>)
        else Inr (m'\<lparr>failure_codes := failure_codes m @ [reply_codes r]\<rparr>))"

text \<open>\<open>ReplyMerger::mergedReply()\<close>: the verdict, entering the resolved state.\<close>

definition rm_mergedReply :: "merger \<Rightarrow> merge_error + ('b verdict \<times> merger)" where
  "rm_mergedReply m =
     (if merged_indices m = [] then Inl NoReplyMerged
      else Inr (case success_index m of
                  Some i \<Rightarrow> Forward i
                | None \<Rightarrow> Synthesized (generated_reply (failure_codes m)),
                m\<lparr>phase := Resolved\<rparr>))"

fun rm_merge_list :: "merger \<Rightarrow> (u32 \<times> 'b reply) list \<Rightarrow> merge_error + merger" where
  "rm_merge_list m [] = Inr m"
| "rm_merge_list m ((i, r) # ps) = sum_bind (rm_merge m i r) (\<lambda>m'. rm_merge_list m' ps)"

definition merge_verdict :: "(u32 \<times> 'b reply) list \<Rightarrow> merge_error + 'b verdict" where
  "merge_verdict ps =
     sum_bind (rm_merge_list rm_init ps) (\<lambda>m. map_sum id fst (rm_mergedReply m))"

section \<open>The contract of the merger\<close>

text \<open>
  What section 4.3 promises, stated over the child replies directly: the
  indices of the successful children, the codes of the failed ones, and the
  verdict.
\<close>

definition success_indices :: "(u32 \<times> 'b reply) list \<Rightarrow> u32 list" where
  "success_indices ps = [fst p. p \<leftarrow> ps, errors (snd p) = []]"

definition failure_code_lists :: "(u32 \<times> 'b reply) list \<Rightarrow> u32 list list" where
  "failure_code_lists ps = [reply_codes (snd p). p \<leftarrow> ps, errors (snd p) \<noteq> []]"

definition merge_spec :: "(u32 \<times> 'b reply) list \<Rightarrow> merge_error + 'b verdict" where
  "merge_spec ps =
     (if ps = [] then Inl NoReplyMerged
      else if success_indices ps \<noteq> [] then Inr (Forward (Min (set (success_indices ps))))
      else Inr (Synthesized (generated_reply (failure_code_lists ps))))"

text \<open>The least element of a list of indices, if any.\<close>

definition least_of :: "u32 list \<Rightarrow> u32 option" where
  "least_of xs = (if xs = [] then None else Some (Min (set xs)))"

section \<open>The merger as a state machine\<close>

text \<open>
  A merger steps by merging one child or by being resolved; the reply payload
  plays no part in a step, so it is fixed to \<open>unit\<close> here.
\<close>

inductive merger_step :: "merger \<Rightarrow> merger \<Rightarrow> bool" where
  merge: "rm_merge m i (r :: unit reply) = Inr m' \<Longrightarrow> merger_step m m'"
| resolve: "rm_mergedReply m = Inr (v :: unit verdict, m') \<Longrightarrow> merger_step m m'"

inductive merger_reachable :: "merger \<Rightarrow> bool" where
  init: "merger_reachable rm_init"
| step: "merger_reachable m \<Longrightarrow> merger_step m m' \<Longrightarrow> merger_reachable m'"

text \<open>The invariant of reachable merger states.\<close>

definition merger_inv :: "merger \<Rightarrow> bool" where
  "merger_inv m \<longleftrightarrow>
     distinct (merged_indices m) \<and>
     set_option (success_index m) \<subseteq> set (merged_indices m) \<and>
     (phase m = Resolved \<longrightarrow> merged_indices m \<noteq> [])"

section \<open>Counting\<close>

lemma map_of_bump_code:
  "map_of (bump_code c es) =
     (map_of es)(c \<mapsto> (case map_of es c of None \<Rightarrow> 1 | Some n \<Rightarrow> Suc n))"
  by (induction es rule: bump_code.induct) (auto simp: fun_eq_iff)

lemma keys_bump_code: "fst ` set (bump_code c es) = insert c (fst ` set es)"
  by (induction es rule: bump_code.induct) auto

lemma distinct_bump_code: "distinct (map fst es) \<Longrightarrow> distinct (map fst (bump_code c es))"
  by (induction es rule: bump_code.induct) (auto simp: keys_bump_code)

lemma map_of_fold_bump_code:
  "map_of (fold bump_code cs es) c =
     (case map_of es c of
        None \<Rightarrow> (if c \<in> set cs then Some (count_list cs c) else None)
      | Some n \<Rightarrow> Some (n + count_list cs c))"
proof (induction cs arbitrary: es)
  case Nil
  then show ?case by (simp split: option.split)
next
  case (Cons d cs)
  then show ?case
    by (auto simp: map_of_bump_code count_list_0_iff split: option.split)
qed

lemma map_of_count_codes:
  "map_of (count_codes cs) c = (if c \<in> set cs then Some (count_list cs c) else None)"
  by (simp add: count_codes_def map_of_fold_bump_code)

lemma keys_count_codes: "fst ` set (count_codes cs) = set cs"
proof -
  have "fst ` set (fold bump_code cs es) = set cs \<union> fst ` set es" for es
    by (induction cs arbitrary: es) (auto simp: keys_bump_code)
  then show ?thesis by (simp add: count_codes_def)
qed

lemma distinct_count_codes: "distinct (map fst (count_codes cs))"
proof -
  have "distinct (map fst es) \<Longrightarrow> distinct (map fst (fold bump_code cs es))" for es
    by (induction cs arbitrary: es) (auto simp: distinct_bump_code)
  then show ?thesis by (simp add: count_codes_def)
qed

lemma set_count_codes:
  "set (count_codes cs) = (\<lambda>c. (c, count_list cs c)) ` set cs"
proof -
  have "(c, n) \<in> set (count_codes cs) \<longleftrightarrow> c \<in> set cs \<and> n = count_list cs c" for c n
    using map_of_count_codes [of cs c] distinct_count_codes [of cs]
    by (metis map_of_SomeD map_of_is_SomeI option.distinct(1) option.inject)
  then show ?thesis by auto
qed

section \<open>Ordering the entries\<close>

lemma entry_before_total: "entry_before a b \<or> entry_before b a"
  by (auto simp: entry_before_def)

lemma entry_before_trans: "entry_before a b \<Longrightarrow> entry_before b c \<Longrightarrow> entry_before a c"
  by (auto simp: entry_before_def)

lemma entry_before_antisym: "entry_before a b \<Longrightarrow> entry_before b a \<Longrightarrow> a = b"
  by (auto simp: entry_before_def prod_eq_iff)

lemma mset_insort_entry [simp]: "mset (insort_entry e xs) = add_mset e (mset xs)"
  by (induction xs) auto

lemma set_insort_entry [simp]: "set (insort_entry e xs) = insert e (set xs)"
  by (induction xs) auto

lemma sorted_insort_entry:
  "sorted_wrt entry_before xs \<Longrightarrow> sorted_wrt entry_before (insort_entry e xs)"
proof (induction xs)
  case Nil
  then show ?case by simp
next
  case (Cons x xs)
  show ?case
  proof (cases "entry_before e x")
    case True
    with Cons.prems show ?thesis by (auto intro: entry_before_trans)
  next
    case False
    then have "entry_before x e" using entry_before_total by blast
    with False Cons show ?thesis by simp
  qed
qed

lemma mset_sort_entries [simp]: "mset (sort_entries es) = mset es"
  by (induction es) (simp_all add: sort_entries_def)

lemma sorted_sort_entries: "sorted_wrt entry_before (sort_entries es)"
  by (induction es) (simp_all add: sort_entries_def sorted_insort_entry)

lemma sort_entries_mset_eq:
  assumes "mset es = mset es'"
  shows "sort_entries es = sort_entries es'"
proof (rule sorted_wrt_mset_unique [OF sorted_sort_entries sorted_sort_entries])
  show "mset (sort_entries es) = mset (sort_entries es')" using assms by simp
qed (metis entry_before_antisym)

lemma sort_entries_single [simp]: "sort_entries [e] = [e]"
  by (simp add: sort_entries_def)

lemma distinct_count_codes_entries: "distinct (count_codes cs)"
  using distinct_count_codes distinct_map by blast

lemma sort_count_codes_mset:
  assumes "mset cs = mset cs'"
  shows "sort_entries (count_codes cs) = sort_entries (count_codes cs')"
proof (rule sort_entries_mset_eq)
  have "set cs = set cs'" using assms by (metis set_mset_mset)
  moreover have "count_list cs c = count_list cs' c" for c
    using assms by (metis count_mset)
  ultimately have "set (count_codes cs) = set (count_codes cs')"
    by (simp add: set_count_codes)
  then show "mset (count_codes cs) = mset (count_codes cs')"
    by (simp add: distinct_set_eq_mset_eq distinct_count_codes_entries)
qed

lemma aggregate_errors_mset:
  assumes "mset (concat fcs) = mset (concat fcs')"
  shows "aggregate_errors fcs = aggregate_errors fcs'"
proof -
  from assms have "sort_entries (count_codes (concat fcs)) = sort_entries (count_codes (concat fcs'))"
    by (rule sort_count_codes_mset)
  then show ?thesis by (simp add: aggregate_errors_def)
qed

lemma count_list_distinct: "distinct xs \<Longrightarrow> count_list xs c = (if c \<in> set xs then 1 else 0)"
  by (induction xs) (auto simp: count_list_0_iff)

lemma count_list_concat_distinct:
  "\<forall>fc \<in> set fcs. distinct fc \<Longrightarrow> count_list (concat fcs) c = length (filter (\<lambda>fc. c \<in> set fc) fcs)"
  by (induction fcs) (auto simp: count_list_distinct)

section \<open>Running the merger over a list of children\<close>

lemma least_of_snoc:
  "least_of (xs @ [i]) = Some (case least_of xs of None \<Rightarrow> i | Some j \<Rightarrow> min j i)"
  by (simp add: least_of_def min.commute)

lemma success_indices_simps [simp]:
  "success_indices [] = []"
  "success_indices ((i, r) # ps) = (if errors r = [] then i # success_indices ps else success_indices ps)"
  by (simp_all add: success_indices_def)

lemma failure_code_lists_simps [simp]:
  "failure_code_lists [] = []"
  "failure_code_lists ((i, r) # ps) =
     (if errors r = [] then failure_code_lists ps else reply_codes r # failure_code_lists ps)"
  by (simp_all add: failure_code_lists_def)

lemma rm_merge_list_run:
  assumes "phase m = Accumulating" "distinct (merged_indices m @ map fst ps)"
    and "success_index m = least_of S"
  shows "rm_merge_list m ps =
           Inr (m\<lparr>merged_indices := merged_indices m @ map fst ps,
                  success_index := least_of (S @ success_indices ps),
                  failure_codes := failure_codes m @ failure_code_lists ps\<rparr>)"
  using assms
proof (induction ps arbitrary: m S)
  case Nil
  then show ?case by simp
next
  case (Cons p ps)
  obtain i r where p: "p = (i, r)" by (cases p)
  show ?case
  proof (cases "errors r = []")
    case True
    let ?m = "m\<lparr>merged_indices := merged_indices m @ [i], success_index := least_of (S @ [i])\<rparr>"
    have step: "rm_merge m i r = Inr ?m"
      using Cons.prems True p by (simp add: rm_merge_def least_of_snoc)
    have "rm_merge_list ?m ps =
            Inr (?m\<lparr>merged_indices := merged_indices ?m @ map fst ps,
                   success_index := least_of ((S @ [i]) @ success_indices ps),
                   failure_codes := failure_codes ?m @ failure_code_lists ps\<rparr>)"
      using Cons.prems p by (intro Cons.IH) simp_all
    with step p True show ?thesis by simp
  next
    case False
    let ?m = "m\<lparr>merged_indices := merged_indices m @ [i], failure_codes := failure_codes m @ [reply_codes r]\<rparr>"
    have step: "rm_merge m i r = Inr ?m"
      using Cons.prems False p by (simp add: rm_merge_def)
    have "rm_merge_list ?m ps =
            Inr (?m\<lparr>merged_indices := merged_indices ?m @ map fst ps,
                   success_index := least_of (S @ success_indices ps),
                   failure_codes := failure_codes ?m @ failure_code_lists ps\<rparr>)"
      using Cons.prems p by (intro Cons.IH) simp_all
    with step p False show ?thesis by simp
  qed
qed

lemma rm_merge_list_duplicate:
  assumes "phase m = Accumulating" "distinct (merged_indices m)"
    and "\<not> distinct (merged_indices m @ map fst ps)"
  shows "\<exists>i. rm_merge_list m ps = Inl (DuplicateIndex i)"
  using assms
proof (induction ps arbitrary: m)
  case Nil
  then show ?case by simp
next
  case (Cons p ps)
  obtain i r where p: "p = (i, r)" by (cases p)
  show ?case
  proof (cases "i \<in> set (merged_indices m)")
    case True
    with Cons.prems p show ?thesis by (simp add: rm_merge_def)
  next
    case False
    then obtain m' where step: "rm_merge m i r = Inr m'" and
        m': "phase m' = Accumulating" "merged_indices m' = merged_indices m @ [i]"
      using Cons.prems(1) by (cases "errors r = []") (auto simp: rm_merge_def Let_def)
    from Cons.prems(3) p m' have "\<not> distinct (merged_indices m' @ map fst ps)" by simp
    moreover from Cons.prems(2) False m' have "distinct (merged_indices m')" by simp
    ultimately obtain j where "rm_merge_list m' ps = Inl (DuplicateIndex j)"
      using Cons.IH m'(1) by blast
    with step p show ?thesis by auto
  qed
qed

section \<open>The merger implements its contract\<close>

lemma merge_verdict_eq_spec:
  assumes "distinct (map fst ps)"
  shows "merge_verdict ps = merge_spec ps"
proof -
  have "rm_merge_list rm_init ps =
          Inr (rm_init\<lparr>merged_indices := map fst ps,
                      success_index := least_of (success_indices ps),
                      failure_codes := failure_code_lists ps\<rparr>)"
    using rm_merge_list_run [of rm_init ps "[]"] assms
    by (simp add: rm_init_def least_of_def)
  then show ?thesis
    by (simp add: merge_verdict_def rm_mergedReply_def merge_spec_def least_of_def rm_init_def)
qed

lemma merge_verdict_not_distinct:
  assumes "\<not> distinct (map fst ps)"
  shows "\<exists>i. merge_verdict ps = Inl (DuplicateIndex i)"
proof -
  obtain i where "rm_merge_list rm_init ps = Inl (DuplicateIndex i)"
    using rm_merge_list_duplicate [of rm_init ps] assms by (auto simp: rm_init_def)
  then show ?thesis by (simp add: merge_verdict_def)
qed

lemma mset_concat_eq: "mset xss = mset yss \<Longrightarrow> mset (concat xss) = mset (concat yss)"
  by (metis mset_concat mset_map sum_mset_sum_list)

lemma success_indices_conv: "success_indices ps = map fst (filter (\<lambda>p. errors (snd p) = []) ps)"
  by (induction ps) auto

lemma failure_code_lists_conv:
  "failure_code_lists ps = map (reply_codes \<circ> snd) (filter (\<lambda>p. errors (snd p) \<noteq> []) ps)"
  by (induction ps) auto

lemma merge_spec_mset:
  assumes "mset ps = mset qs"
  shows "merge_spec ps = merge_spec qs"
proof -
  have empty: "ps = [] \<longleftrightarrow> qs = []" using assms by auto
  have succ: "mset (success_indices ps) = mset (success_indices qs)"
    using assms by (simp add: success_indices_conv)
  then have "set (success_indices ps) = set (success_indices qs)"
    by (metis set_mset_mset)
  moreover have "success_indices ps = [] \<longleftrightarrow> success_indices qs = []"
    using succ by (metis mset_zero_iff)
  moreover have "mset (failure_code_lists ps) = mset (failure_code_lists qs)"
    using assms by (simp add: failure_code_lists_conv)
  then have "aggregate_errors (failure_code_lists ps) = aggregate_errors (failure_code_lists qs)"
    by (intro aggregate_errors_mset mset_concat_eq)
  ultimately show ?thesis
    using empty by (simp add: merge_spec_def generated_reply_def)
qed

lemma distinct_fst_mset:
  "mset ps = mset qs \<Longrightarrow> distinct (map fst ps) = distinct (map fst qs)"
  by (metis mset_eq_imp_distinct_iff mset_map)

section \<open>The synthesized reply\<close>

lemma aggregate_errors_mixed_eq:
  assumes "c1 \<in> set (concat fcs)" "c2 \<in> set (concat fcs)" "c1 \<noteq> c2"
  shows "aggregate_errors fcs = map (\<lambda>(c, n). Aggregated c n) (sort_entries (count_codes (concat fcs)))"
proof -
  let ?es = "sort_entries (count_codes (concat fcs))"
  have "set ?es = (\<lambda>c. (c, count_list (concat fcs) c)) ` set (concat fcs)"
    by (metis mset_sort_entries set_count_codes set_mset_mset)
  with assms have "(c1, count_list (concat fcs) c1) \<in> set ?es"
      "(c2, count_list (concat fcs) c2) \<in> set ?es" by auto
  with assms(3) obtain x y rest where "?es = x # y # rest"
    by (cases ?es rule: remdups_adj.cases) auto
  then show ?thesis by (auto simp: aggregate_errors_def split: prod.split)
qed

lemma aggregate_errors_uniform_eq:
  assumes "set (concat fcs) = {c}"
  shows "aggregate_errors fcs = [Error c]"
proof -
  have "set (count_codes (concat fcs)) = {(c, count_list (concat fcs) c)}"
    using assms by (simp add: set_count_codes)
  with distinct_count_codes_entries [of "concat fcs"]
  have "count_codes (concat fcs) = [(c, count_list (concat fcs) c)]"
    by (rule distinct_set_singleton)
  then show ?thesis by (simp add: aggregate_errors_def)
qed

lemma entries_of_aggregate:
  "sorted_wrt entry_before (sort_entries (count_codes cs)) \<and>
   distinct (map fst (sort_entries (count_codes cs))) \<and>
   fst ` set (sort_entries (count_codes cs)) = set cs \<and>
   (\<forall>(c, n) \<in> set (sort_entries (count_codes cs)). n = count_list cs c)"
proof -
  have set_eq: "set (sort_entries (count_codes cs)) = set (count_codes cs)"
    by (metis mset_sort_entries set_mset_mset)
  have "distinct (map fst (sort_entries (count_codes cs)))"
    by (metis distinct_count_codes mset_map mset_eq_imp_distinct_iff mset_sort_entries)
  then show ?thesis
    using set_eq sorted_sort_entries keys_count_codes set_count_codes by auto
qed

lemma failure_code_lists_all_failed:
  "\<forall>p \<in> set ps. errors (snd p) \<noteq> [] \<Longrightarrow> failure_code_lists ps = map (reply_codes \<circ> snd) ps"
  by (simp add: failure_code_lists_conv)

lemma success_indices_all_failed:
  "\<forall>p \<in> set ps. errors (snd p) \<noteq> [] \<Longrightarrow> success_indices ps = []"
  by (simp add: success_indices_conv filter_empty_conv)

lemma reply_codes_distinct [simp]: "distinct (reply_codes r)"
  by (simp add: reply_codes_def)

lemma set_reply_codes: "set (reply_codes r) = err_code ` set (errors r)"
  by (simp add: reply_codes_def)

section \<open>Merger steps\<close>

inductive_cases merger_step_cases: "merger_step m m'"

lemma merger_inv_init: "merger_inv rm_init"
  by (simp add: merger_inv_def rm_init_def)

lemma rm_merge_Inr:
  "rm_merge m i r = Inr m' \<longleftrightarrow>
     phase m = Accumulating \<and> i \<notin> set (merged_indices m) \<and>
     m' = (if errors r = []
           then m\<lparr>merged_indices := merged_indices m @ [i],
                  success_index := Some (case success_index m of None \<Rightarrow> i | Some j \<Rightarrow> min j i)\<rparr>
           else m\<lparr>merged_indices := merged_indices m @ [i],
                  failure_codes := failure_codes m @ [reply_codes r]\<rparr>)"
  by (cases "phase m") (auto simp: rm_merge_def Let_def)

lemma rm_mergedReply_Inr:
  "rm_mergedReply m = Inr (v, m') \<longleftrightarrow>
     merged_indices m \<noteq> [] \<and> m' = m\<lparr>phase := Resolved\<rparr> \<and>
     v = (case success_index m of Some i \<Rightarrow> Forward i
          | None \<Rightarrow> Synthesized (generated_reply (failure_codes m)))"
  by (auto simp: rm_mergedReply_def)

lemma merger_step_inv: "merger_step m m' \<Longrightarrow> merger_inv m \<Longrightarrow> merger_inv m'"
proof (induction rule: merger_step.induct)
  case (merge m i r m')
  then have "set_option (Some (case success_index m of None \<Rightarrow> i | Some j \<Rightarrow> min j i))
               \<subseteq> insert i (set (merged_indices m))"
    by (auto simp: merger_inv_def min_def split: option.split)
  with merge show ?case by (auto simp: merger_inv_def rm_merge_Inr)
next
  case (resolve m v m')
  then show ?case by (simp add: merger_inv_def rm_mergedReply_Inr)
qed

lemma merger_reachable_inv: "merger_reachable m \<Longrightarrow> merger_inv m"
  by (induction rule: merger_reachable.induct) (auto intro: merger_inv_init merger_step_inv)

section \<open>Properties of the merger\<close>

text \<open>
  These are the merger's guarantees that \<open>DocumentProtocol::merge\<close> relies on;
  the properties of the protocol's merge in \<open>Document_Protocol\<close> are derived
  from them.
\<close>

text \<open>
  Refinement. For children with distinct indices, running the merger
  (\<open>merge\<close> once per child, then \<open>mergedReply\<close>) yields exactly the verdict of
  the contract \<open>merge_spec\<close>.
\<close>

theorem merge_implements_spec:
  "distinct (map fst ps) \<Longrightarrow> merge_verdict ps = merge_spec ps"
  by (rule merge_verdict_eq_spec)

text \<open>
  Determinism. The verdict does not depend on the order in which the
  children's replies are merged.
\<close>

theorem merge_order_independent:
  assumes "distinct (map fst ps)" "mset ps = mset qs"
  shows "merge_verdict ps = merge_verdict qs"
proof -
  have "distinct (map fst qs)" using distinct_fst_mset [OF assms(2)] assms(1) by simp
  then have "merge_verdict qs = merge_spec qs" by (rule merge_verdict_eq_spec)
  moreover have "merge_spec ps = merge_spec qs" using assms(2) by (rule merge_spec_mset)
  moreover have "merge_verdict ps = merge_spec ps" using assms(1) by (rule merge_verdict_eq_spec)
  ultimately show ?thesis by simp
qed

text \<open>Merging one child index twice is rejected with \<open>DuplicateIndex\<close>.\<close>

theorem merge_duplicate_index_rejected:
  "\<not> distinct (map fst ps) \<Longrightarrow> \<exists>i. merge_verdict ps = Inl (DuplicateIndex i)"
  by (rule merge_verdict_not_distinct)

text \<open>
  When some child succeeded, the verdict forwards a successful child whose
  index is at most that of every successful child.
\<close>

theorem merge_forwards_lowest_success:
  assumes "distinct (map fst ps)" "(i, r) \<in> set ps" "errors r = []"
  shows "\<exists>j r'. merge_verdict ps = Inr (Forward j) \<and> (j, r') \<in> set ps \<and> errors r' = [] \<and> j \<le> i"
proof -
  have i: "i \<in> set (success_indices ps)"
    using assms(2,3) by (force simp: success_indices_conv)
  let ?j = "Min (set (success_indices ps))"
  have "?j \<in> set (success_indices ps)" using i by (intro Min_in) auto
  then obtain r' where "(?j, r') \<in> set ps" "errors r' = []"
    by (auto simp: success_indices_conv)
  moreover have "?j \<le> i" using i by simp
  moreover have "merge_verdict ps = Inr (Forward ?j)"
  proof -
    have "ps \<noteq> []" using assms(2) by auto
    moreover have "success_indices ps \<noteq> []" using i by auto
    ultimately have "merge_spec ps = Inr (Forward ?j)" by (simp add: merge_spec_def)
    with merge_verdict_eq_spec [OF assms(1)] show ?thesis by simp
  qed
  ultimately show ?thesis by blast
qed

text \<open>
  When every child failed and at least two error codes were reported, the
  synthesized reply carries one aggregated entry per reported code, each with
  the number of children that reported it, ordered by descending count and
  then ascending code.
\<close>

theorem merge_all_failed_aggregates:
  assumes "distinct (map fst ps)" "\<forall>p \<in> set ps. errors (snd p) \<noteq> []"
    and "c1 \<in> set (concat (failure_code_lists ps))" "c2 \<in> set (concat (failure_code_lists ps))"
    and "c1 \<noteq> c2"
  shows "\<exists>es. merge_verdict ps = Inr (Synthesized (empty_reply (map (\<lambda>(c, n). Aggregated c n) es))) \<and>
              sorted_wrt entry_before es \<and> distinct (map fst es) \<and>
              fst ` set es = set (concat (failure_code_lists ps)) \<and>
              (\<forall>(c, n) \<in> set es. n = length (filter (\<lambda>p. c \<in> set (reply_codes (snd p))) ps))"
proof -
  let ?cs = "concat (failure_code_lists ps)"
  let ?es = "sort_entries (count_codes ?cs)"
  have ne: "ps \<noteq> []" using assms(3) by auto
  have agg: "aggregate_errors (failure_code_lists ps) = map (\<lambda>(c, n). Aggregated c n) ?es"
    using assms(3-5) by (rule aggregate_errors_mixed_eq)
  have "merge_verdict ps = Inr (Synthesized (empty_reply (map (\<lambda>(c, n). Aggregated c n) ?es)))"
    using assms(1,2) ne agg
    by (simp add: merge_verdict_eq_spec merge_spec_def success_indices_all_failed generated_reply_def)
  moreover have "count_list ?cs c = length (filter (\<lambda>p. c \<in> set (reply_codes (snd p))) ps)" for c
    using assms(2) by (simp add: count_list_concat_distinct failure_code_lists_all_failed filter_map comp_def)
  ultimately show ?thesis using entries_of_aggregate [of ?cs] by auto
qed

text \<open>
  When every child failed with one and the same error code, the synthesized
  reply carries exactly that code as a plain error.
\<close>

theorem merge_uniform_failure_plain:
  assumes "distinct (map fst ps)" "ps \<noteq> []"
    and "\<forall>p \<in> set ps. errors (snd p) \<noteq> [] \<and> (\<forall>e \<in> set (errors (snd p)). err_code e = c)"
  shows "merge_verdict ps = Inr (Synthesized (empty_reply [Error c]))"
proof -
  have fail: "\<forall>p \<in> set ps. errors (snd p) \<noteq> []" using assms(3) by blast
  have "set (concat (failure_code_lists ps)) = {c}"
  proof
    show "set (concat (failure_code_lists ps)) \<subseteq> {c}"
      using assms(3) by (auto simp: failure_code_lists_all_failed [OF fail] set_reply_codes)
    obtain p where "p \<in> set ps" using assms(2) by (cases ps) auto
    with assms(3) obtain e where "e \<in> set (errors (snd p))" "err_code e = c"
      by (metis all_not_in_conv set_empty)
    with \<open>p \<in> set ps\<close> show "{c} \<subseteq> set (concat (failure_code_lists ps))"
      by (auto simp: failure_code_lists_all_failed [OF fail] set_reply_codes)
  qed
  then have "aggregate_errors (failure_code_lists ps) = [Error c]"
    by (rule aggregate_errors_uniform_eq)
  with assms(1,2) fail show ?thesis
    by (simp add: merge_verdict_eq_spec merge_spec_def success_indices_all_failed generated_reply_def)
qed

text \<open>
  In every reachable merger state, a forwarded index is one of the merged
  child indices, and the merged indices are distinct.
\<close>

theorem merger_forward_index_merged:
  assumes "merger_reachable m" "rm_mergedReply m = Inr (Forward i :: unit verdict, m')"
  shows "i \<in> set (merged_indices m) \<and> distinct (merged_indices m)"
  using merger_reachable_inv [OF assms(1)] assms(2)
  by (auto simp: merger_inv_def rm_mergedReply_Inr split: option.splits)

text \<open>
  The resolved state is terminal: no step leaves it, and no step from it
  changes the merged children or the verdict data.
\<close>

theorem merger_resolved_terminal:
  assumes "merger_step m m'" "phase m = Resolved"
  shows "m' = m"
  using assms
  by (induction rule: merger_step.induct) (auto simp: rm_merge_Inr rm_mergedReply_Inr)

section \<open>The examples of the spec\<close>

text \<open>Section 8 of the spec, evaluated on the model.\<close>

lemma spec_example_mixed:
  "merge_verdict [(0, empty_reply [Error 3] :: unit reply), (1, empty_reply [Error 5]), (2, empty_reply [Error 3])]
     = Inr (Synthesized (empty_reply [Aggregated 3 2, Aggregated 5 1]))"
  by code_simp

lemma spec_example_forward:
  "merge_verdict [(0, empty_reply [Error 3] :: unit reply), (1, empty_reply []), (2, empty_reply [Error 5])]
     = Inr (Forward 1)"
  by code_simp

lemma spec_example_uniform:
  "merge_verdict [(0, empty_reply [Error 7] :: unit reply), (1, empty_reply [Error 7])]
     = Inr (Synthesized (empty_reply [Error 7]))"
  by code_simp

end
