(* ===== verification/Protocol_Merge.thy ===== *)
theory Protocol_Merge
  imports Document_Protocol Reply_Merger
begin

text \<open>
  \<open>DocumentProtocol::merge(ctx, mask)\<close> and \<open>DocumentProtocol::merge(ctx)\<close>
  (\<open>documentprotocol.cpp\<close>, lines 190-220) and \<open>hasOnlyErrorsOfType\<close>
  (lines 222-231). The routing context is the list of child reply slots (a
  slot is empty when the child holds no reply) and the context's own reply.
  The loop walks the children with a \<open>uint32_t\<close> index that wraps at
  \<open>2^32\<close>, skips masked indices and merges the others; after the loop the code
  asserts \<open>idx != 0\<close>, takes the merger's verdict, and either moves the
  forwarded child's reply into the context (\<open>skip(okIdx).removeReply()\<close>) or
  installs the synthesized reply.
\<close>

record 'b routing_context =
  child_replies :: "'b reply option list"
  ctx_reply :: "'b reply option"

text \<open>
  The ways the merge fails: a contract violation reported by the merger, a
  non-masked child without a reply (a null dereference in the C++ code), the
  failed assertion \<open>idx != 0\<close>, and a forwarded index past the last child.
\<close>

datatype merge_failure =
    MergerFailure merge_error
  | NullReplyRef u32
  | IdxIsZero
  | SkipPastEnd u32

text \<open>The loop of \<open>merge(ctx, mask)\<close>; it returns the merger and the final index.\<close>

fun dp_merge_loop ::
  "u32 set \<Rightarrow> u32 \<Rightarrow> 'b reply option list \<Rightarrow> merger \<Rightarrow> merge_failure + (merger \<times> u32)" where
  "dp_merge_loop masked idx [] rm = Inr (rm, idx)"
| "dp_merge_loop masked idx (c # cs) rm =
     (if idx \<in> masked then dp_merge_loop masked (idx + 1) cs rm
      else case c of
             None \<Rightarrow> Inl (NullReplyRef idx)
           | Some r \<Rightarrow> (case rm_merge rm idx r of
                         Inl e \<Rightarrow> Inl (MergerFailure e)
                       | Inr rm' \<Rightarrow> dp_merge_loop masked (idx + 1) cs rm'))"

text \<open>
  \<open>ctx.setReply(ctx.getChildIterator().skip(okIdx).removeReply())\<close>: the
  forwarded child's reply moves into the context and its slot is cleared.
\<close>

definition take_child_reply :: "u32 \<Rightarrow> 'b routing_context \<Rightarrow> merge_failure + 'b routing_context" where
  "take_child_reply k ctx =
     (if unat k < length (child_replies ctx)
      then Inr (ctx\<lparr>ctx_reply := child_replies ctx ! unat k,
                  child_replies := (child_replies ctx)[unat k := None]\<rparr>)
      else Inl (SkipPastEnd k))"

definition dp_merge :: "u32 set \<Rightarrow> 'b routing_context \<Rightarrow> merge_failure + 'b routing_context" where
  "dp_merge masked ctx =
     (case dp_merge_loop masked 0 (child_replies ctx) rm_init of
        Inl e \<Rightarrow> Inl e
      | Inr (rm, idx) \<Rightarrow>
          if idx = 0 then Inl IdxIsZero
          else (case rm_mergedReply rm of
                  Inl e \<Rightarrow> Inl (MergerFailure e)
                | Inr (Forward k, _) \<Rightarrow> take_child_reply k ctx
                | Inr (Synthesized r, _) \<Rightarrow> Inr (ctx\<lparr>ctx_reply := Some r\<rparr>)))"

text \<open>\<open>merge(ctx)\<close>: the merge with an empty mask.\<close>

definition dp_merge_all :: "'b routing_context \<Rightarrow> merge_failure + 'b routing_context" where
  "dp_merge_all ctx = dp_merge {} ctx"

text \<open>The loop of \<open>hasOnlyErrorsOfType(reply, errCode)\<close> over the reply's errors.\<close>

fun errors_only_of :: "error list \<Rightarrow> u32 \<Rightarrow> bool" where
  "errors_only_of [] c = True"
| "errors_only_of (e # es) c = (if err_code e \<noteq> c then False else errors_only_of es c)"

definition hasOnlyErrorsOfType :: "'b reply \<Rightarrow> u32 \<Rightarrow> bool" where
  "hasOnlyErrorsOfType r c = errors_only_of (errors r) c"

text \<open>
  The non-masked children with their indices, as the loop visits them, or the
  index of the first non-masked child without a reply.
\<close>

fun live_children :: "u32 set \<Rightarrow> u32 \<Rightarrow> 'b reply option list \<Rightarrow> u32 + (u32 \<times> 'b reply) list" where
  "live_children masked idx [] = Inr []"
| "live_children masked idx (c # cs) =
     (if idx \<in> masked then live_children masked (idx + 1) cs
      else case c of
             None \<Rightarrow> Inl idx
           | Some r \<Rightarrow> (case live_children masked (idx + 1) cs of
                         Inl i \<Rightarrow> Inl i
                       | Inr ps \<Rightarrow> Inr ((idx, r) # ps)))"

section \<open>The loop\<close>

lemma hasOnlyErrorsOfType_iff: "hasOnlyErrorsOfType r c \<longleftrightarrow> (\<forall>e \<in> set (errors r). err_code e = c)"
proof -
  have "errors_only_of es c \<longleftrightarrow> (\<forall>e \<in> set es. err_code e = c)" for es
    by (induction es) auto
  then show ?thesis by (simp add: hasOnlyErrorsOfType_def)
qed

lemma dp_merge_loop_live:
  "live_children masked idx cs = Inr ps \<Longrightarrow>
   dp_merge_loop masked idx cs rm =
     (case rm_merge_list rm ps of
        Inl e \<Rightarrow> Inl (MergerFailure e)
      | Inr rm' \<Rightarrow> Inr (rm', idx + of_nat (length cs)))"
proof (induction cs arbitrary: idx rm ps)
  case Nil
  then show ?case by simp
next
  case (Cons c cs)
  have len: "idx + of_nat (length (c # cs)) = idx + 1 + of_nat (length cs)"
    by (simp only: length_Cons of_nat_Suc ac_simps)
  show ?case
  proof (cases "idx \<in> masked")
    case True
    with Cons have "live_children masked (idx + 1) cs = Inr ps" by simp
    from Cons.IH [OF this, of rm] True show ?thesis unfolding len by simp
  next
    case False
    with Cons.prems obtain r ps' where c: "c = Some r"
      and ps: "live_children masked (idx + 1) cs = Inr ps'" "ps = (idx, r) # ps'"
      by (auto split: option.splits sum.splits)
    show ?thesis
    proof (cases "rm_merge rm idx r")
      case (Inl e)
      with False c ps show ?thesis by simp
    next
      case (Inr rm')
      with False c ps Cons.IH [OF ps(1), of rm'] show ?thesis
        unfolding len by (simp split: sum.split)
    qed
  qed
qed

text \<open>
  Without wrap-around (fewer than \<open>2^32\<close> children) the loop visits the children
  at their positions: the live children are exactly the non-masked slots, in
  increasing index order.
\<close>

lemma live_children_members:
  assumes "live_children masked (of_nat n) cs = Inr ps" "n + length cs < 2 ^ 32"
  shows "sorted_wrt (<) (map (unat \<circ> fst) ps) \<and>
         (\<forall>i r. (i, r) \<in> set ps \<longleftrightarrow>
                n \<le> unat i \<and> unat i < n + length cs \<and> i \<notin> masked \<and> cs ! (unat i - n) = Some r)"
  using assms
proof (induction cs arbitrary: n ps)
  case Nil
  then show ?case by auto
next
  case (Cons c cs)
  have n: "unat (of_nat n :: u32) = n" using Cons.prems(2) by (simp add: unat_of_nat_small)
  have suc: "(of_nat n :: u32) + 1 = of_nat (Suc n)" by simp
  have small: "Suc n + length cs < 2 ^ 32" using Cons.prems(2) by simp
  show ?case
  proof (cases "(of_nat n :: u32) \<in> masked")
    case True
    with Cons.prems(1) suc have "live_children masked (of_nat (Suc n)) cs = Inr ps" by simp
    from Cons.IH [OF this small] have ih:
      "sorted_wrt (<) (map (unat \<circ> fst) ps)"
      "\<And>i r. (i, r) \<in> set ps \<longleftrightarrow>
         Suc n \<le> unat i \<and> unat i < Suc n + length cs \<and> i \<notin> masked \<and> cs ! (unat i - Suc n) = Some r"
      by blast+
    have "(i, r) \<in> set ps \<longleftrightarrow>
          n \<le> unat i \<and> unat i < n + length (c # cs) \<and> i \<notin> masked \<and> (c # cs) ! (unat i - n) = Some r" for i r
    proof -
      have "i \<notin> masked \<Longrightarrow> n \<le> unat i \<Longrightarrow> unat i \<noteq> n"
        using True n by (metis unat_eq_of_nat)
      then show ?thesis
        by (auto simp: ih(2) Suc_le_eq nth_Cons' Suc_diff_Suc[symmetric] not_less_eq_eq)
    qed
    with ih(1) show ?thesis by blast
  next
    case False
    with Cons.prems(1) obtain r ps' where c: "c = Some r"
      and ps': "live_children masked (of_nat (Suc n)) cs = Inr ps'" and ps: "ps = (of_nat n, r) # ps'"
      by (auto simp: suc split: option.splits sum.splits)
    from Cons.IH [OF ps' small] have ih:
      "sorted_wrt (<) (map (unat \<circ> fst) ps')"
      "\<And>i r. (i, r) \<in> set ps' \<longleftrightarrow>
         Suc n \<le> unat i \<and> unat i < Suc n + length cs \<and> i \<notin> masked \<and> cs ! (unat i - Suc n) = Some r"
      by blast+
    have mem: "(i, r') \<in> set ps \<longleftrightarrow>
          n \<le> unat i \<and> unat i < n + length (c # cs) \<and> i \<notin> masked \<and> (c # cs) ! (unat i - n) = Some r'" for i r'
    proof (cases "unat i = n")
      case True
      then have "i = of_nat n" by (metis unat_eq_of_nat)
      with True False c ps show ?thesis using ih(2) by auto
    next
      case False
      then show ?thesis
        using ps ih(2) n
        by (auto simp: Suc_le_eq nth_Cons' Suc_diff_Suc[symmetric] not_less_eq_eq)
    qed
    have "sorted_wrt (<) (map (unat \<circ> fst) ps)"
      using ih ps n by auto
    with mem show ?thesis by blast
  qed
qed

lemma live_children_mem:
  assumes "live_children masked 0 cs = Inr ps" "length cs < 2 ^ 32"
  shows "(i, r) \<in> set ps \<longleftrightarrow> unat i < length cs \<and> i \<notin> masked \<and> cs ! unat i = Some r"
  using live_children_members [of masked 0 cs ps] assms by simp

lemma live_children_distinct:
  assumes "live_children masked 0 cs = Inr ps" "length cs < 2 ^ 32"
  shows "distinct (map fst ps)"
proof -
  have "sorted_wrt (<) (map (unat \<circ> fst) ps)"
    using live_children_members [of masked 0 cs ps] assms by simp
  then have "distinct (map unat (map fst ps))" by (simp add: strict_sorted_iff)
  then show ?thesis by (metis distinct_map)
qed

lemma live_children_no_null:
  "live_children masked idx cs = Inr ps \<Longrightarrow> k < length cs \<Longrightarrow> idx + of_nat k \<notin> masked \<Longrightarrow> cs ! k \<noteq> None"
proof (induction cs arbitrary: idx ps k)
  case Nil
  then show ?case by simp
next
  case (Cons c cs)
  show ?case
  proof (cases k)
    case 0
    with Cons.prems show ?thesis by (auto split: if_splits option.splits sum.splits)
  next
    case (Suc k')
    have "idx + of_nat k = (idx + 1) + of_nat k'"
      using Suc by (simp only: of_nat_Suc ac_simps)
    then have "idx + 1 + of_nat k' \<notin> masked" using Cons.prems(3) by (simp add: add.assoc)
    moreover obtain ps' where "live_children masked (idx + 1) cs = Inr ps'"
      using Cons.prems(1) by (auto split: if_splits option.splits sum.splits)
    ultimately have "cs ! k' \<noteq> None" using Cons.IH Cons.prems(2) Suc by simp
    then show ?thesis using Suc by simp
  qed
qed

lemma u32_of_nat_eq_0: "(of_nat n :: u32) = 0 \<longleftrightarrow> 2 ^ 32 dvd n"
proof -
  have "(of_nat n :: u32) = 0 \<longleftrightarrow> unat (of_nat n :: u32) = 0" by (simp only: unat_eq_zero)
  also have "\<dots> \<longleftrightarrow> n mod 2 ^ 32 = 0" by (simp add: unat_of_nat)
  finally show ?thesis by (simp add: dvd_eq_mod_eq_0)
qed

lemma of_nat_length_nonzero: "xs \<noteq> [] \<Longrightarrow> length xs < 2 ^ 32 \<Longrightarrow> (of_nat (length xs) :: u32) \<noteq> 0"
  by (metis length_0_conv unat_0 unat_of_nat_small)

lemma merge_spec_Forward_mem:
  "merge_spec ps = Inr (Forward k) \<Longrightarrow> k \<in> set (success_indices ps)"
  by (auto simp: merge_spec_def split: if_splits)

lemma success_indices_mem: "i \<in> set (success_indices ps) \<longleftrightarrow> (\<exists>r. (i, r) \<in> set ps \<and> errors r = [])"
  by (force simp: success_indices_conv)

lemma dp_merge_eq_spec:
  fixes ctx :: "'b routing_context"
  assumes "length (child_replies ctx) < 2 ^ 32" "child_replies ctx \<noteq> []"
    and "live_children masked 0 (child_replies ctx) = Inr ps"
  shows "dp_merge masked ctx =
           (case merge_spec ps of
              Inl e \<Rightarrow> Inl (MergerFailure e)
            | Inr (Forward k) \<Rightarrow> Inr (ctx\<lparr>ctx_reply := child_replies ctx ! unat k,
                                      child_replies := (child_replies ctx)[unat k := None]\<rparr>)
            | Inr (Synthesized r) \<Rightarrow> Inr (ctx\<lparr>ctx_reply := Some r\<rparr>))"
proof -
  let ?cs = "child_replies ctx"
  have dist: "distinct (map fst ps)" using assms(3,1) by (rule live_children_distinct)
  let ?m = "rm_init\<lparr>merged_indices := map fst ps, success_index := least_of (success_indices ps),
                    failure_codes := failure_code_lists ps\<rparr>"
  have run: "rm_merge_list rm_init ps = Inr ?m"
    using rm_merge_list_run [of rm_init ps "[]"] dist by (simp add: rm_init_def least_of_def)
  have loop: "dp_merge_loop masked 0 ?cs rm_init = Inr (?m, of_nat (length ?cs))"
    using dp_merge_loop_live [OF assms(3), of rm_init] run by simp
  have nz: "(of_nat (length ?cs) :: u32) \<noteq> 0" using assms(2,1) by (rule of_nat_length_nonzero)
  have verdict: "map_sum id fst (rm_mergedReply ?m :: merge_error + ('b verdict \<times> merger)) = merge_spec ps"
    using merge_verdict_eq_spec [OF dist] run by (simp add: merge_verdict_def)
  show ?thesis
  proof (cases "rm_mergedReply ?m :: merge_error + ('b verdict \<times> merger)")
    case (Inl e)
    with verdict have "merge_spec ps = Inl e" by simp
    with Inl loop nz show ?thesis by (simp add: dp_merge_def)
  next
    case (Inr vm)
    obtain v m' where vm: "vm = (v, m')" by (cases vm)
    show ?thesis
    proof (cases v)
      case (Forward k)
      with verdict Inr vm have spec: "merge_spec ps = Inr (Forward k)" by simp
      then obtain r where "(k, r) \<in> set ps"
        using merge_spec_Forward_mem success_indices_mem by metis
      then have "unat k < length ?cs" using live_children_mem [OF assms(3,1)] by blast
      with Forward Inr vm spec loop nz show ?thesis by (simp add: dp_merge_def take_child_reply_def)
    next
      case (Synthesized r)
      with verdict Inr vm have "merge_spec ps = Inr (Synthesized r)" by simp
      with Synthesized Inr vm loop nz show ?thesis by (simp add: dp_merge_def)
    qed
  qed
qed

section \<open>Properties of the merge\<close>

text \<open>C1: refinement of the reply merge. With fewer than 2^32 children, at least one of them, and no non-masked child without a reply, merge(ctx, mask) does what the merger contract merge_spec prescribes for the non-masked children with their indices: it forwards the chosen child's reply (moving it out of its slot) or installs the synthesized reply, or reports the merger's contract violation.\<close>

theorem dp_merge_contract:
  fixes ctx :: "'b routing_context"
  assumes "length (child_replies ctx) < 2 ^ 32" "child_replies ctx \<noteq> []"
    and "live_children masked 0 (child_replies ctx) = Inr ps"
  shows "dp_merge masked ctx =
           (case merge_spec ps of
              Inl e \<Rightarrow> Inl (MergerFailure e)
            | Inr (Forward k) \<Rightarrow> Inr (ctx\<lparr>ctx_reply := child_replies ctx ! unat k,
                                      child_replies := (child_replies ctx)[unat k := None]\<rparr>)
            | Inr (Synthesized r) \<Rightarrow> Inr (ctx\<lparr>ctx_reply := Some r\<rparr>))"
  using assms by (rule dp_merge_eq_spec)

text \<open>C2: if some non-masked child holds a successful reply, merge(ctx, mask) moves the successful reply of the lowest non-masked index k into the context and clears that slot; every non-masked child before k failed.\<close>

theorem dp_merge_forwards_first_success:
  assumes "length (child_replies ctx) < 2 ^ 32"
    and "live_children masked 0 (child_replies ctx) = Inr ps"
    and "j < length (child_replies ctx)" "of_nat j \<notin> masked"
    and "child_replies ctx ! j = Some r" "errors r = []"
  shows "\<exists>k r'. dp_merge masked ctx =
                 Inr (ctx\<lparr>ctx_reply := Some r', child_replies := (child_replies ctx)[k := None]\<rparr>) \<and>
               child_replies ctx ! k = Some r' \<and> errors r' = [] \<and> of_nat k \<notin> masked \<and> k \<le> j \<and>
               (\<forall>i < k. of_nat i \<notin> masked \<longrightarrow>
                  (\<exists>r''. child_replies ctx ! i = Some r'' \<and> errors r'' \<noteq> []))"
proof -
  let ?cs = "child_replies ctx"
  have mem: "(i, x) \<in> set ps \<longleftrightarrow> unat i < length ?cs \<and> i \<notin> masked \<and> ?cs ! unat i = Some x" for i x
    using live_children_mem [OF assms(2,1)] .
  have uj: "unat (of_nat j :: u32) = j" using assms(1,3) by (simp add: unat_of_nat_small)
  have "(of_nat j, r) \<in> set ps" using mem uj assms(3-5) by simp
  then have jin: "of_nat j \<in> set (success_indices ps)" using assms(6) success_indices_mem by blast
  let ?w = "Min (set (success_indices ps))"
  have win: "?w \<in> set (success_indices ps)" using jin by (intro Min_in) auto
  then obtain r' where wr: "(?w, r') \<in> set ps" "errors r' = []" using success_indices_mem by blast
  have wle: "?w \<le> of_nat j" using jin by simp
  let ?k = "unat ?w"
  have k: "?k < length ?cs" "?w \<notin> masked" "?cs ! ?k = Some r'" using wr(1) mem by blast+
  have kj: "?k \<le> j" using wle uj by (metis word_le_nat_alt)
  have spec: "merge_spec ps = Inr (Forward ?w)"
    using jin \<open>(of_nat j, r) \<in> set ps\<close> by (auto simp: merge_spec_def)
  have ne: "?cs \<noteq> []" using assms(3) by auto
  have res: "dp_merge masked ctx =
               Inr (ctx\<lparr>ctx_reply := Some r', child_replies := ?cs[?k := None]\<rparr>)"
    using dp_merge_eq_spec [OF assms(1) ne assms(2)] spec k(3) by simp
  have before: "\<exists>r''. ?cs ! i = Some r'' \<and> errors r'' \<noteq> []" if "i < ?k" "of_nat i \<notin> masked" for i
  proof -
    have il: "i < length ?cs" using that(1) k(1) by simp
    have ui: "unat (of_nat i :: u32) = i" using il assms(1) by (simp add: unat_of_nat_small)
    have "?cs ! i \<noteq> None"
      using live_children_no_null [OF assms(2) il] that(2) by simp
    then obtain r'' where r'': "?cs ! i = Some r''" by blast
    have "errors r'' \<noteq> []"
    proof
      assume "errors r'' = []"
      moreover have "(of_nat i, r'') \<in> set ps" using mem ui il that(2) r'' by simp
      ultimately have "of_nat i \<in> set (success_indices ps)" using success_indices_mem by blast
      then have "?w \<le> of_nat i" by simp
      then have "?k \<le> i" using ui by (metis word_le_nat_alt)
      with that(1) show False by simp
    qed
    with r'' show ?thesis by blast
  qed
  have "of_nat ?k = ?w" by simp
  with res k wr(2) kj before show ?thesis by metis
qed

text \<open>C3: if every non-masked child failed and two distinct error codes occur, the context gets a generated reply whose errors are one aggregated error per distinct code, ordered by decreasing count and then increasing code, each count being the number of children whose reply carries that code.\<close>

theorem dp_merge_all_failed_aggregates:
  assumes "length (child_replies ctx) < 2 ^ 32"
    and "live_children masked 0 (child_replies ctx) = Inr ps"
    and "\<forall>p \<in> set ps. errors (snd p) \<noteq> []"
    and "c1 \<in> set (concat (failure_code_lists ps))" "c2 \<in> set (concat (failure_code_lists ps))" "c1 \<noteq> c2"
  shows "\<exists>es. dp_merge masked ctx =
                Inr (ctx\<lparr>ctx_reply := Some (empty_reply (map (\<lambda>(c, n). Aggregated c n) es))\<rparr>) \<and>
              sorted_wrt entry_before es \<and> distinct (map fst es) \<and>
              fst ` set es = set (concat (failure_code_lists ps)) \<and>
              (\<forall>(c, n) \<in> set es. n = length (filter (\<lambda>p. c \<in> set (reply_codes (snd p))) ps))"
proof -
  let ?cs = "concat (failure_code_lists ps)"
  let ?es = "sort_entries (count_codes ?cs)"
  have ne: "ps \<noteq> []" using assms(4) by auto
  then have cne: "child_replies ctx \<noteq> []" using assms(2) by (cases "child_replies ctx") auto
  have agg: "aggregate_errors (failure_code_lists ps) = map (\<lambda>(c, n). Aggregated c n) ?es"
    using assms(4-6) by (rule aggregate_errors_mixed_eq)
  have "merge_spec ps = Inr (Synthesized (empty_reply (map (\<lambda>(c, n). Aggregated c n) ?es)))"
    using ne assms(3) agg by (simp add: merge_spec_def success_indices_all_failed generated_reply_def)
  then have "dp_merge masked ctx =
               Inr (ctx\<lparr>ctx_reply := Some (empty_reply (map (\<lambda>(c, n). Aggregated c n) ?es))\<rparr>)"
    using dp_merge_eq_spec [OF assms(1) cne assms(2)] by simp
  moreover have "count_list ?cs c = length (filter (\<lambda>p. c \<in> set (reply_codes (snd p))) ps)" for c
    using assms(3) by (simp add: count_list_concat_distinct failure_code_lists_all_failed filter_map comp_def)
  ultimately show ?thesis using entries_of_aggregate [of ?cs] by auto
qed

text \<open>C4: if every non-masked child failed with the single error code c, the context gets a generated reply holding exactly the error c, and hasOnlyErrorsOfType holds of it for c.\<close>

theorem dp_merge_uniform_failure:
  assumes "length (child_replies ctx) < 2 ^ 32"
    and "live_children masked 0 (child_replies ctx) = Inr ps" "ps \<noteq> []"
    and "\<forall>p \<in> set ps. errors (snd p) \<noteq> [] \<and> (\<forall>e \<in> set (errors (snd p)). err_code e = c)"
  shows "\<exists>r. dp_merge masked ctx = Inr (ctx\<lparr>ctx_reply := Some r\<rparr>) \<and>
             errors r = [Error c] \<and> hasOnlyErrorsOfType r c"
proof -
  have fail: "\<forall>p \<in> set ps. errors (snd p) \<noteq> []" using assms(4) by blast
  have cne: "child_replies ctx \<noteq> []" using assms(2,3) by (cases "child_replies ctx") auto
  have "set (concat (failure_code_lists ps)) = {c}"
  proof
    show "set (concat (failure_code_lists ps)) \<subseteq> {c}"
      using assms(4) by (auto simp: failure_code_lists_all_failed [OF fail] set_reply_codes)
    obtain p where "p \<in> set ps" using assms(3) by (cases ps) auto
    with assms(4) obtain e where "e \<in> set (errors (snd p))" "err_code e = c"
      by (metis all_not_in_conv set_empty)
    with \<open>p \<in> set ps\<close> show "{c} \<subseteq> set (concat (failure_code_lists ps))"
      by (auto simp: failure_code_lists_all_failed [OF fail] set_reply_codes)
  qed
  then have "aggregate_errors (failure_code_lists ps) = [Error c]"
    by (rule aggregate_errors_uniform_eq)
  then have "merge_spec ps = Inr (Synthesized (empty_reply [Error c]))"
    using assms(3) fail by (simp add: merge_spec_def success_indices_all_failed generated_reply_def)
  then have "dp_merge masked ctx = Inr (ctx\<lparr>ctx_reply := Some (empty_reply [Error c])\<rparr>)"
    using dp_merge_eq_spec [OF assms(1) cne assms(2)] by simp
  then show ?thesis by (auto simp: empty_reply_def hasOnlyErrorsOfType_iff)
qed

lemma live_children_all_masked:
  "\<forall>k < length cs. idx + of_nat k \<in> masked \<Longrightarrow> live_children masked idx cs = Inr []"
proof (induction cs arbitrary: idx)
  case Nil
  then show ?case by simp
next
  case (Cons c cs)
  have "idx + of_nat 0 \<in> masked" using Cons.prems by blast
  then have "idx \<in> masked" by simp
  moreover have "\<forall>k < length cs. idx + 1 + of_nat k \<in> masked"
  proof (intro allI impI)
    fix k assume "k < length cs"
    then have "idx + of_nat (Suc k) \<in> masked" using Cons.prems by auto
    then show "idx + 1 + of_nat k \<in> masked" by (simp only: of_nat_Suc ac_simps)
  qed
  ultimately show ?case using Cons.IH by simp
qed

text \<open>C5: when every child is masked (and there is at least one child), the assertion idx != 0 passes and the merger is asked for a verdict with nothing merged: the merge fails with the merger's NoReplyMerged error.\<close>

theorem dp_merge_all_masked:
  assumes "length (child_replies ctx) < 2 ^ 32" "child_replies ctx \<noteq> []"
    and "\<forall>i < length (child_replies ctx). of_nat i \<in> masked"
  shows "dp_merge masked ctx = Inl (MergerFailure NoReplyMerged)"
proof -
  have "live_children masked 0 (child_replies ctx) = Inr []"
    using assms(3) by (intro live_children_all_masked) simp
  then show ?thesis
    using dp_merge_eq_spec [OF assms(1,2)] by (simp add: merge_spec_def)
qed

text \<open>C7: the assertion idx != 0 fails exactly when the number of children
  is a multiple of \<open>2^32\<close>: the 32-bit index counts every child, masked
  ones included, modulo \<open>2^32\<close>. So a context without children fails it,
  and so does one with \<open>2^32\<close> children; any other merge that gets past
  the loop never fails the assertion.\<close>

theorem dp_merge_assertion_iff:
  assumes "live_children masked 0 (child_replies ctx) = Inr ps" "rm_merge_list rm_init ps = Inr rm"
  shows "dp_merge masked ctx = Inl IdxIsZero \<longleftrightarrow> 2 ^ 32 dvd length (child_replies ctx)"
proof -
  have loop: "dp_merge_loop masked 0 (child_replies ctx) rm_init = Inr (rm, of_nat (length (child_replies ctx)))"
    using dp_merge_loop_live [OF assms(1), of rm_init] assms(2) by simp
  have "(case rm_mergedReply rm of
           Inl e \<Rightarrow> Inl (MergerFailure e)
         | Inr (Forward k, _) \<Rightarrow> take_child_reply k ctx
         | Inr (Synthesized r, _) \<Rightarrow> Inr (ctx\<lparr>ctx_reply := Some r\<rparr>)) \<noteq> Inl IdxIsZero"
    by (auto simp: take_child_reply_def split: sum.splits prod.splits verdict.splits)
  then show ?thesis using loop by (simp add: dp_merge_def u32_of_nat_eq_0)
qed

lemma live_children_Inl:
  assumes "live_children masked (of_nat n) cs = Inl i" "n + length cs < 2 ^ 32"
  shows "n \<le> unat i \<and> unat i < n + length cs \<and> i \<notin> masked \<and> cs ! (unat i - n) = None"
  using assms
proof (induction cs arbitrary: n)
  case Nil
  then show ?case by simp
next
  case (Cons c cs)
  have n: "unat (of_nat n :: u32) = n" using Cons.prems(2) by (simp add: unat_of_nat_small)
  have suc: "(of_nat n :: u32) + 1 = of_nat (Suc n)" by simp
  have small: "Suc n + length cs < 2 ^ 32" using Cons.prems(2) by simp
  show ?case
  proof (cases "(of_nat n :: u32) \<in> masked \<or> c \<noteq> None")
    case True
    then have "live_children masked ((of_nat n :: u32) + 1) cs = Inl i"
      using Cons.prems(1) by (auto split: if_splits option.splits sum.splits)
    then have "live_children masked (of_nat (Suc n)) cs = Inl i" unfolding suc .
    from Cons.IH [OF this small] show ?thesis by (auto simp: nth_Cons')
  next
    case False
    with Cons.prems(1) have "i = of_nat n" by simp
    with False n show ?thesis by simp
  qed
qed

lemma dp_merge_loop_null:
  assumes "live_children masked (of_nat n) cs = Inl i" "n + length cs < 2 ^ 32"
    and "phase rm = Accumulating" "distinct (merged_indices rm)" "\<forall>j \<in> set (merged_indices rm). unat j < n"
  shows "dp_merge_loop masked (of_nat n) cs rm = Inl (NullReplyRef i)"
  using assms
proof (induction cs arbitrary: n rm)
  case Nil
  then show ?case by simp
next
  case (Cons c cs)
  have n: "unat (of_nat n :: u32) = n" using Cons.prems(2) by (simp add: unat_of_nat_small)
  have suc: "(of_nat n :: u32) + 1 = of_nat (Suc n)" by simp
  have small: "Suc n + length cs < 2 ^ 32" using Cons.prems(2) by simp
  show ?case
  proof (cases "(of_nat n :: u32) \<in> masked")
    case True
    then have "live_children masked (of_nat (Suc n)) cs = Inl i" using Cons.prems(1) suc by simp
    have "dp_merge_loop masked (of_nat n) (c # cs) rm = dp_merge_loop masked (of_nat (Suc n)) cs rm"
      by (simp only: dp_merge_loop.simps True if_True suc)
    also have "\<dots> = Inl (NullReplyRef i)"
    proof (rule Cons.IH [OF \<open>live_children masked (of_nat (Suc n)) cs = Inl i\<close> small])
      show "\<forall>j \<in> set (merged_indices rm). unat j < Suc n" using Cons.prems(5) by auto
    qed (use Cons.prems(3,4) in simp_all)
    finally show ?thesis .
  next
    case False
    show ?thesis
    proof (cases c)
      case None
      with False Cons.prems(1) show ?thesis by simp
    next
      case (Some r)
      with False Cons.prems(1) have live: "live_children masked (of_nat (Suc n)) cs = Inl i"
        using suc by (auto split: sum.splits)
      have fresh: "(of_nat n :: u32) \<notin> set (merged_indices rm)" using Cons.prems(5) n by auto
      then obtain rm' where step: "rm_merge rm (of_nat n) r = Inr rm'"
        and rm': "phase rm' = Accumulating" "merged_indices rm' = merged_indices rm @ [of_nat n]"
        using Cons.prems(3) by (cases "errors r = []") (auto simp: rm_merge_Inr)
      have "distinct (merged_indices rm')" using rm'(2) Cons.prems(4) fresh by simp
      moreover have "\<forall>j \<in> set (merged_indices rm'). unat j < Suc n" using rm'(2) Cons.prems(5) n by auto
      ultimately have "dp_merge_loop masked (of_nat (Suc n)) cs rm' = Inl (NullReplyRef i)"
        using Cons.IH [OF live small rm'(1)] by simp
      with False Some step show ?thesis by (simp only: dp_merge_loop.simps if_False option.case sum.case suc)
    qed
  qed
qed

text \<open>C6: a non-masked child slot without a reply makes the merge fail at the first such index i (the null reference of the C++ loop); i is a non-masked index of an empty slot.\<close>

theorem dp_merge_null_child:
  assumes "length (child_replies ctx) < 2 ^ 32"
    and "live_children masked 0 (child_replies ctx) = Inl i"
  shows "dp_merge masked ctx = Inl (NullReplyRef i) \<and> i \<notin> masked \<and>
         unat i < length (child_replies ctx) \<and> child_replies ctx ! unat i = None"
proof -
  have "dp_merge_loop masked 0 (child_replies ctx) rm_init = Inl (NullReplyRef i)"
    using dp_merge_loop_null [of masked 0 "child_replies ctx" i rm_init] assms
    by (simp add: rm_init_def)
  moreover have "unat i < length (child_replies ctx) \<and> i \<notin> masked \<and> child_replies ctx ! unat i = None"
    using live_children_Inl [of masked 0 "child_replies ctx" i] assms by simp
  ultimately show ?thesis by (simp add: dp_merge_def)
qed


text \<open>C26: progress of the merge: when at least one child takes part,
  merge always leaves a reply in the context, and a successful one when any
  participating child succeeded.\<close>

theorem dp_merge_delivers_reply:
  assumes "length (child_replies ctx) < 2 ^ 32"
    and "live_children masked 0 (child_replies ctx) = Inr ps" "ps \<noteq> []"
  shows "\<exists>ctx' r. dp_merge masked ctx = Inr ctx' \<and> ctx_reply ctx' = Some r \<and>
                 ((\<exists>p \<in> set ps. errors (snd p) = []) \<longrightarrow> errors r = [])"
proof -
  let ?cs = "child_replies ctx"
  have cne: "?cs \<noteq> []" using assms(2,3) by (cases ?cs) auto
  note eq = dp_merge_eq_spec [OF assms(1) cne assms(2)]
  show ?thesis
  proof (cases "success_indices ps = []")
    case False
    let ?k = "Min (set (success_indices ps))"
    have spec: "merge_spec ps = Inr (Forward ?k)" using assms(3) False by (simp add: merge_spec_def)
    have "?k \<in> set (success_indices ps)" using False by simp
    then obtain r where r: "(?k, r) \<in> set ps" "errors r = []" by (auto simp: success_indices_mem)
    then have "?cs ! unat ?k = Some r" using live_children_mem [OF assms(2,1)] by simp
    then show ?thesis using eq spec r by auto
  next
    case True
    have spec: "merge_spec ps = Inr (Synthesized (generated_reply (failure_code_lists ps)))"
      using assms(3) True by (simp add: merge_spec_def)
    have "\<not> (\<exists>p \<in> set ps. errors (snd p) = [])"
    proof
      assume "\<exists>p \<in> set ps. errors (snd p) = []"
      then obtain i r where "(i, r) \<in> set ps" "errors r = []" by auto
      then have "i \<in> set (success_indices ps)" by (auto simp: success_indices_mem)
      with True show False by simp
    qed
    then show ?thesis using eq spec by auto
  qed
qed

section \<open>Witnesses\<close>

theorem dp_merge_contract_witness:
  "length [Some (empty_reply [Error 3]), Some (empty_reply [] :: unit reply)] < 2 ^ 32 \<and>
   live_children {} 0 [Some (empty_reply [Error 3]), Some (empty_reply [] :: unit reply)] =
     Inr [(0, empty_reply [Error 3]), (1, empty_reply [])] \<and>
   dp_merge {} \<lparr>child_replies = [Some (empty_reply [Error 3]), Some (empty_reply [] :: unit reply)], ctx_reply = None\<rparr> =
     Inr \<lparr>child_replies = [Some (empty_reply [Error 3]), None], ctx_reply = Some (empty_reply [])\<rparr>"
proof -
  let ?ctx = "\<lparr>child_replies = [Some (empty_reply [Error 3]), Some (empty_reply [])], ctx_reply = None\<rparr> :: unit routing_context"
  have h: "length (child_replies ?ctx) < 2 ^ 32" "child_replies ?ctx \<noteq> []"
    "live_children {} 0 (child_replies ?ctx) = Inr [(0, empty_reply [Error 3]), (1, empty_reply [])]"
    by simp_all
  have e: "merge_spec [(0, empty_reply [Error 3]), (1 :: u32, empty_reply [] :: unit reply)] = Inr (Forward 1)"
    by code_simp
  show ?thesis using h dp_merge_contract [OF h] e by simp
qed

theorem dp_merge_forwards_first_success_witness:
  "length [Some (empty_reply [Error 3]), Some (empty_reply []), Some (empty_reply [] :: unit reply)] < 2 ^ 32 \<and>
   live_children {} 0 [Some (empty_reply [Error 3]), Some (empty_reply []), Some (empty_reply [] :: unit reply)] =
     Inr [(0, empty_reply [Error 3]), (1, empty_reply []), (2, empty_reply [])] \<and>
   [Some (empty_reply [Error 3]), Some (empty_reply []), Some (empty_reply [] :: unit reply)] ! 2 = Some (empty_reply []) \<and>
   dp_merge {} \<lparr>child_replies = [Some (empty_reply [Error 3]), Some (empty_reply []), Some (empty_reply [] :: unit reply)], ctx_reply = None\<rparr> =
     Inr \<lparr>child_replies = [Some (empty_reply [Error 3]), None, Some (empty_reply [])], ctx_reply = Some (empty_reply [])\<rparr>"
proof -
  let ?ctx = "\<lparr>child_replies = [Some (empty_reply [Error 3]), Some (empty_reply []), Some (empty_reply [])], ctx_reply = None\<rparr> :: unit routing_context"
  have h: "length (child_replies ?ctx) < 2 ^ 32"
    "live_children {} 0 (child_replies ?ctx) = Inr [(0, empty_reply [Error 3]), (1, empty_reply []), (2, empty_reply [])]"
    "2 < length (child_replies ?ctx)" "(of_nat 2 :: u32) \<notin> {}"
    "child_replies ?ctx ! 2 = Some (empty_reply [])" "errors (empty_reply [] :: unit reply) = []"
    by (simp_all add: empty_reply_def)
  from dp_merge_forwards_first_success [OF h] obtain k r' where
    k: "dp_merge {} ?ctx = Inr (?ctx\<lparr>ctx_reply := Some r', child_replies := (child_replies ?ctx)[k := None]\<rparr>)"
       "child_replies ?ctx ! k = Some r'" "errors r' = []" "k \<le> 2"
       "\<forall>i < k. of_nat i \<notin> ({} :: u32 set) \<longrightarrow> (\<exists>r''. child_replies ?ctx ! i = Some r'' \<and> errors r'' \<noteq> [])"
    by blast
  have "k \<noteq> 0"
  proof
    assume "k = 0"
    with k(2) have "r' = empty_reply [Error 3]" by simp
    with k(3) show False by (simp add: empty_reply_def)
  qed
  moreover have "k \<noteq> 2"
  proof
    assume "k = 2"
    then have "(1::nat) < k" by simp
    with k(5) have "of_nat 1 \<notin> ({} :: u32 set) \<longrightarrow>
        (\<exists>r''. child_replies ?ctx ! 1 = Some r'' \<and> errors r'' \<noteq> [])" by blast
    then show False by (simp add: empty_reply_def)
  qed
  ultimately have "k = 1" using k(4) by linarith
  with k(1,2) have "dp_merge {} ?ctx = Inr (?ctx\<lparr>ctx_reply := Some (empty_reply []), child_replies := (child_replies ?ctx)[1 := None]\<rparr>)"
    by simp
  then show ?thesis using h by simp
qed

theorem dp_merge_all_failed_aggregates_witness:
  "length [Some (empty_reply [Error 3]), Some (empty_reply [Error 5]), Some (empty_reply [Error 3] :: unit reply)] < 2 ^ 32 \<and>
   live_children {} 0 [Some (empty_reply [Error 3]), Some (empty_reply [Error 5]), Some (empty_reply [Error 3] :: unit reply)] =
     Inr [(0, empty_reply [Error 3]), (1, empty_reply [Error 5]), (2, empty_reply [Error 3])] \<and>
   errors (empty_reply [Error 3] :: unit reply) \<noteq> [] \<and> errors (empty_reply [Error 5] :: unit reply) \<noteq> [] \<and>
   3 \<in> set (concat (failure_code_lists [(0::u32, empty_reply [Error 3]), (1, empty_reply [Error 5]), (2, empty_reply [Error 3] :: unit reply)])) \<and>
   5 \<in> set (concat (failure_code_lists [(0::u32, empty_reply [Error 3]), (1, empty_reply [Error 5]), (2, empty_reply [Error 3] :: unit reply)])) \<and>
   (\<exists>es. dp_merge {} \<lparr>child_replies = [Some (empty_reply [Error 3]), Some (empty_reply [Error 5]), Some (empty_reply [Error 3] :: unit reply)], ctx_reply = None\<rparr> =
      Inr \<lparr>child_replies = [Some (empty_reply [Error 3]), Some (empty_reply [Error 5]), Some (empty_reply [Error 3])],
           ctx_reply = Some (empty_reply (map (\<lambda>(c, n). Aggregated c n) es))\<rparr> \<and>
      sorted_wrt entry_before es \<and> fst ` set es = {3, 5})"
proof -
  let ?ctx = "\<lparr>child_replies = [Some (empty_reply [Error 3]), Some (empty_reply [Error 5]), Some (empty_reply [Error 3])], ctx_reply = None\<rparr> :: unit routing_context"
  let ?ps = "[(0::u32, empty_reply [Error 3]), (1, empty_reply [Error 5]), (2, empty_reply [Error 3] :: unit reply)]"
  have fl: "failure_code_lists ?ps = [[3], [5], [3]]" by code_simp
  have h: "length (child_replies ?ctx) < 2 ^ 32" "live_children {} 0 (child_replies ?ctx) = Inr ?ps"
    "\<forall>p \<in> set ?ps. errors (snd p) \<noteq> []"
    "3 \<in> set (concat (failure_code_lists ?ps))" "5 \<in> set (concat (failure_code_lists ?ps))" "(3::u32) \<noteq> 5"
    unfolding fl by (simp_all add: empty_reply_def)
  from dp_merge_all_failed_aggregates [OF h] obtain es where
    es: "dp_merge {} ?ctx = Inr (?ctx\<lparr>ctx_reply := Some (empty_reply (map (\<lambda>(c, n). Aggregated c n) es))\<rparr>)"
        "sorted_wrt entry_before es" "fst ` set es = set (concat (failure_code_lists ?ps))"
    by blast
  show ?thesis using h es fl by auto
qed

theorem dp_merge_uniform_failure_witness:
  "length [Some (empty_reply [Error 7]), Some (empty_reply [Error 7] :: unit reply)] < 2 ^ 32 \<and>
   live_children {} 0 [Some (empty_reply [Error 7]), Some (empty_reply [Error 7] :: unit reply)] =
     Inr [(0, empty_reply [Error 7]), (1, empty_reply [Error 7])] \<and>
   (\<exists>r. dp_merge {} \<lparr>child_replies = [Some (empty_reply [Error 7]), Some (empty_reply [Error 7] :: unit reply)], ctx_reply = None\<rparr> =
      Inr \<lparr>child_replies = [Some (empty_reply [Error 7]), Some (empty_reply [Error 7])], ctx_reply = Some r\<rparr> \<and>
      errors r = [Error 7] \<and> hasOnlyErrorsOfType r 7)"
proof -
  let ?ctx = "\<lparr>child_replies = [Some (empty_reply [Error 7]), Some (empty_reply [Error 7])], ctx_reply = None\<rparr> :: unit routing_context"
  let ?ps = "[(0::u32, empty_reply [Error 7]), (1, empty_reply [Error 7] :: unit reply)]"
  have h: "length (child_replies ?ctx) < 2 ^ 32" "live_children {} 0 (child_replies ?ctx) = Inr ?ps" "?ps \<noteq> []"
    "\<forall>p \<in> set ?ps. errors (snd p) \<noteq> [] \<and> (\<forall>e \<in> set (errors (snd p)). err_code e = 7)"
    by (simp_all add: empty_reply_def)
  show ?thesis using h dp_merge_uniform_failure [OF h] by auto
qed

theorem dp_merge_all_masked_witness:
  "length [Some (empty_reply []), Some (empty_reply [Error 3] :: unit reply)] < 2 ^ 32 \<and>
   (of_nat 0 :: u32) \<in> {0, 1} \<and> (of_nat 1 :: u32) \<in> {0, 1} \<and>
   dp_merge {0, 1} \<lparr>child_replies = [Some (empty_reply []), Some (empty_reply [Error 3] :: unit reply)], ctx_reply = None\<rparr> =
     Inl (MergerFailure NoReplyMerged)"
proof -
  let ?ctx = "\<lparr>child_replies = [Some (empty_reply []), Some (empty_reply [Error 3])], ctx_reply = None\<rparr> :: unit routing_context"
  have h: "length (child_replies ?ctx) < 2 ^ 32" "child_replies ?ctx \<noteq> []"
    "\<forall>i < length (child_replies ?ctx). (of_nat i :: u32) \<in> {0, 1}"
    by (simp_all add: less_Suc_eq)
  show ?thesis using h dp_merge_all_masked [OF h] by simp
qed

theorem dp_merge_assertion_iff_witness:
  "live_children {} 0 (child_replies \<lparr>child_replies = [], ctx_reply = None :: unit reply option\<rparr>) = Inr [] \<and>
   rm_merge_list rm_init ([] :: (u32 \<times> unit reply) list) = Inr rm_init \<and>
   dp_merge {} \<lparr>child_replies = [], ctx_reply = None :: unit reply option\<rparr> = Inl IdxIsZero \<and>
   live_children {} 0 (child_replies \<lparr>child_replies = [Some (empty_reply [])], ctx_reply = None :: unit reply option\<rparr>) =
     Inr [(0, empty_reply [])] \<and>
   (\<exists>rm. rm_merge_list rm_init [(0, empty_reply [] :: unit reply)] = Inr rm) \<and>
   dp_merge {} \<lparr>child_replies = [Some (empty_reply [])], ctx_reply = None :: unit reply option\<rparr> \<noteq> Inl IdxIsZero"
proof -
  let ?c0 = "\<lparr>child_replies = [], ctx_reply = None :: unit reply option\<rparr>"
  let ?c1 = "\<lparr>child_replies = [Some (empty_reply [])], ctx_reply = None :: unit reply option\<rparr>"
  have h0: "live_children {} 0 (child_replies ?c0) = Inr []" "rm_merge_list rm_init ([] :: (u32 \<times> unit reply) list) = Inr rm_init"
    by simp_all
  have h1: "live_children {} 0 (child_replies ?c1) = Inr [(0, empty_reply [])]" by simp
  have "\<exists>rm. rm_merge_list rm_init [(0, empty_reply [] :: unit reply)] = Inr rm"
    by (simp add: rm_init_def rm_merge_def empty_reply_def)
  then obtain rm where h2: "rm_merge_list rm_init [(0, empty_reply [] :: unit reply)] = Inr rm" ..
  have "dp_merge {} ?c0 = Inl IdxIsZero" using dp_merge_assertion_iff [OF h0] by simp
  moreover have "dp_merge {} ?c1 \<noteq> Inl IdxIsZero" using dp_merge_assertion_iff [OF h1 h2] by simp
  ultimately show ?thesis using h0 h1 h2 by blast
qed

theorem dp_merge_null_child_witness:
  "length [Some (empty_reply []), None :: unit reply option] < 2 ^ 32 \<and>
   live_children {} 0 [Some (empty_reply []), None :: unit reply option] = Inl 1 \<and>
   dp_merge {} \<lparr>child_replies = [Some (empty_reply []), None :: unit reply option], ctx_reply = None\<rparr> = Inl (NullReplyRef 1)"
proof -
  let ?ctx = "\<lparr>child_replies = [Some (empty_reply []), None], ctx_reply = None\<rparr> :: unit routing_context"
  have h: "length (child_replies ?ctx) < 2 ^ 32" "live_children {} 0 (child_replies ?ctx) = Inl 1"
    by simp_all
  show ?thesis using h dp_merge_null_child [OF h] by simp
qed


theorem dp_merge_delivers_reply_witness:
  "length [Some (empty_reply [Error 3]), Some (empty_reply [] :: unit reply)] < 2 ^ 32 \<and>
   live_children {} 0 [Some (empty_reply [Error 3]), Some (empty_reply [] :: unit reply)] =
     Inr [(0, empty_reply [Error 3]), (1, empty_reply [])] \<and>
   (\<exists>ctx' r. dp_merge {} \<lparr>child_replies = [Some (empty_reply [Error 3]), Some (empty_reply [] :: unit reply)],
                           ctx_reply = None\<rparr> = Inr ctx' \<and> ctx_reply ctx' = Some r \<and> errors r = [])"
proof -
  let ?ctx = "\<lparr>child_replies = [Some (empty_reply [Error 3]), Some (empty_reply [])], ctx_reply = None\<rparr> :: unit routing_context"
  let ?ps = "[(0 :: u32, empty_reply [Error 3]), (1, empty_reply [] :: unit reply)]"
  have h: "length (child_replies ?ctx) < 2 ^ 32" "live_children {} 0 (child_replies ?ctx) = Inr ?ps" "?ps \<noteq> []"
    by simp_all
  have s: "\<exists>p \<in> set ?ps. errors (snd p) = []" by (simp add: empty_reply_def)
  show ?thesis using h s dp_merge_delivers_reply [OF h] by auto
qed

end
