(* ===== verification/Index_Flush_Target.thy ===== *)
theory Index_Flush_Target
  imports Prelude
begin

text \<open>
  \<open>IndexFlushTarget\<close>
  (\<open>src/searchcorespi/src/vespa/searchcorespi/index/indexflushtarget.cpp\<close>):
  the flush target of a memory index. At construction it takes a snapshot of
  the maintainer's flush statistics (\<open>size_t\<close> byte counts) and of its
  numbers of frozen memory indexes; the flushed serial number and the last
  flush time are read from the maintainer at each call, and \<open>initFlush\<close>
  forwards to the maintainer. The memory gain is a
  \<open>Gain<int64_t>\<close>: the unsigned byte counts are converted to \<open>int64_t\<close>,
  which keeps their bits, so the model keeps them as 64-bit words and reads
  them signed (\<open><s\<close>, \<open>sint\<close>) where the code compares or subtracts them as
  \<open>int64_t\<close>.
\<close>

record flush_stats =
  memory_before_bytes :: w64
  memory_after_bytes :: w64

text \<open>The state of the \<open>IndexMaintainer\<close> that the target reads.\<close>

record index_maintainer =
  im_flush_stats :: flush_stats
  im_num_frozen :: u32
  im_max_frozen :: u32
  im_flushed_serial :: w64
  im_last_flush_time :: int

text \<open>
  The statistics of the target's last flush (\<open>_lastStats\<close>), which the
  flush task fills in; the target itself only sets the number of path
  elements they log.
\<close>

record flush_log_stats =
  fls_path_elements_to_log :: nat

text \<open>
  The \<open>IFlushTarget\<close> base of the target: its name, type and component
  (\<open>IFlushTarget::Type\<close> and \<open>IFlushTarget::Component\<close>, declared outside
  this repository; both enums end in \<open>OTHER\<close>, here \<open>OtherType\<close> and
  \<open>OtherComponent\<close>). \<open>IndexFlushTarget\<close> extends it.
\<close>

datatype flush_target_type = FLUSH | SYNC | GC | OtherType

datatype flush_target_component = ATTRIBUTE | INDEX | DOCUMENT_STORE | OtherComponent

record iflush_target =
  ift_name :: string
  ift_type :: flush_target_type
  ift_component :: flush_target_component

record index_flush_target = iflush_target +
  ift_flush_stats :: flush_stats
  ift_num_frozen :: u32
  ift_max_frozen :: u32
  ift_last_stats :: flush_log_stats

text \<open>\<open>IFlushTarget::Gain<int64_t>\<close>: the values before and after a flush, as \<open>int64_t\<close> bits.\<close>

record gain =
  gain_before :: w64
  gain_after :: w64

definition gain_gain :: "gain \<Rightarrow> w64" where
  "gain_gain g = gain_before g - gain_after g"

text \<open>The two constructors: with given statistics, and with the maintainer's own.\<close>

definition ift_init_stats :: "index_maintainer \<Rightarrow> flush_stats \<Rightarrow> index_flush_target" where
  "ift_init_stats im fs =
     \<lparr>ift_name = ''memoryindex.flush'', ift_type = FLUSH, ift_component = INDEX,
      ift_flush_stats = fs, ift_num_frozen = im_num_frozen im, ift_max_frozen = im_max_frozen im,
      ift_last_stats = \<lparr>fls_path_elements_to_log = 7\<rparr>\<rparr>"

definition ift_init :: "index_maintainer \<Rightarrow> index_flush_target" where
  "ift_init im = ift_init_stats im (im_flush_stats im)"

definition ift_getApproxMemoryGain :: "index_flush_target \<Rightarrow> gain" where
  "ift_getApproxMemoryGain t =
     \<lparr>gain_before = memory_before_bytes (ift_flush_stats t),
      gain_after = memory_after_bytes (ift_flush_stats t)\<rparr>"

definition ift_getApproxDiskGain :: "index_flush_target \<Rightarrow> gain" where
  "ift_getApproxDiskGain t = \<lparr>gain_before = 0, gain_after = 0\<rparr>"

text \<open>\<open>G = 1_Gi\<close>; the memory gain is compared with \<open>16*G\<close> as \<open>int64_t\<close>.\<close>

definition urgent_gain_limit :: w64 where
  "urgent_gain_limit = 16 * 2 ^ 30"

definition ift_needUrgentFlush :: "index_flush_target \<Rightarrow> bool" where
  "ift_needUrgentFlush t \<longleftrightarrow>
     ift_max_frozen t < ift_num_frozen t \<or>
     urgent_gain_limit <s gain_gain (ift_getApproxMemoryGain t)"

definition ift_getLastFlushTime :: "index_maintainer \<Rightarrow> index_flush_target \<Rightarrow> int" where
  "ift_getLastFlushTime im t = im_last_flush_time im"

definition ift_getFlushedSerialNum :: "index_maintainer \<Rightarrow> index_flush_target \<Rightarrow> w64" where
  "ift_getFlushedSerialNum im t = im_flushed_serial im"

definition ift_getApproxBytesToWriteToDisk :: "index_flush_target \<Rightarrow> w64" where
  "ift_getApproxBytesToWriteToDisk t =
     (let g = ift_getApproxMemoryGain t
      in if gain_after g <s gain_before g then gain_before g - gain_after g else 0)"

text \<open>
  \<open>initFlush(serialNum, token)\<close> asks the maintainer for the flush task,
  handing it the serial number and the target's own \<open>_lastStats\<close> (by
  address: the task fills in that object); the flush token is not used. The
  maintainer's \<open>initFlush\<close>, whose code is not in the repository, is the
  parameter \<open>im_initFlush\<close>.
\<close>

definition ift_initFlush ::
  "(w64 \<Rightarrow> flush_log_stats \<Rightarrow> 'task) \<Rightarrow> index_flush_target \<Rightarrow> w64 \<Rightarrow> 'token \<Rightarrow> 'task" where
  "ift_initFlush im_initFlush t serialNum token = im_initFlush serialNum (ift_last_stats t)"

section \<open>Signed reading of small sizes\<close>

lemma int_less_pow_iff: "int n < 2 ^ k \<longleftrightarrow> n < 2 ^ k"
  by (metis of_nat_less_iff of_nat_numeral of_nat_power)

lemma sint_small:
  fixes w :: w64
  assumes "unat w < 2 ^ 63"
  shows "sint w = int (unat w)"
proof -
  have u: "uint w = int (unat w)" by (rule uint_nat)
  have lt: "uint w < 2 ^ 63" unfolding u using assms by (simp only: int_less_pow_iff)
  have "(0::int) < 2 ^ 63" by simp
  then have ge: "- (2 ^ 63) \<le> uint w" using uint_ge_0 [of w] by linarith
  have "sint w = signed_take_bit (LENGTH(64) - Suc 0) (uint w)" by (rule sint_uint)
  also have "\<dots> = signed_take_bit 63 (uint w)" by simp
  also have "\<dots> = uint w" using ge lt by (rule signed_take_bit_int_eq_self)
  finally show ?thesis unfolding u .
qed

lemma sint_big_neg:
  fixes w :: w64
  assumes "2 ^ 63 \<le> unat w"
  shows "sint w < 0"
proof -
  have lt: "unat w < 2 ^ 64" using unsigned_less [of w] by simp
  have d: "unat w div 2 ^ 63 = 1" using assms lt by (simp add: div_nat_eqI)
  have "bit (unat w) 63" unfolding bit_iff_odd d by simp
  then have "bit w 63" by (simp add: bit_unsigned_iff)
  then show ?thesis using bit_last_iff [of w] by simp
qed

lemma sless_small:
  fixes a b :: w64
  assumes "unat a < 2 ^ 63" "unat b < 2 ^ 63"
  shows "a <s b \<longleftrightarrow> unat a < unat b"
  by (simp only: word_sless_alt sint_small [OF assms(1)] sint_small [OF assms(2)] of_nat_less_iff)

lemma sint_sub_small:
  fixes a b :: w64
  assumes "unat a < 2 ^ 63" "unat b < 2 ^ 63"
  shows "sint (a - b) = int (unat a) - int (unat b)"
proof -
  have "sint (a - b) = signed_take_bit (LENGTH(64) - 1) (sint a - sint b)" by (rule sint_word_diff)
  also have "\<dots> = signed_take_bit 63 (int (unat a) - int (unat b))"
    by (simp only: sint_small [OF assms(1)] sint_small [OF assms(2)]) simp
  also have "\<dots> = int (unat a) - int (unat b)"
    using assms [folded int_less_pow_iff] by (intro signed_take_bit_int_eq_self) linarith+
  finally show ?thesis .
qed

lemma unat_urgent_gain_limit: "unat urgent_gain_limit = 2 ^ 34"
  by (simp add: urgent_gain_limit_def)

section \<open>Properties\<close>

text \<open>C15: for byte counts below \<open>2^63\<close> (every size a process can have),
  getApproxBytesToWriteToDisk is the truncated difference of the memory
  used before and after the flush.\<close>

theorem ift_bytes_to_write_eq:
  assumes "unat (memory_before_bytes (ift_flush_stats t)) < 2 ^ 63"
    and "unat (memory_after_bytes (ift_flush_stats t)) < 2 ^ 63"
  shows "unat (ift_getApproxBytesToWriteToDisk t) =
         unat (memory_before_bytes (ift_flush_stats t)) - unat (memory_after_bytes (ift_flush_stats t))"
proof -
  let ?b = "memory_before_bytes (ift_flush_stats t)" and ?a = "memory_after_bytes (ift_flush_stats t)"
  have cmp: "?a <s ?b \<longleftrightarrow> unat ?a < unat ?b" using assms by (intro sless_small)
  show ?thesis
  proof (cases "unat ?a < unat ?b")
    case True
    then have "?a \<le> ?b" by (simp add: word_le_nat_alt)
    with True cmp show ?thesis
      by (simp add: ift_getApproxBytesToWriteToDisk_def ift_getApproxMemoryGain_def unat_sub)
  next
    case False
    with cmp show ?thesis by (simp add: ift_getApproxBytesToWriteToDisk_def ift_getApproxMemoryGain_def)
  qed
qed

text \<open>C16: for byte counts below \<open>2^63\<close>, needUrgentFlush holds exactly when
  more memory indexes are frozen than allowed or the flush would free more
  than 16 GiB.\<close>

theorem ift_needUrgentFlush_iff:
  assumes "unat (memory_before_bytes (ift_flush_stats t)) < 2 ^ 63"
    and "unat (memory_after_bytes (ift_flush_stats t)) < 2 ^ 63"
  shows "ift_needUrgentFlush t \<longleftrightarrow>
         ift_max_frozen t < ift_num_frozen t \<or>
         int (unat (memory_before_bytes (ift_flush_stats t))) -
           int (unat (memory_after_bytes (ift_flush_stats t))) > 16 * 2 ^ 30"
proof -
  have lim: "sint urgent_gain_limit = 16 * 2 ^ 30"
    using sint_small [of urgent_gain_limit] by (simp add: unat_urgent_gain_limit)
  show ?thesis
    using sint_sub_small [OF assms]
    by (simp add: ift_needUrgentFlush_def word_sless_alt lim gain_gain_def ift_getApproxMemoryGain_def)
qed

text \<open>C17: a byte count of \<open>2^63\<close> or more is read as a negative
  \<open>int64_t\<close>: whenever the memory before the flush is at least \<open>2^63\<close>
  bytes and the memory after it below \<open>2^63\<close>, so that the flush would
  free memory, getApproxBytesToWriteToDisk reports nothing to write.\<close>

theorem ift_huge_sizes_read_negative:
  assumes "2 ^ 63 \<le> unat (memory_before_bytes (ift_flush_stats t))"
    and "unat (memory_after_bytes (ift_flush_stats t)) < 2 ^ 63"
  shows "ift_getApproxBytesToWriteToDisk t = 0"
proof -
  have "sint (memory_before_bytes (ift_flush_stats t)) < 0" using assms(1) by (rule sint_big_neg)
  moreover have "0 \<le> sint (memory_after_bytes (ift_flush_stats t))"
    using sint_small [OF assms(2)] by simp
  ultimately show ?thesis
    by (simp add: ift_getApproxBytesToWriteToDisk_def ift_getApproxMemoryGain_def word_sless_alt)
qed

section \<open>Witnesses\<close>

theorem ift_bytes_to_write_eq_witness:
  "unat (memory_before_bytes (ift_flush_stats \<lparr>ift_name = ''memoryindex.flush'', ift_type = FLUSH, ift_component = INDEX,
      ift_flush_stats = \<lparr>memory_before_bytes = 100, memory_after_bytes = 40\<rparr>,
      ift_num_frozen = 1, ift_max_frozen = 2, ift_last_stats = \<lparr>fls_path_elements_to_log = 7\<rparr>\<rparr>)) < 2 ^ 63 \<and>
   unat (memory_after_bytes (ift_flush_stats \<lparr>ift_name = ''memoryindex.flush'', ift_type = FLUSH, ift_component = INDEX,
      ift_flush_stats = \<lparr>memory_before_bytes = 100, memory_after_bytes = 40\<rparr>,
      ift_num_frozen = 1, ift_max_frozen = 2, ift_last_stats = \<lparr>fls_path_elements_to_log = 7\<rparr>\<rparr>)) < 2 ^ 63 \<and>
   unat (ift_getApproxBytesToWriteToDisk \<lparr>ift_name = ''memoryindex.flush'', ift_type = FLUSH, ift_component = INDEX,
      ift_flush_stats = \<lparr>memory_before_bytes = 100, memory_after_bytes = 40\<rparr>,
      ift_num_frozen = 1, ift_max_frozen = 2, ift_last_stats = \<lparr>fls_path_elements_to_log = 7\<rparr>\<rparr>) = 60"
proof -
  let ?t = "\<lparr>ift_name = ''memoryindex.flush'', ift_type = FLUSH, ift_component = INDEX,
      ift_flush_stats = \<lparr>memory_before_bytes = 100, memory_after_bytes = 40\<rparr>,
      ift_num_frozen = 1, ift_max_frozen = 2, ift_last_stats = \<lparr>fls_path_elements_to_log = 7\<rparr>\<rparr> :: index_flush_target"
  have h: "unat (memory_before_bytes (ift_flush_stats ?t)) < 2 ^ 63"
    "unat (memory_after_bytes (ift_flush_stats ?t)) < 2 ^ 63" by simp_all
  show ?thesis using h ift_bytes_to_write_eq [OF h] by simp
qed

theorem ift_needUrgentFlush_iff_witness:
  "unat (memory_before_bytes (ift_flush_stats \<lparr>ift_name = ''memoryindex.flush'', ift_type = FLUSH, ift_component = INDEX,
      ift_flush_stats = \<lparr>memory_before_bytes = 20 * 2 ^ 30, memory_after_bytes = 2 ^ 30\<rparr>,
      ift_num_frozen = 1, ift_max_frozen = 2, ift_last_stats = \<lparr>fls_path_elements_to_log = 7\<rparr>\<rparr>)) < 2 ^ 63 \<and>
   unat (memory_after_bytes (ift_flush_stats \<lparr>ift_name = ''memoryindex.flush'', ift_type = FLUSH, ift_component = INDEX,
      ift_flush_stats = \<lparr>memory_before_bytes = 20 * 2 ^ 30, memory_after_bytes = 2 ^ 30\<rparr>,
      ift_num_frozen = 1, ift_max_frozen = 2, ift_last_stats = \<lparr>fls_path_elements_to_log = 7\<rparr>\<rparr>)) < 2 ^ 63 \<and>
   ift_needUrgentFlush \<lparr>ift_name = ''memoryindex.flush'', ift_type = FLUSH, ift_component = INDEX,
      ift_flush_stats = \<lparr>memory_before_bytes = 20 * 2 ^ 30, memory_after_bytes = 2 ^ 30\<rparr>,
      ift_num_frozen = 1, ift_max_frozen = 2, ift_last_stats = \<lparr>fls_path_elements_to_log = 7\<rparr>\<rparr>"
proof -
  let ?t = "\<lparr>ift_name = ''memoryindex.flush'', ift_type = FLUSH, ift_component = INDEX,
      ift_flush_stats = \<lparr>memory_before_bytes = 20 * 2 ^ 30, memory_after_bytes = 2 ^ 30\<rparr>,
      ift_num_frozen = 1, ift_max_frozen = 2, ift_last_stats = \<lparr>fls_path_elements_to_log = 7\<rparr>\<rparr> :: index_flush_target"
  have h: "unat (memory_before_bytes (ift_flush_stats ?t)) < 2 ^ 63"
    "unat (memory_after_bytes (ift_flush_stats ?t)) < 2 ^ 63" by simp_all
  show ?thesis using h ift_needUrgentFlush_iff [OF h] by simp
qed

theorem ift_huge_sizes_read_negative_witness:
  "2 ^ 63 \<le> unat (memory_before_bytes (ift_flush_stats \<lparr>ift_name = ''memoryindex.flush'', ift_type = FLUSH,
      ift_component = INDEX, ift_flush_stats = \<lparr>memory_before_bytes = 2 ^ 63 + 2 ^ 40, memory_after_bytes = 2 ^ 40\<rparr>,
      ift_num_frozen = 0, ift_max_frozen = 2, ift_last_stats = \<lparr>fls_path_elements_to_log = 7\<rparr>\<rparr>)) \<and>
   unat (memory_after_bytes (ift_flush_stats \<lparr>ift_name = ''memoryindex.flush'', ift_type = FLUSH,
      ift_component = INDEX, ift_flush_stats = \<lparr>memory_before_bytes = 2 ^ 63 + 2 ^ 40, memory_after_bytes = 2 ^ 40\<rparr>,
      ift_num_frozen = 0, ift_max_frozen = 2, ift_last_stats = \<lparr>fls_path_elements_to_log = 7\<rparr>\<rparr>)) < 2 ^ 63 \<and>
   ift_getApproxBytesToWriteToDisk \<lparr>ift_name = ''memoryindex.flush'', ift_type = FLUSH,
      ift_component = INDEX, ift_flush_stats = \<lparr>memory_before_bytes = 2 ^ 63 + 2 ^ 40, memory_after_bytes = 2 ^ 40\<rparr>,
      ift_num_frozen = 0, ift_max_frozen = 2, ift_last_stats = \<lparr>fls_path_elements_to_log = 7\<rparr>\<rparr> = 0"
proof -
  let ?t = "\<lparr>ift_name = ''memoryindex.flush'', ift_type = FLUSH,
      ift_component = INDEX, ift_flush_stats = \<lparr>memory_before_bytes = 2 ^ 63 + 2 ^ 40, memory_after_bytes = 2 ^ 40\<rparr>,
      ift_num_frozen = 0, ift_max_frozen = 2, ift_last_stats = \<lparr>fls_path_elements_to_log = 7\<rparr>\<rparr> :: index_flush_target"
  have h: "2 ^ 63 \<le> unat (memory_before_bytes (ift_flush_stats ?t))"
    "unat (memory_after_bytes (ift_flush_stats ?t)) < 2 ^ 63" by simp_all
  show ?thesis using h ift_huge_sizes_read_negative [OF h] by simp
qed

end
