(* ===== verification/Get_Opt.thy ===== *)
theory Get_Opt
  imports Prelude
begin

text \<open>
  Command-line option scanning as \<open>FastOS_Application::GetOpt\<close> performs it:
  it calls the C library's \<open>getopt(3)\<close> (GNU semantics) with the option
  string, one option per call, advancing the index. The model scans the
  whole argument vector at once and returns the options in the order
  \<open>GetOpt\<close> returns them, each with its argument, and the operands in the
  order GNU \<open>getopt\<close> leaves them at the end of the permuted vector: a
  token that starts with \<open>-\<close> and has more characters is a group of options,
  \<open>--\<close> ends the options, every other token is an operand. An option
  character not in the option string, or a missing required argument, is
  returned as \<open>?\<close>. The library is not part of the repository.
\<close>

datatype opt_kind = NoArg | ReqArg

text \<open>The kind of an option character in an option string such as \<open>''pasf:eh''\<close>.\<close>

fun opt_lookup :: "string \<Rightarrow> char \<Rightarrow> opt_kind option" where
  "opt_lookup [] c = None"
| "opt_lookup (x # rest) c =
     (if x = CHR '':'' then opt_lookup rest c
      else if x = c then Some (case rest of y # _ \<Rightarrow> if y = CHR '':'' then ReqArg else NoArg | [] \<Rightarrow> NoArg)
      else opt_lookup rest c)"

text \<open>
  The options of one group token (its characters after the dash). An option
  with a required argument takes the rest of the token; at the end of the
  token it takes the next token of the vector, which the group reports as
  \<open>Some c\<close>.
\<close>

fun getopt_group :: "string \<Rightarrow> string \<Rightarrow> (char \<times> string) list \<times> char option" where
  "getopt_group os [] = ([], None)"
| "getopt_group os (c # cs) =
     (case opt_lookup os c of
        None \<Rightarrow> (let (r, more) = getopt_group os cs in ((CHR ''?'', []) # r, more))
      | Some NoArg \<Rightarrow> (let (r, more) = getopt_group os cs in ((c, []) # r, more))
      | Some ReqArg \<Rightarrow> (if cs \<noteq> [] then ([(c, cs)], None) else ([], Some c)))"

definition is_option_token :: "string \<Rightarrow> bool" where
  "is_option_token a \<longleftrightarrow> 2 \<le> length a \<and> hd a = CHR ''-''"

fun getopt_scan :: "string \<Rightarrow> string list \<Rightarrow> (char \<times> string) list \<times> string list" where
  "getopt_scan os [] = ([], [])"
| "getopt_scan os (a # as) =
     (if a = ''--'' then ([], as)
      else if is_option_token a then
        (case getopt_group os (tl a) of
           (o1, None) \<Rightarrow> (let (o2, ops) = getopt_scan os as in (o1 @ o2, ops))
         | (o1, Some c) \<Rightarrow>
             (case as of
                [] \<Rightarrow> (o1 @ [(CHR ''?'', [])], [])
              | b # bs \<Rightarrow> (let (o2, ops) = getopt_scan os bs in (o1 @ (c, b) # o2, ops))))
      else (let (opts, ops) = getopt_scan os as in (opts, a # ops)))"

text \<open>The argument vector that spells out a list of options, one token per option and argument.\<close>

definition encode_opt :: "string \<Rightarrow> char \<times> string \<Rightarrow> string list" where
  "encode_opt os ca = (case ca of (c, a) \<Rightarrow> if opt_lookup os c = Some ReqArg then [[CHR ''-'', c], a] else [[CHR ''-'', c]])"

section \<open>Round trip\<close>

text \<open>
  Options written one per token (and a required argument as the next
  token) are scanned back as written, provided no option is the dash itself
  (\<open>--\<close> would end the options) and the operand is no option token.
\<close>

lemma getopt_scan_roundtrip:
  assumes "\<forall>(c, a) \<in> set opts. c \<noteq> CHR ''-'' \<and> (opt_lookup os c = Some NoArg \<and> a = [] \<or> opt_lookup os c = Some ReqArg)"
    and "\<not> is_option_token f" "f \<noteq> ''--''"
  shows "getopt_scan os (concat (map (encode_opt os) opts) @ [f]) = (opts, [f])"
  using assms(1)
proof (induction opts)
  case Nil
  then show ?case using assms(2,3) by simp
next
  case (Cons ca opts)
  obtain c a where ca: "ca = (c, a)" by (cases ca)
  have tok: "is_option_token [CHR ''-'', c]" "[CHR ''-'', c] \<noteq> ''--''"
    using Cons.prems ca by (auto simp: is_option_token_def)
  have ih: "getopt_scan os (concat (map (encode_opt os) opts) @ [f]) = (opts, [f])"
    using Cons.prems by (intro Cons.IH) auto
  show ?case
  proof (cases "opt_lookup os c = Some ReqArg")
    case True
    then have "encode_opt os ca = [[CHR ''-'', c], a]" using ca by (simp add: encode_opt_def)
    then show ?thesis using True tok ih ca by simp
  next
    case False
    then have na: "opt_lookup os c = Some NoArg" "a = []" using Cons.prems ca by auto
    then have "encode_opt os ca = [[CHR ''-'', c]]" using ca by (simp add: encode_opt_def)
    then show ?thesis using na tok ih ca by simp
  qed
qed

end
