(* ===== verification/Load_Attribute.thy ===== *)
theory Load_Attribute
  imports Get_Opt
begin

text \<open>
  The \<open>loadattribute\<close> tool (\<open>src/searchlib/src/apps/loadattribute/loadattribute.cpp\<close>).
  \<open>Main\<close> scans the options \<open>''pasf:eh''\<close> with \<open>GetOpt\<close>, sets one flag per
  option (\<open>-f\<close> accepts only the argument \<open>search\<close>), prints the usage and
  returns -1 unless exactly one operand remains and no option was wrong, and
  otherwise reads the attribute's header, creates, loads and optionally
  updates, prints and saves the attribute. The file and attribute
  operations are the steps of a plan (a list of \<open>la_step\<close>), and so are the
  messages on the standard streams; a timing report is the step
  \<open>ReportTime\<close> (the seconds it prints are measured, not computed), and
  whether \<open>f.out\<close> can be opened is a parameter \<open>can_open\<close> of the file
  system. The message \<open>getopt\<close> itself prints for an unknown option is not
  a step. \<open>applyUpdate\<close> is the list of changes it makes to the attribute;
  \<open>printContent\<close> is in \<open>Print_Content\<close>.
\<close>

section \<open>Options\<close>

record la_state =
  doPrintContent :: bool
  doApplyUpdate :: bool
  doSave :: bool
  doFastSearch :: bool
  doEnableEnumeratedSave :: bool
  doHuge :: bool
  optError :: bool
  err_out :: "string list"

definition la_init :: la_state where
  "la_init = \<lparr>doPrintContent = False, doApplyUpdate = False, doSave = False, doFastSearch = False,
              doEnableEnumeratedSave = False, doHuge = False, optError = False, err_out = []\<rparr>"

definition quote_char :: char where
  "quote_char = CHR 0x27"

text \<open>The \<open>switch\<close> on the option character in the loop of \<open>Main\<close>.\<close>

definition la_option :: "la_state \<Rightarrow> char \<times> string \<Rightarrow> la_state" where
  "la_option st opt =
     (case opt of (c, arg) \<Rightarrow>
        if c = CHR ''p'' then st\<lparr>doPrintContent := True\<rparr>
        else if c = CHR ''a'' then st\<lparr>doApplyUpdate := True\<rparr>
        else if c = CHR ''e'' then st\<lparr>doEnableEnumeratedSave := True\<rparr>
        else if c = CHR ''h'' then st\<lparr>doHuge := True\<rparr>
        else if c = CHR ''f'' then
          (if arg = ''search'' then st\<lparr>doFastSearch := True\<rparr>
           else st\<lparr>err_out := err_out st @ [''Expected 'search' or 'aggregate', got '' @ [quote_char] @ arg @ [quote_char]],
                   optError := True\<rparr>)
        else if c = CHR ''s'' then st\<lparr>doSave := True\<rparr>
        else st\<lparr>optError := True\<rparr>)"

text \<open>The \<open>while (GetOpt(...) != -1)\<close> loop.\<close>

definition la_parse :: "(char \<times> string) list \<Rightarrow> la_state" where
  "la_parse opts = fold (\<lambda>opt st. la_option st opt) opts la_init"

definition la_flags :: "la_state \<Rightarrow> bool \<times> bool \<times> bool \<times> bool \<times> bool \<times> bool \<times> bool" where
  "la_flags st = (doPrintContent st, doApplyUpdate st, doSave st, doFastSearch st,
                  doEnableEnumeratedSave st, doHuge st, optError st)"

text \<open>The options the switch rejects: an unknown character, or \<open>-f\<close> with another argument than \<open>search\<close>.\<close>

definition la_bad_option :: "char \<Rightarrow> string \<Rightarrow> bool" where
  "la_bad_option c a \<longleftrightarrow> c \<notin> set ''paehsf'' \<or> (c = CHR ''f'' \<and> a \<noteq> ''search'')"

text \<open>The loop's invariant: a message on the error stream comes with the error flag.\<close>

definition la_inv :: "la_state \<Rightarrow> bool" where
  "la_inv st \<longleftrightarrow> (err_out st = [] \<or> optError st)"

section \<open>Main\<close>

datatype la_step =
    Stdout string
  | Stderr string
  | ReadHeader string
  | CreateAttribute string bool bool
  | EnableEnumeratedSave
  | LoadAttr string
  | ReportNumDocs
  | ApplyUpdate
  | ReportTime string
  | OpenOutput string
  | PrintContent string
  | CloseOutput string
  | SaveAs string

definition la_usage :: "string list" where
  "la_usage =
     [''usage: loadattribute [-p (print content to <attribute>.out)]'',
      ''                     [-a (apply a single update)]'',
      ''                     [-s (save attribute to <attribute>.save.dat)]'',
      ''                     <attribute>'']"

text \<open>\<open>load(ptr)\<close>: the attribute's base file name is the file name it was created with.\<close>

definition la_load :: "string \<Rightarrow> la_step list" where
  "la_load f = [Stdout (''loading attribute: '' @ f), LoadAttr f, Stdout ''attribute successfully loaded'']"

text \<open>
  What \<open>Main\<close> does for the file name \<open>f\<close> once the options are accepted
  (lines 157-204): read the header of \<open>f.dat\<close>, create the attribute with
  the fast-search and huge settings, enable enumerated save, load and
  report the load time and the number of documents; then the optional
  update (timed), the print to \<open>f.out\<close> and the save to \<open>f.save\<close> (timed),
  in this order. The output stream is opened before printing; when that
  fails the code says so on standard output and goes on printing into the
  failed stream.
\<close>

definition la_plan :: "(string \<Rightarrow> bool) \<Rightarrow> string \<Rightarrow> la_state \<Rightarrow> la_step list" where
  "la_plan can_open f st =
     [ReadHeader (f @ ''.dat''), CreateAttribute f (doFastSearch st) (doHuge st)] @
     (if doEnableEnumeratedSave st then [EnableEnumeratedSave] else []) @
     la_load f @ [ReportTime ''load'', ReportNumDocs] @
     (if doApplyUpdate st then [Stdout ''applyUpdate'', ApplyUpdate, ReportTime ''update''] else []) @
     (if doPrintContent st
      then [OpenOutput (f @ ''.out'')] @
           (if can_open (f @ ''.out'') then [] else [Stdout (''failed opening: '' @ f @ ''.out'')]) @
           [Stdout ''printContent'', PrintContent (f @ ''.out''), CloseOutput (f @ ''.out'')]
      else []) @
     (if doSave st then [Stdout (''saving attribute: '' @ f @ ''.save''), SaveAs (f @ ''.save''), ReportTime ''save''] else [])"

text \<open>
  \<open>Main\<close> on the argument vector (\<open>argv[0]\<close> is the program name; \<open>GetOpt\<close>
  starts at index 1). After the scan \<open>idx\<close> is the index of the first operand
  of the permuted vector, so \<open>_argc != idx + 1\<close> says that the number of
  operands is not one, and \<open>_argv[idx]\<close> is the first operand.
\<close>

definition la_Main :: "(string \<Rightarrow> bool) \<Rightarrow> string list \<Rightarrow> la_step list \<times> int" where
  "la_Main can_open argv =
     (case getopt_scan ''pasf:eh'' (drop 1 argv) of
        (opts, operands) \<Rightarrow>
          (let st = la_parse opts
           in if length operands \<noteq> 1 \<or> optError st
              then (map Stderr (err_out st) @ map Stdout la_usage, -1)
              else (map Stderr (err_out st) @ la_plan can_open (hd operands) st, 0)))"

text \<open>
  \<open>main\<close> (lines 211-215): \<open>myApp.Entry(argc, argv)\<close> hands the argument
  vector to \<open>Main\<close> and returns its result as the exit code; FastOS's own
  initialisation around \<open>Main\<close> is not modelled.
\<close>

definition la_main :: "(string \<Rightarrow> bool) \<Rightarrow> string list \<Rightarrow> la_step list \<times> int" where
  "la_main can_open argv = la_Main can_open argv"

section \<open>applyUpdate\<close>

datatype attr_class = IntegerAttribute | FloatingPointAttribute | StringAttribute | OtherAttribute

text \<open>
  Values written by \<open>applyUpdate\<close>; a floating-point value is written by its
  integral value: the \<open>float\<close> literal \<open>123456789.5f\<close> is the \<open>float\<close>
  123456792 (the nearest one), and the \<open>update\<close> argument 123456789 is exact
  as a \<open>double\<close>.
\<close>

datatype attr_value = IntValue int | FloatValue int | StringValue string

datatype attr_op = Append nat attr_value int | Update nat attr_value | Commit

definition la_applyUpdate :: "attr_class \<Rightarrow> bool \<Rightarrow> attr_op list" where
  "la_applyUpdate cls multi =
     (case cls of
        IntegerAttribute \<Rightarrow>
          [if multi then Append 0 (IntValue 123456789) 1 else Update 0 (IntValue 123456789), Commit]
      | FloatingPointAttribute \<Rightarrow>
          [if multi then Append 0 (FloatValue 123456792) 1 else Update 0 (FloatValue 123456789), Commit]
      | StringAttribute \<Rightarrow>
          [if multi then Append 0 (StringValue ''non-existing string value'') 1
           else Update 0 (StringValue ''non-existing string value''), Commit]
      | OtherAttribute \<Rightarrow> [])"

section \<open>The option loop\<close>

lemma la_option_fields [simp]:
  "doPrintContent (la_option st (c, a)) = (doPrintContent st \<or> c = CHR ''p'')"
  "doApplyUpdate (la_option st (c, a)) = (doApplyUpdate st \<or> c = CHR ''a'')"
  "doSave (la_option st (c, a)) = (doSave st \<or> c = CHR ''s'')"
  "doFastSearch (la_option st (c, a)) = (doFastSearch st \<or> (c = CHR ''f'' \<and> a = ''search''))"
  "doEnableEnumeratedSave (la_option st (c, a)) = (doEnableEnumeratedSave st \<or> c = CHR ''e'')"
  "doHuge (la_option st (c, a)) = (doHuge st \<or> c = CHR ''h'')"
  "optError (la_option st (c, a)) = (optError st \<or> la_bad_option c a)"
  by (auto simp: la_option_def la_bad_option_def)

lemma la_option_err_out [simp]:
  "err_out (la_option st (c, a)) =
     (if c = CHR ''f'' \<and> a \<noteq> ''search''
      then err_out st @ [''Expected 'search' or 'aggregate', got '' @ [quote_char] @ a @ [quote_char]]
      else err_out st)"
  by (simp add: la_option_def)

lemma fold_la_option_field:
  assumes "\<And>st c a. f (la_option st (c, a)) = (f st \<or> P c a)"
  shows "f (fold (\<lambda>opt st. la_option st opt) opts st0) = (f st0 \<or> (\<exists>c a. (c, a) \<in> set opts \<and> P c a))"
proof (induction opts arbitrary: st0)
  case Nil
  then show ?case by simp
next
  case (Cons opt opts)
  obtain c a where opt: "opt = (c, a)" by (cases opt)
  show ?case using Cons.IH [of "la_option st0 opt"] unfolding opt by (auto simp: assms)
qed

lemma la_flags_fold:
  "la_flags (fold (\<lambda>opt st. la_option st opt) opts st0) =
     (doPrintContent st0 \<or> (\<exists>a. (CHR ''p'', a) \<in> set opts),
      doApplyUpdate st0 \<or> (\<exists>a. (CHR ''a'', a) \<in> set opts),
      doSave st0 \<or> (\<exists>a. (CHR ''s'', a) \<in> set opts),
      doFastSearch st0 \<or> (CHR ''f'', ''search'') \<in> set opts,
      doEnableEnumeratedSave st0 \<or> (\<exists>a. (CHR ''e'', a) \<in> set opts),
      doHuge st0 \<or> (\<exists>a. (CHR ''h'', a) \<in> set opts),
      optError st0 \<or> (\<exists>c a. (c, a) \<in> set opts \<and> la_bad_option c a))"
  unfolding la_flags_def
  by (simp only: fold_la_option_field [where P = "\<lambda>c a. c = CHR ''p''"] fold_la_option_field [where P = "\<lambda>c a. c = CHR ''a''"]
        fold_la_option_field [where P = "\<lambda>c a. c = CHR ''s''"] fold_la_option_field [where P = "\<lambda>c a. c = CHR ''f'' \<and> a = ''search''"]
        fold_la_option_field [where P = "\<lambda>c a. c = CHR ''e''"] fold_la_option_field [where P = "\<lambda>c a. c = CHR ''h''"]
        fold_la_option_field [where P = la_bad_option] la_option_fields) simp

lemma la_option_inv: "la_inv st \<Longrightarrow> la_inv (la_option st opt)"
  by (cases opt) (auto simp: la_inv_def la_bad_option_def)

lemma la_parse_inv: "la_inv (la_parse opts)"
proof -
  have "la_inv st \<Longrightarrow> la_inv (fold (\<lambda>opt st. la_option st opt) opts st)" for st
    by (induction opts arbitrary: st) (simp_all add: la_option_inv)
  then show ?thesis by (simp add: la_parse_def la_init_def la_inv_def)
qed

lemma la_parse_fields:
  "doApplyUpdate (la_parse opts) = (\<exists>a. (CHR ''a'', a) \<in> set opts)"
  "doPrintContent (la_parse opts) = (\<exists>a. (CHR ''p'', a) \<in> set opts)"
  "doSave (la_parse opts) = (\<exists>a. (CHR ''s'', a) \<in> set opts)"
  using la_flags_fold [of opts la_init] by (simp_all add: la_parse_def la_init_def la_flags_def)

lemma la_Main_accept:
  assumes "getopt_scan ''pasf:eh'' (drop 1 argv) = (opts, [f])" "\<not> optError (la_parse opts)"
  shows "la_Main can_open argv = (la_plan can_open f (la_parse opts), 0)"
proof -
  have "err_out (la_parse opts) = []" using la_parse_inv [of opts] assms(2) by (simp add: la_inv_def)
  then show ?thesis using assms by (simp add: la_Main_def Let_def)
qed

section \<open>Properties of Main\<close>

text \<open>C18: with one operand \<open>f\<close> and only accepted options, Main returns 0
  after the plan for \<open>f\<close>, which applies the update, prints to \<open>f.out\<close> and
  saves to \<open>f.save\<close> exactly when \<open>-a\<close>, \<open>-p\<close> and \<open>-s\<close> were given.\<close>

theorem la_Main_success:
  assumes "getopt_scan ''pasf:eh'' (drop 1 argv) = (opts, [f])" "\<not> optError (la_parse opts)"
  shows "la_Main can_open argv = (la_plan can_open f (la_parse opts), 0) \<and>
         (ApplyUpdate \<in> set (fst (la_Main can_open argv)) \<longleftrightarrow> (\<exists>a. (CHR ''a'', a) \<in> set opts)) \<and>
         (PrintContent (f @ ''.out'') \<in> set (fst (la_Main can_open argv)) \<longleftrightarrow> (\<exists>a. (CHR ''p'', a) \<in> set opts)) \<and>
         (SaveAs (f @ ''.save'') \<in> set (fst (la_Main can_open argv)) \<longleftrightarrow> (\<exists>a. (CHR ''s'', a) \<in> set opts))"
  using la_Main_accept [OF assms] by (simp add: la_plan_def la_load_def la_parse_fields [symmetric])

text \<open>C19: Main run on a command line that spells out accepted options
  (one token per option, the argument of \<open>-f\<close> as the next token) and one
  operand sees exactly those options.\<close>

theorem la_Main_command_line_roundtrip:
  assumes "\<forall>(c, a) \<in> set opts. c \<noteq> CHR ''-'' \<and>
             (opt_lookup ''pasf:eh'' c = Some NoArg \<and> a = [] \<or> opt_lookup ''pasf:eh'' c = Some ReqArg)"
    and "\<not> is_option_token f" "f \<noteq> ''--''" "\<not> optError (la_parse opts)"
  shows "la_Main can_open (prog # concat (map (encode_opt ''pasf:eh'') opts) @ [f]) = (la_plan can_open f (la_parse opts), 0)"
  using la_Main_accept [OF _ assms(4)] getopt_scan_roundtrip [OF assms(1-3)] by simp

text \<open>C20: the option loop sets each flag exactly when its option occurs
  (fast search only for \<open>-f search\<close>) and the error flag exactly when a
  rejected option occurs.\<close>

theorem la_parse_flags:
  "la_flags (la_parse opts) =
     ((\<exists>a. (CHR ''p'', a) \<in> set opts), (\<exists>a. (CHR ''a'', a) \<in> set opts), (\<exists>a. (CHR ''s'', a) \<in> set opts),
      (CHR ''f'', ''search'') \<in> set opts, (\<exists>a. (CHR ''e'', a) \<in> set opts), (\<exists>a. (CHR ''h'', a) \<in> set opts),
      (\<exists>c a. (c, a) \<in> set opts \<and> la_bad_option c a))"
  using la_flags_fold [of opts la_init] by (simp add: la_parse_def la_init_def)

text \<open>C21: when \<open>-p\<close> is given and \<open>f.out\<close> cannot be opened, the tool
  says so on standard output and still runs printContent into the failed
  stream, between opening and closing it, and exits with 0: the failure
  does not reach the exit code.\<close>

theorem la_main_open_failure:
  assumes "getopt_scan ''pasf:eh'' (drop 1 argv) = (opts, [f])" "\<not> optError (la_parse opts)"
    and "(CHR ''p'', a) \<in> set opts" "\<not> can_open (f @ ''.out'')"
  shows "snd (la_main can_open argv) = 0 \<and>
         (\<exists>pre post. fst (la_main can_open argv) =
            pre @ [OpenOutput (f @ ''.out''), Stdout (''failed opening: '' @ f @ ''.out''),
                   Stdout ''printContent'', PrintContent (f @ ''.out''), CloseOutput (f @ ''.out'')] @ post)"
proof -
  have p: "doPrintContent (la_parse opts)" using assms(3) la_parse_fields(2) by blast
  let ?st = "la_parse opts" and ?o = "f @ ''.out''"
  let ?pre = "[ReadHeader (f @ ''.dat''), CreateAttribute f (doFastSearch ?st) (doHuge ?st)] @
     (if doEnableEnumeratedSave ?st then [EnableEnumeratedSave] else []) @
     la_load f @ [ReportTime ''load'', ReportNumDocs] @
     (if doApplyUpdate ?st then [Stdout ''applyUpdate'', ApplyUpdate, ReportTime ''update''] else [])"
  let ?post = "if doSave ?st then [Stdout (''saving attribute: '' @ f @ ''.save''), SaveAs (f @ ''.save''), ReportTime ''save''] else []"
  have "la_plan can_open f ?st = ?pre @ [OpenOutput ?o, Stdout (''failed opening: '' @ ?o),
                   Stdout ''printContent'', PrintContent ?o, CloseOutput ?o] @ ?post"
    unfolding la_plan_def using p assms(4) by simp
  then have "fst (la_main can_open argv) = ?pre @ [OpenOutput ?o, Stdout (''failed opening: '' @ ?o),
                   Stdout ''printContent'', PrintContent ?o, CloseOutput ?o] @ ?post"
    "snd (la_main can_open argv) = 0"
    using la_Main_accept [OF assms(1,2)] unfolding la_main_def by simp_all
  then show ?thesis by blast
qed

section \<open>Witnesses\<close>

theorem la_Main_success_witness:
  "getopt_scan ''pasf:eh'' (drop 1 [''loadattribute'', ''-a'', ''attr'']) = ([(CHR ''a'', [])], [''attr'']) \<and>
   \<not> optError (la_parse [(CHR ''a'', [])]) \<and>
   la_Main (\<lambda>_. True) [''loadattribute'', ''-a'', ''attr''] =
     ([ReadHeader ''attr.dat'', CreateAttribute ''attr'' False False, Stdout ''loading attribute: attr'', LoadAttr ''attr'',
       Stdout ''attribute successfully loaded'', ReportTime ''load'', ReportNumDocs, Stdout ''applyUpdate'', ApplyUpdate,
       ReportTime ''update''], 0)"
proof -
  have h: "getopt_scan ''pasf:eh'' (drop 1 [''loadattribute'', ''-a'', ''attr'']) = ([(CHR ''a'', [])], [''attr''])"
    "\<not> optError (la_parse [(CHR ''a'', [])])"
    by (simp_all add: is_option_token_def la_parse_def la_init_def la_bad_option_def)
  have "la_plan (\<lambda>_. True) ''attr'' (la_parse [(CHR ''a'', [])]) =
          [ReadHeader ''attr.dat'', CreateAttribute ''attr'' False False, Stdout ''loading attribute: attr'', LoadAttr ''attr'',
       Stdout ''attribute successfully loaded'', ReportTime ''load'', ReportNumDocs, Stdout ''applyUpdate'', ApplyUpdate,
       ReportTime ''update'']"
    by (simp add: la_plan_def la_load_def la_parse_def la_init_def)
  then show ?thesis using h la_Main_success [OF h, of "\<lambda>_. True"] by simp
qed

theorem la_Main_command_line_roundtrip_witness:
  "opt_lookup ''pasf:eh'' (CHR ''f'') = Some ReqArg \<and> opt_lookup ''pasf:eh'' (CHR ''h'') = Some NoArg \<and>
   \<not> is_option_token ''attr'' \<and> ''attr'' \<noteq> ''--'' \<and>
   \<not> optError (la_parse [(CHR ''f'', ''search''), (CHR ''h'', [])]) \<and>
   la_Main (\<lambda>_. True) (''loadattribute'' # concat (map (encode_opt ''pasf:eh'') [(CHR ''f'', ''search''), (CHR ''h'', [])]) @ [''attr'']) =
     ([ReadHeader ''attr.dat'', CreateAttribute ''attr'' True True, Stdout ''loading attribute: attr'', LoadAttr ''attr'',
       Stdout ''attribute successfully loaded'', ReportTime ''load'', ReportNumDocs], 0)"
proof -
  have h: "\<forall>(c, a) \<in> set [(CHR ''f'', ''search''), (CHR ''h'', [])]. c \<noteq> CHR ''-'' \<and>
      (opt_lookup ''pasf:eh'' c = Some NoArg \<and> a = [] \<or> opt_lookup ''pasf:eh'' c = Some ReqArg)"
    "\<not> is_option_token ''attr''" "''attr'' \<noteq> ''--''"
    "\<not> optError (la_parse [(CHR ''f'', ''search''), (CHR ''h'', [])])"
    by (simp_all add: is_option_token_def la_parse_def la_init_def la_bad_option_def)
  have "la_plan (\<lambda>_. True) ''attr'' (la_parse [(CHR ''f'', ''search''), (CHR ''h'', [])]) =
          [ReadHeader ''attr.dat'', CreateAttribute ''attr'' True True, Stdout ''loading attribute: attr'', LoadAttr ''attr'',
       Stdout ''attribute successfully loaded'', ReportTime ''load'', ReportNumDocs]"
    by (simp add: la_plan_def la_load_def la_parse_def la_init_def)
  then show ?thesis using h la_Main_command_line_roundtrip [OF h, where can_open = "\<lambda>_. True" and prog = "''loadattribute''"] by simp
qed

theorem la_main_open_failure_witness:
  "getopt_scan ''pasf:eh'' (drop 1 [''loadattribute'', ''-ps'', ''attr'', ''-f'', ''search'']) =
     ([(CHR ''p'', []), (CHR ''s'', []), (CHR ''f'', ''search'')], [''attr'']) \<and>
   \<not> optError (la_parse [(CHR ''p'', []), (CHR ''s'', []), (CHR ''f'', ''search'')]) \<and>
   (CHR ''p'', []) \<in> set [(CHR ''p'', []), (CHR ''s'', []), (CHR ''f'', ''search'')] \<and>
   snd (la_main (\<lambda>_. False) [''loadattribute'', ''-ps'', ''attr'', ''-f'', ''search'']) = 0 \<and>
   (\<exists>pre post. fst (la_main (\<lambda>_. False) [''loadattribute'', ''-ps'', ''attr'', ''-f'', ''search'']) =
      pre @ [OpenOutput ''attr.out'', Stdout ''failed opening: attr.out'',
             Stdout ''printContent'', PrintContent ''attr.out'', CloseOutput ''attr.out''] @ post)"
proof -
  have h: "getopt_scan ''pasf:eh'' (drop 1 [''loadattribute'', ''-ps'', ''attr'', ''-f'', ''search'']) =
      ([(CHR ''p'', []), (CHR ''s'', []), (CHR ''f'', ''search'')], [''attr''])"
    "\<not> optError (la_parse [(CHR ''p'', []), (CHR ''s'', []), (CHR ''f'', ''search'')])"
    "(CHR ''p'', []) \<in> set [(CHR ''p'', []), (CHR ''s'', []), (CHR ''f'', ''search'')]"
    "\<not> (\<lambda>_. False) (''attr'' @ ''.out'')"
    by (simp_all add: is_option_token_def la_parse_def la_init_def la_bad_option_def)
  show ?thesis using h la_main_open_failure [OF h] by simp
qed

theorem la_parse_flags_witness:
  "la_flags (la_parse [(CHR ''p'', []), (CHR ''f'', ''aggregate'')]) = (True, False, False, False, False, False, True)"
proof -
  have "\<exists>c a. (c, a) \<in> set [(CHR ''p'', []), (CHR ''f'', ''aggregate'')] \<and> la_bad_option c a"
    by (rule exI [of _ "CHR ''f''"], rule exI [of _ "''aggregate''"]) (simp add: la_bad_option_def)
  then show ?thesis using la_parse_flags [of "[(CHR ''p'', []), (CHR ''f'', ''aggregate'')]"] by simp
qed

end
