(* ===== verification/Print_Content.thy ===== *)
theory Print_Content
  imports Prelude
begin

text \<open>
  \<open>LoadAttribute::printContent\<close>
  (\<open>src/searchlib/src/apps/loadattribute/loadattribute.cpp\<close>, lines 68-95):
  the loop over the documents of an attribute that prints each document's
  value count and values, with the value buffer carried from one document
  to the next as in the code. The loop is modelled twice: over the list of
  documents (\<open>print_docs\<close>, structural recursion) and as the code writes
  it, over a 32-bit counter (\<open>print_loop\<close>, a \<open>partial_function (option)\<close>);
  the two agree, and the counter loop returns.
\<close>

section \<open>printContent\<close>

text \<open>Decimal rendering of the numbers \<open>operator<<\<close> prints.\<close>

fun nat_str :: "nat \<Rightarrow> string" where
  "nat_str n = (if n < 10 then [char_of (48 + n)] else nat_str (n div 10) @ [char_of (48 + n mod 10)])"

definition int_str :: "int \<Rightarrow> string" where
  "int_str i = (if i < 0 then ''-'' @ nat_str (nat (- i)) else nat_str (nat i))"

text \<open>
  The attribute as \<open>printContent\<close> reads it: its maximal value count, its
  number of documents, and \<open>get(doc, buf, sz)\<close>, which returns the document's
  value count and the buffer after writing into it, or nothing when the
  read is undefined.
\<close>

record 'v attr_view =
  av_max_value_count :: u32
  av_num_docs :: u32
  av_get :: "u32 \<Rightarrow> 'v list \<Rightarrow> u32 \<Rightarrow> (u32 \<times> 'v list) option"

datatype print_error = ValueCountExceeds u32 u32 | UndefinedRead u32

text \<open>The lines printed for one document: its value count, then its values.\<close>

definition doc_lines :: "('v \<Rightarrow> string) \<Rightarrow> nat \<Rightarrow> nat \<Rightarrow> 'v list \<Rightarrow> string list" where
  "doc_lines render doc vc buf =
     (''doc '' @ nat_str doc @ '': valueCount('' @ nat_str vc @ '')'') #
     map (\<lambda>i. ''    '' @ nat_str i @ '': '' @ render (buf ! i)) [0..<vc]"

text \<open>The loop over the documents; \<open>assert(valueCount <= sz)\<close> is the error \<open>ValueCountExceeds\<close>.\<close>

fun print_docs ::
  "('v \<Rightarrow> string) \<Rightarrow> 'v attr_view \<Rightarrow> u32 \<Rightarrow> 'v list \<Rightarrow> nat list \<Rightarrow> print_error + string list" where
  "print_docs render av sz buf [] = Inr []"
| "print_docs render av sz buf (d # ds) =
     (case av_get av (of_nat d) buf sz of
        None \<Rightarrow> Inl (UndefinedRead (of_nat d))
      | Some (vc, buf') \<Rightarrow>
          if \<not> vc \<le> sz then Inl (ValueCountExceeds (of_nat d) vc)
          else map_sum id (\<lambda>ls. doc_lines render d (unat vc) buf' @ ls) (print_docs render av sz buf' ds))"

text \<open>One branch of \<open>printContent\<close>: a buffer of \<open>getMaxValueCount()\<close> default values.\<close>

definition print_content_with :: "('v \<Rightarrow> string) \<Rightarrow> 'v \<Rightarrow> 'v attr_view \<Rightarrow> print_error + string list" where
  "print_content_with render dflt av =
     print_docs render av (av_max_value_count av) (replicate (unat (av_max_value_count av)) dflt)
       [0..<unat (av_num_docs av)]"

definition render_weighted :: "string \<times> int \<Rightarrow> string" where
  "render_weighted vw = (case vw of (v, w) \<Rightarrow> ''['' @ v @ '', '' @ int_str w @ '']'')"

definition render_plain :: "string \<Rightarrow> string" where
  "render_plain v = ''['' @ v @ '']''"

text \<open>
  \<open>printContent\<close>: weighted sets are read as (string, weight) pairs, whose
  default weight is 1, other attributes as strings.
\<close>

definition la_printContent ::
  "bool \<Rightarrow> (string \<times> int) attr_view \<Rightarrow> string attr_view \<Rightarrow> print_error + string list" where
  "la_printContent weighted avw avs =
     (if weighted then print_content_with render_weighted ([], 1) avw
      else print_content_with render_plain [] avs)"

text \<open>
  The document loop as the code writes it,
  \<open>for (uint32_t doc = 0; doc < ptr->getNumDocs(); ++doc)\<close>, over a 32-bit
  counter. Its termination rests on the strict guard: the counter is below
  the document count, so \<open>++doc\<close> never wraps. It is defined as a function
  that may not return (\<open>None\<close>), and that it returns is a theorem.
\<close>

partial_function (option) print_loop ::
  "('v \<Rightarrow> string) \<Rightarrow> 'v attr_view \<Rightarrow> u32 \<Rightarrow> 'v list \<Rightarrow> u32 \<Rightarrow> (print_error + string list) option" where
  "print_loop render av sz buf doc =
     (if doc < av_num_docs av then
        (case av_get av doc buf sz of
           None \<Rightarrow> Some (Inl (UndefinedRead doc))
         | Some (vc, buf') \<Rightarrow>
             if \<not> vc \<le> sz then Some (Inl (ValueCountExceeds doc vc))
             else Option.bind (print_loop render av sz buf' (doc + 1))
                    (\<lambda>res. Some (map_sum id (\<lambda>ls. doc_lines render (unat doc) (unat vc) buf' @ ls) res)))
      else Some (Inr []))"


section \<open>The document loop\<close>

lemma length_doc_lines [simp]: "length (doc_lines render d vc buf) = Suc vc"
  by (simp add: doc_lines_def)

lemma print_docs_lines:
  assumes "\<forall>d \<in> set ds. \<forall>buf. length buf = unat sz \<longrightarrow>
             (\<exists>buf'. av_get av (of_nat d) buf sz = Some (cnt d, buf') \<and> length buf' = length buf)"
    and "\<forall>d \<in> set ds. cnt d \<le> sz" "length buf = unat sz"
  shows "\<exists>ls. print_docs render av sz buf ds = Inr ls \<and>
             length ls = length ds + sum_list (map (\<lambda>d. unat (cnt d)) ds)"
  using assms
proof (induction ds arbitrary: buf)
  case Nil
  then show ?case by simp
next
  case (Cons d ds)
  obtain buf' where get: "av_get av (of_nat d) buf sz = Some (cnt d, buf')" and len: "length buf' = length buf"
    using Cons.prems(1,3) by auto
  obtain ls where ls: "print_docs render av sz buf' ds = Inr ls"
    "length ls = length ds + sum_list (map (\<lambda>d. unat (cnt d)) ds)"
    using Cons.IH [of buf'] Cons.prems len by auto
  show ?case using get ls Cons.prems(2) by simp
qed

lemma print_loop_eq:
  "print_loop render av sz buf doc = Some (print_docs render av sz buf [unat doc..<unat (av_num_docs av)])"
proof (induction "unat (av_num_docs av) - unat doc" arbitrary: doc buf)
  case 0
  then have "\<not> doc < av_num_docs av" by (simp add: word_less_nat_alt)
  then show ?case using 0 by (simp add: print_loop.simps)
next
  case (Suc k)
  then have lt: "doc < av_num_docs av" by (simp add: word_less_nat_alt)
  have up: "[unat doc..<unat (av_num_docs av)] = unat doc # [unat (doc + 1)..<unat (av_num_docs av)]"
    using lt by (simp add: unat_succ_below upt_conv_Cons word_less_nat_alt)
  have k: "k = unat (av_num_docs av) - unat (doc + 1)" using Suc.hyps(2) lt by (simp add: unat_succ_below)
  show ?case
  proof (cases "av_get av doc buf sz")
    case None
    then show ?thesis using lt up by (simp add: print_loop.simps)
  next
    case (Some p)
    obtain vc buf' where p: "p = (vc, buf')" by (cases p)
    show ?thesis using lt up Some p Suc.hyps(1) [OF k, of buf'] by (simp add: print_loop.simps)
  qed
qed

section \<open>Properties\<close>

text \<open>C22: when get is defined on every document, keeps the buffer's size
  and returns a count within it, printContent passes its assertion and
  prints one line per document and one per value.\<close>

theorem print_content_lines:
  assumes "\<forall>d < unat (av_num_docs av). \<forall>buf. length buf = unat (av_max_value_count av) \<longrightarrow>
             (\<exists>buf'. av_get av (of_nat d) buf (av_max_value_count av) = Some (cnt d, buf') \<and> length buf' = length buf)"
    and "\<forall>d < unat (av_num_docs av). cnt d \<le> av_max_value_count av"
  shows "\<exists>ls. print_content_with render dflt av = Inr ls \<and>
             length ls = unat (av_num_docs av) + sum_list (map (\<lambda>d. unat (cnt d)) [0..<unat (av_num_docs av)])"
  using print_docs_lines [of "[0..<unat (av_num_docs av)]" "av_max_value_count av" av cnt
                          "replicate (unat (av_max_value_count av)) dflt" render] assms
  by (simp add: print_content_with_def)

text \<open>C24: printContent's document loop over its 32-bit counter returns
  for every attribute, buffer and starting document.\<close>

theorem print_loop_returns: "\<exists>res. print_loop render av sz buf doc = Some res"
  using print_loop_eq by blast

section \<open>Witnesses\<close>

theorem print_content_lines_witness:
  "\<exists>ls. print_content_with render_plain []
          \<lparr>av_max_value_count = 1, av_num_docs = 3, av_get = \<lambda>d buf sz. Some (1, buf[0 := ''v''])\<rparr> = Inr ls \<and>
        length ls = 6"
proof -
  let ?av = "\<lparr>av_max_value_count = 1, av_num_docs = 3, av_get = \<lambda>d buf sz. Some (1, buf[0 := ''v''])\<rparr> :: string attr_view"
  have h: "\<forall>d < unat (av_num_docs ?av). \<forall>buf. length buf = unat (av_max_value_count ?av) \<longrightarrow>
             (\<exists>buf'. av_get ?av (of_nat d) buf (av_max_value_count ?av) = Some ((\<lambda>d. 1) d, buf') \<and> length buf' = length buf)"
    "\<forall>d < unat (av_num_docs ?av). (\<lambda>d. 1) d \<le> av_max_value_count ?av"
    by simp_all
  show ?thesis using print_content_lines [OF h, of render_plain "[]"] by (simp add: sum_list_triv)
qed

end
