(* ===== verification/Single_Enum_Attribute.thy ===== *)
theory Single_Enum_Attribute
  imports Prelude
begin

text \<open>
  The inline readers of \<open>SingleValueEnumAttribute\<close>
  (\<open>src/searchlib/src/vespa/searchlib/attribute/singleenumattribute.h\<close>,
  lines 29-30 and 117-131). A single-value enum attribute stores one enum
  index per document in \<open>_enumIndices\<close>; an index is read through its
  \<open>ref()\<close>, a \<open>uint32_t\<close>, which is how the model keeps it. Indexing the
  vector past its end is undefined in the code and \<open>None\<close> in the model.
  \<open>get(doc, e, sz)\<close> writes the document's enum handle (or the handle with
  weight 1) into \<open>e[0]\<close> when the buffer has room, and returns the value
  count 1 in any case; writing \<open>e[0]\<close> into a buffer without an element is
  undefined in the code and \<open>None\<close> in the model. The readers are defined on every record that
  extends \<open>se_attr\<close>, as the C++ members are inherited.

  \<open>SingleValueEnumAttribute<B>\<close> derives from its template argument \<open>B\<close>
  (the enum attribute, which owns the enum store) and from
  \<open>SingleValueEnumAttributeBase\<close>: its record extends \<open>se_attr\<close> by the
  state of \<open>B\<close>, a type parameter. The header defines the default hooks
  the numeric subclass overrides (lines 72-85): considering an update or an
  arithmetic change, applying an arithmetic change and merging memory
  statistics do nothing; freezing the enum dictionary freezes the tree of
  \<open>B\<close>'s enum store, \<open>B\<close>'s operation \<open>freezeTree\<close> given as a parameter.
\<close>

record se_attr =
  se_enumIndices :: "u32 list"

definition se_getE :: "'m se_attr_scheme \<Rightarrow> u32 \<Rightarrow> u32 option" where
  "se_getE a doc = (if unat doc < length (se_enumIndices a) then Some (se_enumIndices a ! unat doc) else None)"

definition se_getEnumIndex :: "'m se_attr_scheme \<Rightarrow> u32 \<Rightarrow> u32 option" where
  "se_getEnumIndex a doc = se_getE a doc"

definition se_getEnum :: "'m se_attr_scheme \<Rightarrow> u32 \<Rightarrow> u32 option" where
  "se_getEnum a doc = se_getE a doc"

definition se_get :: "'m se_attr_scheme \<Rightarrow> u32 \<Rightarrow> u32 list \<Rightarrow> u32 \<Rightarrow> (u32 \<times> u32 list) option" where
  "se_get a doc e sz =
     (if 0 < sz then (if e = [] then None else map_option (\<lambda>h. (1, e[0 := h])) (se_getE a doc))
      else Some (1, e))"

definition se_get_weighted ::
  "'m se_attr_scheme \<Rightarrow> u32 \<Rightarrow> (u32 \<times> int) list \<Rightarrow> u32 \<Rightarrow> (u32 \<times> (u32 \<times> int) list) option" where
  "se_get_weighted a doc e sz =
     (if 0 < sz then (if e = [] then None else map_option (\<lambda>h. (1, e[0 := (h, 1)])) (se_getE a doc))
      else Some (1, e))"

record 'b se_enum_attribute = se_attr +
  se_base :: 'b

definition se_considerUpdateAttributeChange :: "'b se_enum_attribute \<Rightarrow> 'c \<Rightarrow> 'b se_enum_attribute" where
  "se_considerUpdateAttributeChange a c = a"

definition se_considerArithmeticAttributeChange ::
  "'b se_enum_attribute \<Rightarrow> 'c \<Rightarrow> 'u \<Rightarrow> 'b se_enum_attribute \<times> 'u" where
  "se_considerArithmeticAttributeChange a c newUniques = (a, newUniques)"

definition se_applyArithmeticValueChange ::
  "'b se_enum_attribute \<Rightarrow> 'c \<Rightarrow> 'p \<Rightarrow> 'b se_enum_attribute \<times> 'p" where
  "se_applyArithmeticValueChange a c updater = (a, updater)"

definition se_freezeEnumDictionary :: "('b \<Rightarrow> 'b) \<Rightarrow> 'b se_enum_attribute \<Rightarrow> 'b se_enum_attribute" where
  "se_freezeEnumDictionary freezeTree a = a\<lparr>se_base := freezeTree (se_base a)\<rparr>"

definition se_mergeMemoryStats :: "'b se_enum_attribute \<Rightarrow> 'm \<Rightarrow> 'm" where
  "se_mergeMemoryStats a total_usage = total_usage"

section \<open>Reading through the hooks\<close>

text \<open>The default hooks leave the enum indices, and so every read of the
  attribute, as they were.\<close>

lemma se_hooks_keep_indices [simp]:
  "se_enumIndices (se_considerUpdateAttributeChange a c) = se_enumIndices a"
  "se_enumIndices (fst (se_considerArithmeticAttributeChange a c u)) = se_enumIndices a"
  "se_enumIndices (fst (se_applyArithmeticValueChange a c p)) = se_enumIndices a"
  "se_enumIndices (se_freezeEnumDictionary ft a) = se_enumIndices a"
  by (simp_all add: se_considerUpdateAttributeChange_def se_considerArithmeticAttributeChange_def
      se_applyArithmeticValueChange_def se_freezeEnumDictionary_def)

lemma se_getE_indices:
  "se_enumIndices a = se_enumIndices b \<Longrightarrow> se_getE a = se_getE b"
  by (simp add: se_getE_def fun_eq_iff)

end
